theory Spec2Isabelle
  imports Complex_Main
begin

section \<open>Conventions of the embedding\<close>

text \<open>
  The two sources are \<^verbatim>\<open>mmHMM/hmm/cthmm.cpp\<close> (domain extraction, permutation
  p-values, FDR cutoff) and \<^verbatim>\<open>mmHMM/common/TwoStateHDHMM.cpp\<close> (the two-state
  explicit-duration HMM). A C++ \<^verbatim>\<open>double\<close> is modelled by a \<^typ>\<open>real\<close>: the
  arithmetic is exact, and the two library constants of \<^verbatim>\<open>numeric_limits<double>\<close>
  are written out with their IEEE-754 binary64 values. A \<^verbatim>\<open>size_t\<close> is a
  \<^typ>\<open>nat\<close>; where a sum or a difference of the source can leave the range of
  \<^verbatim>\<open>size_t\<close>, the wrap is written out at the definition. A \<^verbatim>\<open>vector\<close> is a list; an index that the source reads
  with the unchecked \<^verbatim>\<open>operator[]\<close> is read with \<open>!\<close>, and the theorems assume
  the lengths under which every such index is in range, except where an
  out-of-range index is what a property is about: there the access is a branch of
  the model that returns an error. The \<^verbatim>\<open>assert\<close> statements of the source are
  not branches of the model (they vanish under \<^verbatim>\<open>NDEBUG\<close>); what they assert is
  stated and proved, or refuted, as a property. Output to \<^verbatim>\<open>cerr\<close> under
  \<^verbatim>\<open>VERBOSE\<close> is left out.
\<close>

datatype error = OutOfBounds

definition DBL_MAX :: real where
  "DBL_MAX = (2 - 1 / 2 ^ 52) * 2 ^ 1023"

definition DBL_MIN :: real where
  "DBL_MIN = 1 / 2 ^ 1022"

text \<open>
  \<^verbatim>\<open>numeric_limits<double>::max()\<close> is \<^const>\<open>DBL_MAX\<close>, the largest finite
  double; \<^verbatim>\<open>numeric_limits<double>::min()\<close> is \<^const>\<open>DBL_MIN\<close>, the smallest
  positive normalised double. The most negative double is \<open>- DBL_MAX\<close>
  (\<^verbatim>\<open>numeric_limits<double>::lowest()\<close>).
\<close>

section \<open>Domain extraction and significance filtering\<close>

subsection \<open>Genomic regions\<close>

text \<open>
  \<^verbatim>\<open>SimpleGenomicRegion\<close> and \<^verbatim>\<open>GenomicRegion\<close> come from the smithlab
  library header \<^verbatim>\<open>GenomicRegion.hpp\<close>. The converting constructor keeps the
  chromosome and the two coordinates and fills the remaining fields with the
  library's defaults (name \<^verbatim>\<open>"X"\<close>, score 0, strand \<^verbatim>\<open>'+'\<close>).
\<close>

record SimpleGenomicRegion =
  sgr_chrom :: string
  sgr_start :: nat
  sgr_end :: nat

record GenomicRegion =
  gr_chrom :: string
  gr_start :: nat
  gr_end :: nat
  gr_name :: string
  gr_score :: real
  gr_strand :: char

definition GenomicRegion_of :: "SimpleGenomicRegion \<Rightarrow> GenomicRegion" where
  "GenomicRegion_of c =
     \<lparr>gr_chrom = sgr_chrom c, gr_start = sgr_start c, gr_end = sgr_end c,
      gr_name = ''X'', gr_score = 0, gr_strand = CHR ''+''\<rparr>"

text \<open>\<^verbatim>\<open>toa\<close> prints a number in decimal.\<close>

fun toa :: "nat \<Rightarrow> string" where
  "toa n = (if n < 10 then [''0123456789'' ! n]
            else toa (n div 10) @ [''0123456789'' ! (n mod 10)])"

declare toa.simps [simp del]

definition CLASS_ID :: int where
  "CLASS_ID = 1"

subsection \<open>\<^verbatim>\<open>get_domain_scores\<close>\<close>

record ds_state =
  ds_n_cpgs :: nat
  ds_in_domain :: bool
  ds_score :: real
  ds_scores :: "real list"

definition get_domain_scores_step ::
  "int list \<Rightarrow> (real \<times> real) list \<Rightarrow> ds_state \<Rightarrow> nat \<Rightarrow> ds_state" where
  "get_domain_scores_step classes meth st i =
     (if classes ! i = CLASS_ID then
        st\<lparr>ds_in_domain := True,
           ds_score := ds_score st + (1 - fst (meth ! i) / (fst (meth ! i) + snd (meth ! i))),
           ds_n_cpgs := ds_n_cpgs st + 1\<rparr>
      else if ds_in_domain st then
        st\<lparr>ds_in_domain := False,
           ds_scores := ds_scores st @ [ds_score st],
           ds_score := 0\<rparr>
      else st)"

definition get_domain_scores_run ::
  "int list \<Rightarrow> (real \<times> real) list \<Rightarrow> real list \<Rightarrow> nat \<Rightarrow> ds_state" where
  "get_domain_scores_run classes meth scores n =
     foldl (get_domain_scores_step classes meth)
       \<lparr>ds_n_cpgs = 0, ds_in_domain = False, ds_score = 0, ds_scores = scores\<rparr> [0..<n]"

text \<open>The third argument is the vector the caller passes by reference; the result is
  that vector after the call.\<close>

definition get_domain_scores ::
  "int list \<Rightarrow> (real \<times> real) list \<Rightarrow> real list \<Rightarrow> real list" where
  "get_domain_scores classes meth scores =
     ds_scores (get_domain_scores_run classes meth scores (length classes))"

subsection \<open>\<^verbatim>\<open>assign_p_values\<close>\<close>

text \<open>\<^verbatim>\<open>std::upper_bound\<close> on a sorted range: the position of the first element
  greater than the value.\<close>

definition upper_bound :: "real list \<Rightarrow> real \<Rightarrow> nat" where
  "upper_bound xs v = length (takeWhile (\<lambda>x. \<not> v < x) xs)"

definition assign_p_values :: "real list \<Rightarrow> real list \<Rightarrow> real list \<Rightarrow> real list" where
  "assign_p_values random_scores observed_scores p_values =
     (let n_randoms = (if length random_scores = 0 then 1 else real (length random_scores))
      in p_values @
         map (\<lambda>i. real (length random_scores - upper_bound random_scores (observed_scores ! i))
                    / n_randoms)
             [0..<length observed_scores])"

subsection \<open>\<^verbatim>\<open>get_fdr_cutoff\<close>\<close>

text \<open>The scan \<^verbatim>\<open>for (; i < local.size() - 1 && local[i+1] < fdr*(i+1)/local.size(); ++i);\<close>
  on a non-empty vector.\<close>

function fdr_scan :: "real list \<Rightarrow> real \<Rightarrow> nat \<Rightarrow> nat" where
  "fdr_scan local fdr i =
     (if i < length local - 1 \<and> local ! (i + 1) < fdr * real (i + 1) / real (length local)
      then fdr_scan local fdr (i + 1) else i)"
  by pat_completeness auto
termination
  by (relation "measure (\<lambda>(local, fdr, i). length local - i)") auto

declare fdr_scan.simps [simp del]

text \<open>On an empty vector \<^verbatim>\<open>local.size() - 1\<close> wraps to the largest \<^verbatim>\<open>size_t\<close>, the
  loop condition goes on to read \<^verbatim>\<open>local[1]\<close>, and the read is out of range.\<close>

definition get_fdr_cutoff :: "real list \<Rightarrow> real \<Rightarrow> error + real" where
  "get_fdr_cutoff scores fdr =
     (if fdr \<le> 0 then Inr DBL_MAX
      else if fdr > 1 then Inr DBL_MIN
      else (let local = sort scores
            in if local = [] then Inl OutOfBounds
               else Inr (local ! fdr_scan local fdr 0)))"

subsection \<open>\<^verbatim>\<open>build_domains\<close>\<close>

record bd_state =
  bd_n_cpgs :: nat
  bd_n_domains :: nat
  bd_prev_end :: nat
  bd_in_domain :: bool
  bd_score :: real
  bd_domains :: "GenomicRegion list"

definition update_back :: "('a \<Rightarrow> 'a) \<Rightarrow> 'a list \<Rightarrow> 'a list" where
  "update_back f xs = xs[length xs - 1 := f (xs ! (length xs - 1))]"

definition build_domains_step ::
  "SimpleGenomicRegion list \<Rightarrow> real list \<Rightarrow> int list \<Rightarrow> bd_state \<Rightarrow> nat \<Rightarrow> bd_state" where
  "build_domains_step cpgs post_scores classes st i =
     (let st1 =
        (if classes ! i = CLASS_ID then
           (let st0 =
              (if \<not> bd_in_domain st then
                 st\<lparr>bd_in_domain := True,
                    bd_domains := bd_domains st @
                      [(GenomicRegion_of (cpgs ! i))\<lparr>gr_name := ''HYPO'' @ toa (bd_n_domains st)\<rparr>],
                    bd_n_domains := bd_n_domains st + 1\<rparr>
               else st)
            in st0\<lparr>bd_n_cpgs := bd_n_cpgs st0 + 1,
                   bd_score := bd_score st0 + post_scores ! i\<rparr>)
         else if bd_in_domain st then
           st\<lparr>bd_in_domain := False,
              bd_domains := update_back
                (\<lambda>d. d\<lparr>gr_end := bd_prev_end st, gr_score := real (bd_n_cpgs st)\<rparr>)
                (bd_domains st),
              bd_n_cpgs := 0,
              bd_score := 0\<rparr>
         else st)
      in st1\<lparr>bd_prev_end := sgr_end (cpgs ! i)\<rparr>)"

definition build_domains_run ::
  "SimpleGenomicRegion list \<Rightarrow> real list \<Rightarrow> int list \<Rightarrow> GenomicRegion list \<Rightarrow> nat \<Rightarrow> bd_state" where
  "build_domains_run cpgs post_scores classes domains n =
     foldl (build_domains_step cpgs post_scores classes)
       \<lparr>bd_n_cpgs = 0, bd_n_domains = 0, bd_prev_end = 0, bd_in_domain = False,
        bd_score = 0, bd_domains = domains\<rparr> [0..<n]"

definition build_domains ::
  "SimpleGenomicRegion list \<Rightarrow> real list \<Rightarrow> int list \<Rightarrow> GenomicRegion list \<Rightarrow> GenomicRegion list" where
  "build_domains cpgs post_scores classes domains =
     bd_domains (build_domains_run cpgs post_scores classes domains (length classes))"

subsection \<open>The filtering loop of \<^verbatim>\<open>main\<close>\<close>

text \<open>
  The loop runs over the domains and reads \<^verbatim>\<open>p_values[i]\<close> at the same index. The
  read is a branch of the model: an index past the end of \<^verbatim>\<open>p_values\<close> gives
  \<^const>\<open>OutOfBounds\<close>. The output is the list of printed lines, a renamed domain
  with its p-value.
\<close>

function write_domains_loop ::
  "bool \<Rightarrow> real list \<Rightarrow> real \<Rightarrow> GenomicRegion list \<Rightarrow> nat \<Rightarrow> nat \<Rightarrow>
   (GenomicRegion \<times> real) list \<Rightarrow> error + (GenomicRegion \<times> real) list" where
  "write_domains_loop NOFDR p_values fdr_cutoff domains i good_hmr_count out =
     (if i < length domains then
        (if i < length p_values then
           (if p_values ! i < fdr_cutoff \<or> NOFDR then
              write_domains_loop NOFDR p_values fdr_cutoff domains (i + 1) (good_hmr_count + 1)
                (out @ [((domains ! i)\<lparr>gr_name := ''HYPO'' @ toa good_hmr_count\<rparr>, p_values ! i)])
            else
              write_domains_loop NOFDR p_values fdr_cutoff domains (i + 1) good_hmr_count out)
         else Inl OutOfBounds)
      else Inr out)"
  by pat_completeness auto
termination
  by (relation "measure (\<lambda>(NOFDR, p_values, fdr_cutoff, domains, i, good, out). length domains - i)")
     auto

declare write_domains_loop.simps [simp del]

definition write_domains ::
  "bool \<Rightarrow> real list \<Rightarrow> real \<Rightarrow> GenomicRegion list \<Rightarrow> error + (GenomicRegion \<times> real) list" where
  "write_domains NOFDR p_values fdr_cutoff domains =
     write_domains_loop NOFDR p_values fdr_cutoff domains 0 0 []"

section \<open>The two-state explicit-duration HMM\<close>

subsection \<open>Collaborators and object state\<close>

text \<open>
  The emission family \<^verbatim>\<open>betabin\<close>, the duration family \<^verbatim>\<open>Distro\<close> and the helper
  \<^verbatim>\<open>log_sum_log\<close> of \<^verbatim>\<open>numerical-utils.hpp\<close> are declared outside the two source
  files. The model takes them as parameters, collected in one record: the
  emission log-likelihood \<^verbatim>\<open>operator()\<close> and \<^verbatim>\<open>fit\<close>, the duration
  \<^verbatim>\<open>log_likelihood\<close>, \<^verbatim>\<open>get_params\<close> and \<^verbatim>\<open>estimate_params_ml\<close>, and
  \<^verbatim>\<open>log_sum_log\<close>. The type \<open>'e\<close> stands for an emission object and \<open>'d\<close> for a
  duration object.
\<close>

record ('e, 'd) ext =
  emission_ll :: "'e \<Rightarrow> real \<times> real \<Rightarrow> real"
  emission_fit :: "'e \<Rightarrow> real list \<Rightarrow> real list \<Rightarrow> real list \<Rightarrow> 'e"
  duration_ll :: "'d \<Rightarrow> nat \<Rightarrow> real"
  duration_params :: "'d \<Rightarrow> real list"
  duration_ml :: "'d \<Rightarrow> real list \<Rightarrow> 'd"
  log_sum_log :: "real \<Rightarrow> real \<Rightarrow> real"

text \<open>The data members of \<^verbatim>\<open>TwoStateHDHMM\<close>.\<close>

record ('e, 'd) hmm =
  observations :: "(real \<times> real) list"
  reset_points :: "nat list"
  meth_lp :: "real list"
  unmeth_lp :: "real list"
  fg_log_likelihood :: "real list"
  bg_log_likelihood :: "real list"
  forward :: "(real \<times> real) list"
  backward :: "(real \<times> real) list"
  fg_posteriors :: "real list"
  bg_posteriors :: "real list"
  fg_emission :: 'e
  bg_emission :: 'e
  fg_duration :: 'd
  bg_duration :: 'd
  lp_sf :: real
  lp_sb :: real
  lp_ft :: real
  lp_bt :: real
  MAX_LEN :: nat
  MIN_PROB :: real
  tolerance :: real
  max_iterations :: nat
  VERBOSE :: bool

text \<open>
  Two realisations of \<^verbatim>\<open>log_sum_log\<close> serve as concrete inputs. The first is the
  log-sum-exp of its arguments. The second also reads an argument \<open>0.0\<close> as the
  empty sum, as the accumulators of the source start at \<open>0.0\<close>.
\<close>

definition lse_exact :: "real \<Rightarrow> real \<Rightarrow> real" where
  "lse_exact p q = ln (exp p + exp q)"

definition lse_sentinel :: "real \<Rightarrow> real \<Rightarrow> real" where
  "lse_sentinel p q = (if p = 0 then q else if q = 0 then p else ln (exp p + exp q))"

subsection \<open>Constructor and \<^verbatim>\<open>set_parameters\<close>\<close>

definition clamp_lp :: "real \<Rightarrow> real" where
  "clamp_lp x = ln (min (max x (1 / 100)) (1 - 1 / 100))"

text \<open>The constructor sizes every table to the observations and fills the two
  log-probability arrays. The members that \<^verbatim>\<open>set_parameters\<close> assigns later are not
  initialised by the constructor; they are arguments here.\<close>

definition TwoStateHDHMM ::
  "(real \<times> real) list \<Rightarrow> nat list \<Rightarrow> nat \<Rightarrow> real \<Rightarrow> real \<Rightarrow> nat \<Rightarrow> bool \<Rightarrow>
   'e \<Rightarrow> 'd \<Rightarrow> real \<Rightarrow> ('e, 'd) hmm" where
  "TwoStateHDHMM obs rps max_len mp tol max_itr v e0 d0 r0 =
     \<lparr>observations = obs, reset_points = rps,
      meth_lp = map (\<lambda>(m, u). clamp_lp (m / (m + u))) obs,
      unmeth_lp = map (\<lambda>(m, u). clamp_lp (u / (m + u))) obs,
      fg_log_likelihood = replicate (length obs) 0,
      bg_log_likelihood = replicate (length obs) 0,
      forward = replicate (length obs) (0, 0),
      backward = replicate (length obs) (0, 0),
      fg_posteriors = replicate (length obs) 0,
      bg_posteriors = replicate (length obs) 0,
      fg_emission = e0, bg_emission = e0, fg_duration = d0, bg_duration = d0,
      lp_sf = r0, lp_sb = r0, lp_ft = r0, lp_bt = r0,
      MAX_LEN = max_len, MIN_PROB = mp, tolerance = tol,
      max_iterations = max_itr, VERBOSE = v\<rparr>"

definition prefix_ll :: "((real \<times> real) \<Rightarrow> real) \<Rightarrow> (real \<times> real) list \<Rightarrow> real list \<Rightarrow> real list" where
  "prefix_ll em obs ll =
     foldl (\<lambda>l i. l[i := l ! (i - 1) + em (obs ! i)]) (ll[0 := em (obs ! 0)]) [1..<length obs]"

definition update_observation_likelihood :: "('e, 'd) ext \<Rightarrow> ('e, 'd) hmm \<Rightarrow> ('e, 'd) hmm" where
  "update_observation_likelihood X s =
     s\<lparr>fg_log_likelihood :=
          prefix_ll (emission_ll X (fg_emission s)) (observations s) (fg_log_likelihood s),
       bg_log_likelihood :=
          prefix_ll (emission_ll X (bg_emission s)) (observations s) (bg_log_likelihood s)\<rparr>"

definition set_parameters ::
  "('e, 'd) ext \<Rightarrow> 'e \<Rightarrow> 'e \<Rightarrow> 'd \<Rightarrow> 'd \<Rightarrow> ('e, 'd) hmm \<Rightarrow> ('e, 'd) hmm" where
  "set_parameters X fg_em bg_em fg_dur bg_dur s =
     (update_observation_likelihood X
        (s\<lparr>fg_emission := fg_em, bg_emission := bg_em,
           fg_duration := fg_dur, bg_duration := bg_dur\<rparr>))
     \<lparr>lp_sf := ln (1 / 2), lp_sb := ln (1 / 2),
      lp_ft := ln (1 / 10 ^ 10), lp_bt := ln (1 / 10 ^ 10)\<rparr>"

subsection \<open>Segment likelihoods\<close>

definition fg_segment_log_likelihood :: "('e, 'd) hmm \<Rightarrow> nat \<Rightarrow> nat \<Rightarrow> real" where
  "fg_segment_log_likelihood s start end =
     (if start = 0 then fg_log_likelihood s ! (end - 1)
      else fg_log_likelihood s ! (end - 1) - fg_log_likelihood s ! (start - 1))"

definition bg_segment_log_likelihood :: "('e, 'd) hmm \<Rightarrow> nat \<Rightarrow> nat \<Rightarrow> real" where
  "bg_segment_log_likelihood s start end =
     (if start = 0 then bg_log_likelihood s ! (end - 1)
      else bg_log_likelihood s ! (end - 1) - bg_log_likelihood s ! (start - 1))"

definition self_lp :: "('e, 'd) ext \<Rightarrow> ('e, 'd) hmm \<Rightarrow> real" where
  "self_lp X s = ln (1 - hd (duration_params X (bg_duration s)))"

definition switch_lp :: "('e, 'd) ext \<Rightarrow> ('e, 'd) hmm \<Rightarrow> real" where
  "switch_lp X s = ln (hd (duration_params X (bg_duration s)))"

definition fill_range :: "'a list \<Rightarrow> nat \<Rightarrow> nat \<Rightarrow> 'a \<Rightarrow> 'a list" where
  "fill_range xs start end v = foldl (\<lambda>l i. l[i := v]) xs [start..<end]"

subsection \<open>\<^verbatim>\<open>forward_algorithm\<close>\<close>

text \<open>The lengths \<open>l\<close> of the inner loop at position \<open>i\<close>:
  \<^verbatim>\<open>max_len = min(i - start + 1, MAX_LEN) + 1; for (l = 1; l < max_len; ++l)\<close>.\<close>

definition forward_lengths :: "('e, 'd) hmm \<Rightarrow> nat \<Rightarrow> nat \<Rightarrow> nat list" where
  "forward_lengths s start i = [1..<min (i - start + 1) (MAX_LEN s) + 1]"

text \<open>The source computes \<^verbatim>\<open>beginning = i - l + 1\<close> in \<^verbatim>\<open>size_t\<close> arithmetic: for
  \<open>l = i + 1\<close> the difference \<open>i - l\<close> wraps and the sum wraps back, so the value is
  \<open>i + 1 - l\<close> for every \<open>l \<le> i + 1\<close>.\<close>

definition forward_fg_seg_llh ::
  "('e, 'd) ext \<Rightarrow> ('e, 'd) hmm \<Rightarrow> nat \<Rightarrow> (real \<times> real) list \<Rightarrow> nat \<Rightarrow> nat \<Rightarrow> real" where
  "forward_fg_seg_llh X s start fw i l =
     (let beginning = i + 1 - l; ending = i + 1
      in if beginning = start then
           lp_sf s + fg_segment_log_likelihood s beginning ending
             + duration_ll X (fg_duration s) l
         else
           snd (fw ! (beginning - 1)) + switch_lp X s
             + fg_segment_log_likelihood s beginning ending
             + duration_ll X (fg_duration s) l)"

definition forward_step ::
  "('e, 'd) ext \<Rightarrow> ('e, 'd) hmm \<Rightarrow> nat \<Rightarrow> (real \<times> real) list \<Rightarrow> nat \<Rightarrow> (real \<times> real) list" where
  "forward_step X s start fw i =
     (let fw1 = foldl
            (\<lambda>f l. f[i := (log_sum_log X (fst (f ! i)) (forward_fg_seg_llh X s start f i l),
                            snd (f ! i))])
            fw (forward_lengths s start i)
      in fw1[i := (fst (fw1 ! i),
                   log_sum_log X (fst (fw1 ! (i - 1))) (snd (fw1 ! (i - 1)) + self_lp X s)
                     + bg_segment_log_likelihood s i (i + 1))])"

definition forward_table ::
  "('e, 'd) ext \<Rightarrow> ('e, 'd) hmm \<Rightarrow> nat \<Rightarrow> nat \<Rightarrow> (real \<times> real) list" where
  "forward_table X s start end =
     (let fw0 = fill_range (forward s) start end (0, 0);
          fw1 = fw0[start :=
                  (lp_sf s + fg_segment_log_likelihood s start (start + 1)
                     + duration_ll X (fg_duration s) 1,
                   lp_sb s + bg_segment_log_likelihood s start (start + 1))]
      in foldl (forward_step X s start) fw1 [start + 1..<end])"

definition forward_algorithm ::
  "('e, 'd) ext \<Rightarrow> ('e, 'd) hmm \<Rightarrow> nat \<Rightarrow> nat \<Rightarrow> real \<times> ('e, 'd) hmm" where
  "forward_algorithm X s start end =
     (let fw = forward_table X s start end
      in (log_sum_log X (fst (fw ! (end - 1)) + lp_ft s) (snd (fw ! (end - 1)) + lp_bt s),
          s\<lparr>forward := fw\<rparr>))"

subsection \<open>\<^verbatim>\<open>backward_algorithm\<close>\<close>

text \<open>The lengths of the inner loop at position \<open>i\<close>
  (\<^verbatim>\<open>max_len = min(end - i - 1, MAX_LEN) + 1\<close>), and of the closing loop over the
  first segment (\<^verbatim>\<open>max_len = min(end - start, MAX_LEN) + 1\<close>).\<close>

definition backward_lengths :: "('e, 'd) hmm \<Rightarrow> nat \<Rightarrow> nat \<Rightarrow> nat list" where
  "backward_lengths s end i = [1..<min (end - i - 1) (MAX_LEN s) + 1]"

definition backward_first_lengths :: "('e, 'd) hmm \<Rightarrow> nat \<Rightarrow> nat \<Rightarrow> nat list" where
  "backward_first_lengths s start end = [1..<min (end - start) (MAX_LEN s) + 1]"

definition backward_fg_seg_llh ::
  "('e, 'd) ext \<Rightarrow> ('e, 'd) hmm \<Rightarrow> (real \<times> real) list \<Rightarrow> nat \<Rightarrow> nat \<Rightarrow> real" where
  "backward_fg_seg_llh X s bw i l =
     (let beginning = i + 1; ending = i + l + 1
      in switch_lp X s + fg_segment_log_likelihood s beginning ending
           + duration_ll X (fg_duration s) l + fst (bw ! (ending - 1)))"

definition backward_step ::
  "('e, 'd) ext \<Rightarrow> ('e, 'd) hmm \<Rightarrow> nat \<Rightarrow> (real \<times> real) list \<Rightarrow> nat \<Rightarrow> (real \<times> real) list" where
  "backward_step X s end bw i =
     (let bw1 = bw[i := (bg_segment_log_likelihood s (i + 1) (i + 2) + snd (bw ! (i + 1)),
                         self_lp X s + bg_segment_log_likelihood s (i + 1) (i + 2)
                           + snd (bw ! (i + 1)))]
      in foldl
           (\<lambda>b l. b[i := (fst (b ! i),
                           log_sum_log X (snd (b ! i)) (backward_fg_seg_llh X s b i l))])
           bw1 (backward_lengths s end i))"

text \<open>The outer loop runs an \<^verbatim>\<open>int\<close> index from \<open>end - 2\<close> down to \<open>start\<close>.\<close>

definition backward_table ::
  "('e, 'd) ext \<Rightarrow> ('e, 'd) hmm \<Rightarrow> nat \<Rightarrow> nat \<Rightarrow> (real \<times> real) list" where
  "backward_table X s start end =
     (let bw0 = fill_range (backward s) start end (0, 0);
          bw1 = bw0[end - 1 := (lp_ft s, lp_bt s)]
      in foldl (backward_step X s end) bw1 (rev [start..<end - 1]))"

definition backward_first_llh ::
  "('e, 'd) ext \<Rightarrow> ('e, 'd) hmm \<Rightarrow> (real \<times> real) list \<Rightarrow> nat \<Rightarrow> nat \<Rightarrow> real" where
  "backward_first_llh X s bw start l =
     (let beginning = start; ending = start + l
      in lp_sf s + fg_segment_log_likelihood s beginning ending
           + duration_ll X (fg_duration s) l + fst (bw ! (ending - 1)))"

definition backward_algorithm ::
  "('e, 'd) ext \<Rightarrow> ('e, 'd) hmm \<Rightarrow> nat \<Rightarrow> nat \<Rightarrow> real \<times> ('e, 'd) hmm" where
  "backward_algorithm X s start end =
     (let bw = backward_table X s start end;
          llh0 = lp_sb s + bg_segment_log_likelihood s start (start + 1) + snd (bw ! start)
      in (foldl (\<lambda>llh l. log_sum_log X llh (backward_first_llh X s bw start l))
            llh0 (backward_first_lengths s start end),
          s\<lparr>backward := bw\<rparr>))"

subsection \<open>\<^verbatim>\<open>estimate_state_posterior\<close>\<close>

text \<open>The local \<^verbatim>\<open>evidence\<close> of the segment \<open>[sidx, e)\<close>, where \<open>sidx\<close> is the loop variable
  \<^verbatim>\<open>s\<close> of the source.\<close>

definition segment_evidence ::
  "('e, 'd) ext \<Rightarrow> ('e, 'd) hmm \<Rightarrow> nat \<Rightarrow> nat \<Rightarrow> nat \<Rightarrow> real" where
  "segment_evidence X s start sidx e =
     (if sidx = start then
        lp_sf s + duration_ll X (fg_duration s) (e - sidx)
          + fg_segment_log_likelihood s sidx e + fst (backward s ! (e - 1))
      else
        snd (forward s ! (sidx - 1)) + switch_lp X s
          + duration_ll X (fg_duration s) (e - sidx)
          + fg_segment_log_likelihood s sidx e + fst (backward s ! (e - 1)))"

text \<open>The ends \<open>e\<close> of the inner loop: \<^verbatim>\<open>for (e = min(s + MAX_LEN, end); e > s; --e)\<close>.
  The sum \<^verbatim>\<open>s + MAX_LEN\<close> is formed in \<^verbatim>\<open>size_t\<close>, of 64 bits, and wraps: a wrapped sum
  is below \<open>s\<close>, and the body of the loop does not run.\<close>

definition posterior_ends :: "('e, 'd) hmm \<Rightarrow> nat \<Rightarrow> nat \<Rightarrow> nat list" where
  "posterior_ends s sidx end = rev [sidx + 1..<min ((sidx + MAX_LEN s) mod 2 ^ 64) end + 1]"

definition evidence_inner ::
  "('e, 'd) ext \<Rightarrow> ('e, 'd) hmm \<Rightarrow> nat \<Rightarrow> nat \<Rightarrow> real \<times> real list \<Rightarrow> nat \<Rightarrow> real \<times> real list" where
  "evidence_inner X s start sidx st e =
     (let accu_evidence = log_sum_log X (fst st) (segment_evidence X s start sidx e)
      in (accu_evidence,
          (snd st)[e - 1 - start := log_sum_log X (snd st ! (e - 1 - start)) accu_evidence]))"

definition evidence_step ::
  "('e, 'd) ext \<Rightarrow> ('e, 'd) hmm \<Rightarrow> nat \<Rightarrow> nat \<Rightarrow> real list \<times> real list \<Rightarrow> nat \<Rightarrow>
   real list \<times> real list" where
  "evidence_step X s start end ev sidx =
     (snd (foldl (evidence_inner X s start sidx) (0, fst ev) (posterior_ends s sidx end)),
      (snd ev)[sidx - start := snd (forward s ! sidx) + snd (backward s ! sidx)])"

text \<open>The vectors \<^verbatim>\<open>fg_evidence\<close> and \<^verbatim>\<open>bg_evidence\<close> after the first loop nest.\<close>

definition posterior_evidence ::
  "('e, 'd) ext \<Rightarrow> ('e, 'd) hmm \<Rightarrow> nat \<Rightarrow> nat \<Rightarrow> real list \<times> real list" where
  "posterior_evidence X s start end =
     foldl (evidence_step X s start end)
       (replicate (end - start) 0, replicate (end - start) 0) [start..<end]"

definition posterior_step ::
  "('e, 'd) ext \<Rightarrow> nat \<Rightarrow> real list \<times> real list \<Rightarrow> ('e, 'd) hmm \<Rightarrow> nat \<Rightarrow> ('e, 'd) hmm" where
  "posterior_step X start ev s i =
     (let denom = log_sum_log X (fst ev ! (i - start)) (snd ev ! (i - start))
      in s\<lparr>fg_posteriors := (fg_posteriors s)[i := exp (fst ev ! (i - start) - denom)],
           bg_posteriors := (bg_posteriors s)[i := exp (snd ev ! (i - start) - denom)]\<rparr>)"

definition estimate_state_posterior ::
  "('e, 'd) ext \<Rightarrow> ('e, 'd) hmm \<Rightarrow> nat \<Rightarrow> nat \<Rightarrow> ('e, 'd) hmm" where
  "estimate_state_posterior X s start end =
     foldl (posterior_step X start (posterior_evidence X s start end)) s [start..<end]"

subsection \<open>\<^verbatim>\<open>estimate_parameters\<close>\<close>

definition FG_STATE :: bool where
  "FG_STATE = True"

record len_state =
  ls_prev_state :: bool
  ls_len :: nat
  ls_fg_lengths :: "real list"
  ls_bg_lengths :: "real list"

definition lengths_inner :: "('e, 'd) hmm \<Rightarrow> len_state \<Rightarrow> nat \<Rightarrow> len_state" where
  "lengths_inner s st i =
     (let state = (fg_posteriors s ! i > bg_posteriors s ! i)
      in if state = ls_prev_state st then st\<lparr>ls_len := ls_len st + 1\<rparr>
         else (if ls_prev_state st = FG_STATE
               then st\<lparr>ls_fg_lengths := ls_fg_lengths st @ [real (ls_len st)]\<rparr>
               else st\<lparr>ls_bg_lengths := ls_bg_lengths st @ [real (ls_len st)]\<rparr>)
              \<lparr>ls_prev_state := state, ls_len := 1\<rparr>)"

definition lengths_step :: "('e, 'd) hmm \<Rightarrow> real list \<times> real list \<Rightarrow> nat \<Rightarrow> real list \<times> real list" where
  "lengths_step s ls idx =
     (let start = reset_points s ! idx;
          end = reset_points s ! (idx + 1);
          st = foldl (lengths_inner s)
                 \<lparr>ls_prev_state = (fg_posteriors s ! start > bg_posteriors s ! start),
                  ls_len = 1, ls_fg_lengths = fst ls, ls_bg_lengths = snd ls\<rparr>
                 [start + 1..<end]
      in (ls_fg_lengths st, ls_bg_lengths st))"

definition estimate_parameters :: "('e, 'd) ext \<Rightarrow> ('e, 'd) hmm \<Rightarrow> ('e, 'd) hmm" where
  "estimate_parameters X s =
     (let s1 = update_observation_likelihood X
                 (s\<lparr>fg_emission :=
                      emission_fit X (fg_emission s) (meth_lp s) (unmeth_lp s) (fg_posteriors s),
                    bg_emission :=
                      emission_fit X (bg_emission s) (meth_lp s) (unmeth_lp s) (bg_posteriors s)\<rparr>);
          ls = foldl (lengths_step s1) ([], []) [0..<length (reset_points s1) - 1];
          s2 = (if length (fst ls) > 0
                then s1\<lparr>fg_duration := duration_ml X (fg_duration s1) (fst ls)\<rparr> else s1)
      in if length (snd ls) > 0
         then s2\<lparr>bg_duration := duration_ml X (bg_duration s2) (snd ls)\<rparr> else s2)"

subsection \<open>\<^verbatim>\<open>single_iteration\<close>, \<^verbatim>\<open>BaumWelchTraining\<close>, \<^verbatim>\<open>PosteriorDecoding\<close>\<close>

text \<open>One pass of the loop over the subsequences, which \<^verbatim>\<open>single_iteration\<close> and
  \<^verbatim>\<open>PosteriorDecoding\<close> both contain: forward, backward, posterior, and the forward
  score added to the total.\<close>

definition subsequence_step ::
  "('e, 'd) ext \<Rightarrow> real \<times> ('e, 'd) hmm \<Rightarrow> nat \<Rightarrow> real \<times> ('e, 'd) hmm" where
  "subsequence_step X ts i =
     (let s = snd ts;
          start = reset_points s ! i;
          end = reset_points s ! (i + 1);
          fs = forward_algorithm X s start end;
          bs = backward_algorithm X (snd fs) start end;
          s3 = estimate_state_posterior X (snd bs) start end
      in (fst ts + fst fs, s3))"

definition PosteriorDecoding :: "('e, 'd) ext \<Rightarrow> ('e, 'd) hmm \<Rightarrow> real \<times> ('e, 'd) hmm" where
  "PosteriorDecoding X s =
     foldl (subsequence_step X) (0, s) [0..<length (reset_points s) - 1]"

definition single_iteration :: "('e, 'd) ext \<Rightarrow> ('e, 'd) hmm \<Rightarrow> real \<times> ('e, 'd) hmm" where
  "single_iteration X s =
     (let ts = foldl (subsequence_step X) (0, s) [0..<length (reset_points s) - 1]
      in (fst ts, estimate_parameters X (snd ts)))"

text \<open>
  The convergence test \<^verbatim>\<open>(total - prev_total)/std::fabs(total) < tolerance\<close>. A
  division of a double by zero gives an infinity of the sign of the numerator, or
  a NaN for \<open>0/0\<close>; against a finite tolerance the comparison then holds exactly
  when the numerator is negative.
\<close>

definition converged :: "real \<Rightarrow> real \<Rightarrow> real \<Rightarrow> bool" where
  "converged total_score prev_total tol =
     (if total_score = 0 then total_score - prev_total < 0
      else (total_score - prev_total) / \<bar>total_score\<bar> < tol)"

text \<open>The loop \<^verbatim>\<open>for (i = 0; i < max_iterations; ++i)\<close>, by the number of iterations
  that remain.\<close>

fun BaumWelch_loop ::
  "('e, 'd) ext \<Rightarrow> nat \<Rightarrow> real \<Rightarrow> ('e, 'd) hmm \<Rightarrow> real \<times> ('e, 'd) hmm" where
  "BaumWelch_loop X 0 prev_total s = (prev_total, s)"
| "BaumWelch_loop X (Suc n) prev_total s =
     (let old_fg_emission = fg_emission s;
          old_bg_emission = bg_emission s;
          old_fg_duration = fg_duration s;
          old_bg_duration = bg_duration s;
          ts = single_iteration X s
      in if converged (fst ts) prev_total (tolerance (snd ts)) then
           (prev_total,
            (update_observation_likelihood X
               ((snd ts)\<lparr>fg_emission := old_fg_emission, bg_emission := old_bg_emission\<rparr>))
            \<lparr>fg_duration := old_fg_duration, bg_duration := old_bg_duration\<rparr>)
         else BaumWelch_loop X n (fst ts) (snd ts))"

definition BaumWelchTraining :: "('e, 'd) ext \<Rightarrow> ('e, 'd) hmm \<Rightarrow> real \<times> ('e, 'd) hmm" where
  "BaumWelchTraining X s = BaumWelch_loop X (max_iterations s) (- DBL_MAX) s"

definition get_posterior_scores :: "('e, 'd) hmm \<Rightarrow> real list \<times> bool list" where
  "get_posterior_scores s =
     (fg_posteriors s,
      map (\<lambda>i. fg_posteriors s ! i > bg_posteriors s ! i) [0..<length (observations s)])"

section \<open>Notions used in the statements\<close>

text \<open>A CpG site at a position of chromosome 1, for the concrete inputs.\<close>

definition cpg :: "nat \<Rightarrow> SimpleGenomicRegion" where
  "cpg p = \<lparr>sgr_chrom = ''chr1'', sgr_start = p, sgr_end = p + 1\<rparr>"

text \<open>
  The step-up rule in the words of the specification: the p-values sorted
  ascending, and the value at the largest 1-based index \<open>i\<close> with
  \<open>p[i] < q * i / n\<close>, when there is one.
\<close>

definition bh_step_up :: "real list \<Rightarrow> real \<Rightarrow> real option" where
  "bh_step_up scores q =
     (let p = sort scores;
          n = length p;
          good = filter (\<lambda>i. p ! (i - 1) < q * real i / real n) [1..<n + 1]
      in if good = [] then None else Some (p ! (last good - 1)))"

text \<open>The members that no operation after the constructor assigns, but
  \<^verbatim>\<open>set_parameters\<close> the four start and termination log-probabilities.\<close>

definition frame ::
  "('e, 'd) hmm \<Rightarrow>
   (real \<times> real) list \<times> nat list \<times> real list \<times> real list \<times> (real \<times> real \<times> real \<times> real) \<times>
   nat \<times> real \<times> real \<times> nat \<times> bool" where
  "frame s = (observations s, reset_points s, meth_lp s, unmeth_lp s,
     (lp_sf s, lp_sb s, lp_ft s, lp_bt s), MAX_LEN s, MIN_PROB s, tolerance s,
     max_iterations s, VERBOSE s)"

definition start_term_lps :: "('e, 'd) hmm \<Rightarrow> real \<times> real \<times> real \<times> real" where
  "start_term_lps s = (lp_sf s, lp_sb s, lp_ft s, lp_bt s)"

text \<open>
  The run of the training loop when no iteration breaks out of it: the object
  before iteration \<open>n\<close> (counted from 0), the total that iteration \<open>n\<close> returns, the
  value of \<^verbatim>\<open>prev_total\<close> when iteration \<open>n\<close> starts, and the convergence test of
  iteration \<open>n\<close>.
\<close>

fun em_state :: "('e, 'd) ext \<Rightarrow> ('e, 'd) hmm \<Rightarrow> nat \<Rightarrow> ('e, 'd) hmm" where
  "em_state X s 0 = s"
| "em_state X s (Suc n) = snd (single_iteration X (em_state X s n))"

definition em_score :: "('e, 'd) ext \<Rightarrow> ('e, 'd) hmm \<Rightarrow> nat \<Rightarrow> real" where
  "em_score X s n = fst (single_iteration X (em_state X s n))"

definition em_prev_total :: "('e, 'd) ext \<Rightarrow> ('e, 'd) hmm \<Rightarrow> nat \<Rightarrow> real" where
  "em_prev_total X s n = (if n = 0 then - DBL_MAX else em_score X s (n - 1))"

definition em_converged :: "('e, 'd) ext \<Rightarrow> ('e, 'd) hmm \<Rightarrow> nat \<Rightarrow> bool" where
  "em_converged X s n = converged (em_score X s n) (em_prev_total X s n) (tolerance s)"

text \<open>The emission and duration parameters of an object.\<close>

definition duration_emission :: "('e, 'd) hmm \<Rightarrow> 'e \<times> 'e \<times> 'd \<times> 'd" where
  "duration_emission s = (fg_emission s, bg_emission s, fg_duration s, bg_duration s)"

text \<open>The sizes of the six tables of an object.\<close>

definition sizes :: "('e, 'd) hmm \<Rightarrow> nat \<times> nat \<times> nat \<times> nat \<times> nat \<times> nat" where
  "sizes s = (length (forward s), length (backward s), length (fg_posteriors s),
     length (bg_posteriors s), length (fg_log_likelihood s), length (bg_log_likelihood s))"

text \<open>The emission and duration objects with the two likelihood caches: what the
  forward, backward and posterior passes read and do not assign.\<close>

definition model_params ::
  "('e, 'd) hmm \<Rightarrow> 'e \<times> 'e \<times> 'd \<times> 'd \<times> real list \<times> real list" where
  "model_params s = (fg_emission s, bg_emission s, fg_duration s, bg_duration s,
     fg_log_likelihood s, bg_log_likelihood s)"

text \<open>
  The starts \<open>b\<close> of the foreground segments \<open>[b, e)\<close> of the subsequence that contain
  position \<open>i\<close> for some end \<open>e \<le> min (b + MAX_LEN) end\<close>, in the order of the outer
  loop, and for one start \<open>b\<close> the evidence that the inner loop has accumulated
  when it reaches \<open>e = i + 1\<close>: the \<^verbatim>\<open>log_sum_log\<close> fold, from \<open>0.0\<close>, over the ends
  \<open>e\<close> from \<open>min (b + MAX_LEN) end\<close> down to \<open>i + 1\<close>.
\<close>

definition covering_starts :: "('e, 'd) hmm \<Rightarrow> nat \<Rightarrow> nat \<Rightarrow> nat \<Rightarrow> nat list" where
  "covering_starts s start end i = filter (\<lambda>b. b \<le> i \<and> i < b + MAX_LEN s) [start..<end]"

definition accumulated_evidence ::
  "('e, 'd) ext \<Rightarrow> ('e, 'd) hmm \<Rightarrow> nat \<Rightarrow> nat \<Rightarrow> nat \<Rightarrow> nat \<Rightarrow> real" where
  "accumulated_evidence X s start end b i =
     foldl (log_sum_log X) 0
       (map (segment_evidence X s start b) (rev [i + 1..<min (b + MAX_LEN s) end + 1]))"

text \<open>
  The foreground evidence in the words of the specification: the log-sum over the
  foreground segments of length at most \<open>MAX_LEN\<close> that have \<open>i\<close> as their last
  position, that is over the segments \<open>[b, i + 1)\<close>.
\<close>

definition last_position_evidence ::
  "('e, 'd) ext \<Rightarrow> ('e, 'd) hmm \<Rightarrow> nat \<Rightarrow> nat \<Rightarrow> nat \<Rightarrow> real" where
  "last_position_evidence X s start end i =
     foldl (log_sum_log X) 0
       (map (\<lambda>b. segment_evidence X s start b (i + 1)) (covering_starts s start end i))"

subsection \<open>Concrete inputs\<close>

text \<open>
  A model whose emission and duration likelihoods are 1 for every argument (log
  0), whose fitting operations return the object they are given, and whose
  \<^verbatim>\<open>log_sum_log\<close> is the log-sum-exp; and the same model with another
  \<^verbatim>\<open>log_sum_log\<close>.
\<close>

definition unit_model :: "(unit, real) ext" where
  "unit_model =
     \<lparr>emission_ll = (\<lambda>e obs. 0), emission_fit = (\<lambda>e m u w. e),
      duration_ll = (\<lambda>d l. 0), duration_params = (\<lambda>d. [d]),
      duration_ml = (\<lambda>d ls. d), log_sum_log = lse_exact\<rparr>"

definition two_sites_model :: "(real \<Rightarrow> real \<Rightarrow> real) \<Rightarrow> (unit, real) ext" where
  "two_sites_model lsl = unit_model\<lparr>log_sum_log := lsl\<rparr>"

text \<open>One observation in one subsequence, \<open>MAX_LEN = 1\<close>, tolerance \<open>1e-10\<close>, after
  \<^verbatim>\<open>set_parameters\<close>, with a given iteration budget.\<close>

definition one_site :: "nat \<Rightarrow> (unit, real) hmm" where
  "one_site max_itr =
     set_parameters unit_model () () (1 / 2) (1 / 2)
       (TwoStateHDHMM [(9, 1)] [0, 1] 1 (1 / 10 ^ 10) (1 / 10 ^ 10) max_itr False () (1 / 2) 0)"

text \<open>Two observations in one subsequence, \<open>MAX_LEN = 2\<close>, after \<^verbatim>\<open>set_parameters\<close>,
  \<^verbatim>\<open>forward_algorithm\<close> and \<^verbatim>\<open>backward_algorithm\<close> on the subsequence.\<close>

definition two_sites :: "(real \<Rightarrow> real \<Rightarrow> real) \<Rightarrow> (unit, real) hmm" where
  "two_sites lsl =
     snd (backward_algorithm (two_sites_model lsl)
       (snd (forward_algorithm (two_sites_model lsl)
          (set_parameters (two_sites_model lsl) () () (1 / 2) (1 / 2)
             (TwoStateHDHMM [(9, 1), (9, 1)] [0, 2] 2 (1 / 10 ^ 10) (1 / 10 ^ 10) 2 False
                () (1 / 2) 0))
          0 2))
       0 2)"


subsection \<open>The forward and backward tables, entry by entry\<close>

text \<open>
  The pair that one step of the outer loop of \<^verbatim>\<open>forward_algorithm\<close> leaves at
  position \<open>i\<close>, from the table \<open>fw\<close> of the positions before \<open>i\<close> and the value \<open>init\<close>
  that the foreground slot has when the inner loop starts; and the pair that one
  step of the outer loop of \<^verbatim>\<open>backward_algorithm\<close> leaves at position \<open>i\<close>, from the
  table \<open>bw\<close> of the positions after \<open>i\<close>.
\<close>

definition forward_entry ::
  "('e, 'd) ext \<Rightarrow> ('e, 'd) hmm \<Rightarrow> nat \<Rightarrow> (real \<times> real) list \<Rightarrow> nat \<Rightarrow> real \<Rightarrow> real \<times> real" where
  "forward_entry X s start fw i init =
     (foldl (log_sum_log X) init
        (map (forward_fg_seg_llh X s start fw i) (forward_lengths s start i)),
      log_sum_log X (fst (fw ! (i - 1))) (snd (fw ! (i - 1)) + self_lp X s)
        + bg_segment_log_likelihood s i (i + 1))"

definition backward_entry ::
  "('e, 'd) ext \<Rightarrow> ('e, 'd) hmm \<Rightarrow> nat \<Rightarrow> (real \<times> real) list \<Rightarrow> nat \<Rightarrow> real \<times> real" where
  "backward_entry X s end bw i =
     (bg_segment_log_likelihood s (i + 1) (i + 2) + snd (bw ! (i + 1)),
      foldl (log_sum_log X)
        (self_lp X s + bg_segment_log_likelihood s (i + 1) (i + 2) + snd (bw ! (i + 1)))
        (map (backward_fg_seg_llh X s bw i) (backward_lengths s end i)))"

text \<open>
  \<^verbatim>\<open>log_sum_log\<close> is declared in a header that is not part of the sources. What the
  two passes need from it is stated on the accumulations they perform: the fold of
  \<^verbatim>\<open>log_sum_log\<close> over the terms \<open>ts\<close>, from the initial \<open>0.0\<close> of a freshly filled slot
  or from a first term \<open>a\<close>, is the logarithm of the sum of the exponentials.
  \<open>exact_passes\<close> collects the accumulations of \<^verbatim>\<open>forward_algorithm\<close> and
  \<^verbatim>\<open>backward_algorithm\<close> on the subsequence \<open>[start, end)\<close>: the foreground and the
  background slot at every position after \<open>start\<close>, the forward total, the
  background slot of the backward table at every position before \<open>end - 1\<close>, and the
  backward total.
\<close>

definition exact_from_empty :: "(real \<Rightarrow> real \<Rightarrow> real) \<Rightarrow> real list \<Rightarrow> bool" where
  "exact_from_empty lsl ts = (exp (foldl lsl 0 ts) = sum_list (map exp ts))"

definition exact_from :: "(real \<Rightarrow> real \<Rightarrow> real) \<Rightarrow> real \<Rightarrow> real list \<Rightarrow> bool" where
  "exact_from lsl a ts = (exp (foldl lsl a ts) = exp a + sum_list (map exp ts))"

definition exact_passes :: "('e, 'd) ext \<Rightarrow> ('e, 'd) hmm \<Rightarrow> nat \<Rightarrow> nat \<Rightarrow> bool" where
  "exact_passes X s start end =
     (let fw = forward_table X s start end;
          bw = backward_table X s start end
      in list_all
           (\<lambda>i. exact_from_empty (log_sum_log X)
                   (map (forward_fg_seg_llh X s start fw i) (forward_lengths s start i)) \<and>
                 exact_from (log_sum_log X) (fst (fw ! (i - 1)))
                   [snd (fw ! (i - 1)) + self_lp X s])
           [start + 1..<end] \<and>
         exact_from (log_sum_log X) (fst (fw ! (end - 1)) + lp_ft s)
           [snd (fw ! (end - 1)) + lp_bt s] \<and>
         list_all
           (\<lambda>i. exact_from (log_sum_log X)
                   (self_lp X s + bg_segment_log_likelihood s (i + 1) (i + 2) + snd (bw ! (i + 1)))
                   (map (backward_fg_seg_llh X s bw i) (backward_lengths s end i)))
           [start..<end - 1] \<and>
         exact_from (log_sum_log X)
           (lp_sb s + bg_segment_log_likelihood s start (start + 1) + snd (bw ! start))
           (map (backward_first_llh X s bw start) (backward_first_lengths s start end)))"

text \<open>One observation in one subsequence with \<open>MAX_LEN = 0\<close>, after \<^verbatim>\<open>set_parameters\<close>.\<close>

definition site_without_foreground :: "(real \<Rightarrow> real \<Rightarrow> real) \<Rightarrow> (unit, real) hmm" where
  "site_without_foreground lsl =
     set_parameters (two_sites_model lsl) () () (1 / 2) (1 / 2)
       (TwoStateHDHMM [(9, 1)] [0, 1] 0 (1 / 10 ^ 10) (1 / 10 ^ 10) 2 False () (1 / 2) 0)"

text \<open>That object after \<^verbatim>\<open>forward_algorithm\<close>, \<^verbatim>\<open>backward_algorithm\<close> and
  \<^verbatim>\<open>estimate_state_posterior\<close> on its subsequence, in the order in which
  \<^verbatim>\<open>single_iteration\<close> calls them.\<close>

definition site_without_foreground_posterior :: "(real \<Rightarrow> real \<Rightarrow> real) \<Rightarrow> (unit, real) hmm" where
  "site_without_foreground_posterior lsl =
     estimate_state_posterior (two_sites_model lsl)
       (snd (backward_algorithm (two_sites_model lsl)
          (snd (forward_algorithm (two_sites_model lsl) (site_without_foreground lsl) 0 1))
          0 1))
       0 1"
section \<open>Properties of the domain extraction\<close>

subsection \<open>The trailing domain\<close>

lemma update_back_length [simp]: "length (update_back f xs) = length xs"
  by (simp add: update_back_def)

lemma get_domain_scores_run_Suc:
  "get_domain_scores_run classes meth scores (Suc n) =
     get_domain_scores_step classes meth (get_domain_scores_run classes meth scores n) n"
  by (simp add: get_domain_scores_run_def)

lemma build_domains_run_Suc:
  "build_domains_run cpgs post classes domains (Suc n) =
     build_domains_step cpgs post classes (build_domains_run cpgs post classes domains n) n"
  by (simp add: build_domains_run_def)

lemma domains_scores_in_step:
  "ds_in_domain (get_domain_scores_run classes meth scores n) =
     bd_in_domain (build_domains_run cpgs post classes domains n) \<and>
   bd_in_domain (build_domains_run cpgs post classes domains n) = (0 < n \<and> classes ! (n - 1) = CLASS_ID) \<and>
   length (bd_domains (build_domains_run cpgs post classes domains n)) + length scores =
     length (ds_scores (get_domain_scores_run classes meth scores n)) + length domains +
     (if bd_in_domain (build_domains_run cpgs post classes domains n) then 1 else 0)"
proof (induction n)
  case 0
  show ?case
    by (simp add: get_domain_scores_run_def build_domains_run_def)
next
  case (Suc n)
  then show ?case
    by (auto simp add: get_domain_scores_run_Suc build_domains_run_Suc
        get_domain_scores_step_def build_domains_step_def Let_def)
qed

lemma assign_p_values_length:
  "length (assign_p_values random_scores observed p_values) = length p_values + length observed"
  by (simp add: assign_p_values_def Let_def)

lemma write_domains_loop_short:
  "length p_values < length domains \<Longrightarrow> i \<le> length p_values \<Longrightarrow>
   write_domains_loop NOFDR p_values fdr_cutoff domains i good out = Inl OutOfBounds"
proof (induction "length p_values - i" arbitrary: i good out)
  case 0
  then show ?case
    by (simp add: write_domains_loop.simps)
next
  case (Suc k)
  then have "i < length p_values" by simp
  with Suc show ?case
    by (subst write_domains_loop.simps) auto
qed

text \<open>
  C10. When the last class is the foreground class 1, \<^verbatim>\<open>build_domains\<close> returns one
  domain more than \<^verbatim>\<open>get_domain_scores\<close> returns scores: the trailing run opens
  a domain and no score is pushed for it. \<^verbatim>\<open>assign_p_values\<close> gives one p-value
  per score, so the p-values are one fewer than the domains, and the filtering
  loop of \<^verbatim>\<open>main\<close>, which reads \<^verbatim>\<open>p_values[i]\<close> for every domain, reads past the
  end of \<^verbatim>\<open>p_values\<close> at the last domain.
\<close>

theorem trailing_domain_unscored:
  assumes "classes \<noteq> []" and "last classes = 1"
    and "length meth = length classes" and "length cpgs = length classes"
    and "length post_scores = length classes"
  shows "length (build_domains cpgs post_scores classes []) =
           length (get_domain_scores classes meth []) + 1 \<and>
         length (assign_p_values random_scores (get_domain_scores classes meth []) []) =
           length (get_domain_scores classes meth []) \<and>
         write_domains NOFDR
           (assign_p_values random_scores (get_domain_scores classes meth []) [])
           fdr_cutoff (build_domains cpgs post_scores classes []) = Inl OutOfBounds"
proof -
  let ?n = "length classes"
  from assms(1) have n: "0 < ?n" by simp
  from assms(1,2) have "classes ! (?n - 1) = CLASS_ID"
    by (simp add: last_conv_nth CLASS_ID_def)
  with n domains_scores_in_step [of classes meth "[]" ?n cpgs post_scores "[]"]
  have len: "length (build_domains cpgs post_scores classes []) =
      length (get_domain_scores classes meth []) + 1"
    by (simp add: build_domains_def get_domain_scores_def)
  have pl: "length (assign_p_values random_scores (get_domain_scores classes meth []) []) =
      length (get_domain_scores classes meth [])"
    by (simp add: assign_p_values_length)
  have "write_domains_loop NOFDR
      (assign_p_values random_scores (get_domain_scores classes meth []) [])
      fdr_cutoff (build_domains cpgs post_scores classes []) 0 0 [] = Inl OutOfBounds"
    by (rule write_domains_loop_short) (simp_all add: pl len)
  with len pl show ?thesis
    by (simp add: write_domains_def)
qed

theorem trailing_domain_unscored_witness:
  "[0, 1] \<noteq> ([] :: int list) \<and> last [0, 1 :: int] = 1 \<and>
   length [(1, 9), (9, 1) :: real \<times> real] = length [0, 1 :: int] \<and>
   length [cpg 0, cpg 5] = length [0, 1 :: int] \<and>
   length [1 / 10, 9 / 10 :: real] = length [0, 1 :: int] \<and>
   length (build_domains [cpg 0, cpg 5] [1 / 10, 9 / 10] [0, 1] []) =
     length (get_domain_scores [0, 1] [(1, 9), (9, 1)] []) + 1 \<and>
   length (assign_p_values [] (get_domain_scores [0, 1] [(1, 9), (9, 1)] []) []) =
     length (get_domain_scores [0, 1] [(1, 9), (9, 1)] []) \<and>
   write_domains False
     (assign_p_values [] (get_domain_scores [0, 1] [(1, 9), (9, 1)] []) [])
     (1 / 100) (build_domains [cpg 0, cpg 5] [1 / 10, 9 / 10] [0, 1] []) = Inl OutOfBounds"
  using trailing_domain_unscored [of "[0, 1]" "[(1, 9), (9, 1)]" "[cpg 0, cpg 5]"
      "[1 / 10, 9 / 10]" "[]" False "1 / 100"]
  by simp

text \<open>
  C5. The claim is that a domain still open at the last position is closed there,
  so that every domain has its end and its score set. \<^verbatim>\<open>build_domains\<close> closes a
  domain only at a later background position. On the classes \<open>0, 1, 1\<close> the one
  domain keeps the end of its first site (6, where the last site ends at 10) and
  the score 0 of the constructor (where the run has 2 sites); with a background
  position after the run the same domain ends at 10 with score 2.
\<close>

theorem build_domains_trailing_domain_open:
  "build_domains [cpg 0, cpg 5, cpg 9] [1 / 10, 9 / 10, 9 / 10] [0, 1, 1] [] =
     [\<lparr>gr_chrom = ''chr1'', gr_start = 5, gr_end = 6, gr_name = ''HYPO0'',
       gr_score = 0, gr_strand = CHR ''+''\<rparr>] \<and>
   build_domains [cpg 0, cpg 5, cpg 9, cpg 20] [1 / 10, 9 / 10, 9 / 10, 1 / 10] [0, 1, 1, 0] [] =
     [\<lparr>gr_chrom = ''chr1'', gr_start = 5, gr_end = 10, gr_name = ''HYPO0'',
       gr_score = 2, gr_strand = CHR ''+''\<rparr>]"
  by (simp add: build_domains_def build_domains_run_def upt_rec build_domains_step_def CLASS_ID_def
      GenomicRegion_of_def cpg_def toa.simps Let_def update_back_def)

subsection \<open>The FDR cutoff\<close>

lemma get_fdr_cutoff_sentinels:
  "(fdr \<le> 0 \<longrightarrow> get_fdr_cutoff scores fdr = Inr DBL_MAX) \<and>
   (1 < fdr \<longrightarrow> get_fdr_cutoff scores fdr = Inr DBL_MIN)"
  by (simp add: get_fdr_cutoff_def)

text \<open>
  C6. For a target above 1 the claim expects the most negative double. The
  function returns \<^verbatim>\<open>numeric_limits<double>::min()\<close>, which is positive: a
  p-value of 0 lies below it.
\<close>

theorem get_fdr_cutoff_min_is_positive:
  "get_fdr_cutoff [0] 2 = Inr DBL_MIN \<and> 0 < DBL_MIN \<and> - DBL_MAX < DBL_MIN"
  by (simp add: get_fdr_cutoff_def DBL_MIN_def DBL_MAX_def)

lemma fdr_scan_unfold_True:
  "i < length local - 1 \<and> local ! (i + 1) < fdr * real (i + 1) / real (length local) \<Longrightarrow>
   fdr_scan local fdr i = fdr_scan local fdr (i + 1)"
  by (subst fdr_scan.simps) simp

lemma fdr_scan_unfold_False:
  "\<not> (i < length local - 1 \<and> local ! (i + 1) < fdr * real (i + 1) / real (length local)) \<Longrightarrow>
   fdr_scan local fdr i = i"
  by (subst fdr_scan.simps) auto

lemma fdr_scan_ge: "i \<le> fdr_scan local fdr i"
proof (induction local fdr i rule: fdr_scan.induct)
  case (1 local fdr i)
  show ?case
  proof (cases "i < length local - 1 \<and> local ! (i + 1) < fdr * real (i + 1) / real (length local)")
    case True
    from "1.IH" [OF True] show ?thesis
      by (simp only: fdr_scan_unfold_True [OF True])
  next
    case False
    show ?thesis
      by (simp only: fdr_scan_unfold_False [OF False])
  qed
qed

lemma fdr_scan_less: "i < length local \<Longrightarrow> fdr_scan local fdr i < length local"
proof (induction local fdr i rule: fdr_scan.induct)
  case (1 local fdr i)
  show ?case
  proof (cases "i < length local - 1 \<and> local ! (i + 1) < fdr * real (i + 1) / real (length local)")
    case True
    then have "i + 1 < length local" by linarith
    from "1.IH" [OF True this] show ?thesis
      by (simp only: fdr_scan_unfold_True [OF True])
  next
    case False
    from "1.prems" show ?thesis
      by (simp only: fdr_scan_unfold_False [OF False])
  qed
qed

lemma fdr_scan_passed:
  "i < j \<Longrightarrow> j \<le> fdr_scan local fdr i \<Longrightarrow> local ! j < fdr * real j / real (length local)"
proof (induction local fdr i rule: fdr_scan.induct)
  case (1 local fdr i)
  show ?case
  proof (cases "i < length local - 1 \<and> local ! (i + 1) < fdr * real (i + 1) / real (length local)")
    case True
    note eq = fdr_scan_unfold_True [OF True]
    show ?thesis
    proof (cases "j = i + 1")
      case True
      with \<open>i < length local - 1 \<and> local ! (i + 1) < fdr * real (i + 1) / real (length local)\<close>
      show ?thesis by blast
    next
      case False
      with "1.prems"(1) have "i + 1 < j" by linarith
      moreover from "1.prems"(2) have "j \<le> fdr_scan local fdr (i + 1)"
        by (simp only: eq)
      ultimately show ?thesis
        by (rule "1.IH" [OF True])
    qed
  next
    case False
    from "1.prems" have "False"
      by (simp add: fdr_scan_unfold_False [OF False])
    then show ?thesis ..
  qed
qed

lemma fdr_scan_stops:
  "fdr_scan local fdr i + 1 < length local \<Longrightarrow>
   \<not> local ! (fdr_scan local fdr i + 1)
       < fdr * real (fdr_scan local fdr i + 1) / real (length local)"
proof (induction local fdr i rule: fdr_scan.induct)
  case (1 local fdr i)
  show ?case
  proof (cases "i < length local - 1 \<and> local ! (i + 1) < fdr * real (i + 1) / real (length local)")
    case True
    note eq = fdr_scan_unfold_True [OF True]
    from "1.prems" have "fdr_scan local fdr (i + 1) + 1 < length local"
      by (simp only: eq)
    from "1.IH" [OF True this] show ?thesis
      unfolding eq .
  next
    case False
    note eq = fdr_scan_unfold_False [OF False]
    from "1.prems" have "i + 1 < length local" by (simp only: eq)
    then have "i < length local - 1" by linarith
    with False have "\<not> local ! (i + 1) < fdr * real (i + 1) / real (length local)" by blast
    then show ?thesis unfolding eq .
  qed
qed

lemma upt_1_4: "[1..<4] = [1, 2, 3 :: nat]"
  by (simp add: upt_rec)

text \<open>
  C7, as the claim states it, fails: on the p-values \<open>0.5, 0.9, 0.6\<close> with target 1
  the step-up rule selects \<open>0.9\<close> (the largest index \<open>i\<close> with \<open>p[i] < i/3\<close> is 3),
  and \<^verbatim>\<open>get_fdr_cutoff\<close> returns \<open>0.5\<close>.
\<close>

theorem get_fdr_cutoff_not_step_up:
  "get_fdr_cutoff [1 / 2, 9 / 10, 3 / 5] 1 = Inr (1 / 2) \<and>
   bh_step_up [1 / 2, 9 / 10, 3 / 5] 1 = Some (9 / 10)"
proof
  show "get_fdr_cutoff [1 / 2, 9 / 10, 3 / 5] 1 = Inr (1 / 2)"
    by (simp add: get_fdr_cutoff_def fdr_scan.simps)
  have s: "sort [1 / 2, 9 / 10, 3 / 5 :: real] = [1 / 2, 3 / 5, 9 / 10]"
    by simp
  show "bh_step_up [1 / 2, 9 / 10, 3 / 5] 1 = Some (9 / 10)"
    unfolding bh_step_up_def Let_def s
    by (simp add: upt_1_4)
qed

text \<open>
  C7, amended. For a non-empty list and a target \<open>0 < q \<le> 1\<close>, \<^verbatim>\<open>get_fdr_cutoff\<close>
  sorts the values ascending and scans upwards from the first: it returns the
  sorted value at the 0-based index \<open>i\<close> where the scan stops. Every index \<open>j\<close> from 1
  to \<open>i\<close> passed the test \<open>local[j] < q * j / n\<close>, and \<open>i\<close> is the last index or the
  test fails at \<open>i + 1\<close>. The first sorted value is never tested.
\<close>

theorem get_fdr_cutoff_scan:
  assumes "scores \<noteq> []" and "0 < q" and "q \<le> 1"
  shows "\<exists>i<length scores.
           get_fdr_cutoff scores q = Inr (sort scores ! i) \<and>
           (\<forall>j. 1 \<le> j \<and> j \<le> i \<longrightarrow> sort scores ! j < q * real j / real (length scores)) \<and>
           (i + 1 < length scores \<longrightarrow>
              \<not> sort scores ! (i + 1) < q * real (i + 1) / real (length scores))"
proof -
  let ?l = "sort scores"
  from assms(1) have ne: "?l \<noteq> []" and pos: "0 < length ?l"
    by (auto simp add: length_greater_0_conv [symmetric] simp del: length_greater_0_conv)
  have res: "get_fdr_cutoff scores q = Inr (?l ! fdr_scan ?l q 0)"
    using assms ne by (simp add: get_fdr_cutoff_def Let_def)
  have "fdr_scan ?l q 0 < length scores"
    using fdr_scan_less [OF pos, of q] by simp
  moreover have "\<forall>j. 1 \<le> j \<and> j \<le> fdr_scan ?l q 0 \<longrightarrow>
      ?l ! j < q * real j / real (length scores)"
    using fdr_scan_passed [of 0 _ ?l q] by (simp add: Suc_le_eq)
  moreover have "fdr_scan ?l q 0 + 1 < length scores \<longrightarrow>
      \<not> ?l ! (fdr_scan ?l q 0 + 1) < q * real (fdr_scan ?l q 0 + 1) / real (length scores)"
    using fdr_scan_stops [of ?l q 0] by simp
  ultimately show ?thesis
    using res by blast
qed

theorem get_fdr_cutoff_scan_witness:
  "[1 / 2, 9 / 10, 3 / 5] \<noteq> ([] :: real list) \<and> (0 :: real) < 1 \<and> (1 :: real) \<le> 1 \<and>
   (\<exists>i<length [1 / 2, 9 / 10, 3 / 5 :: real].
      get_fdr_cutoff [1 / 2, 9 / 10, 3 / 5] 1 = Inr (sort [1 / 2, 9 / 10, 3 / 5] ! i) \<and>
      (\<forall>j. 1 \<le> j \<and> j \<le> i \<longrightarrow>
         sort [1 / 2, 9 / 10, 3 / 5] ! j < 1 * real j / real (length [1 / 2, 9 / 10, 3 / 5 :: real])) \<and>
      (i + 1 < length [1 / 2, 9 / 10, 3 / 5 :: real] \<longrightarrow>
         \<not> sort [1 / 2, 9 / 10, 3 / 5] ! (i + 1)
            < 1 * real (i + 1) / real (length [1 / 2, 9 / 10, 3 / 5 :: real])))"
  using get_fdr_cutoff_scan [of "[1 / 2, 9 / 10, 3 / 5]" 1] by simp

section \<open>Properties of the HMM\<close>

subsection \<open>What the operations leave unchanged\<close>

lemma foldl_keeps: "(\<And>a x. g (f a x) = g a) \<Longrightarrow> g (foldl f a xs) = g a"
  by (induction xs arbitrary: a) simp_all

lemma frame_update_observation_likelihood [simp]:
  "frame (update_observation_likelihood X s) = frame s"
  by (simp add: frame_def update_observation_likelihood_def)

lemma frame_forward_algorithm [simp]:
  "frame (snd (forward_algorithm X s a b)) = frame s"
  by (simp add: frame_def forward_algorithm_def Let_def)

lemma frame_backward_algorithm [simp]:
  "frame (snd (backward_algorithm X s a b)) = frame s"
  by (simp add: frame_def backward_algorithm_def Let_def)

lemma frame_posterior_step: "frame (posterior_step X a ev s i) = frame s"
  by (simp add: frame_def posterior_step_def Let_def)

lemma frame_estimate_state_posterior [simp]:
  "frame (estimate_state_posterior X s a b) = frame s"
  unfolding estimate_state_posterior_def
  by (rule foldl_keeps) (rule frame_posterior_step)

lemma frame_set_emissions [simp]:
  "frame (s\<lparr>fg_emission := a, bg_emission := b\<rparr>) = frame s"
  by (simp add: frame_def)

lemma frame_set_fg_duration [simp]: "frame (s\<lparr>fg_duration := c\<rparr>) = frame s"
  by (simp add: frame_def)

lemma frame_set_bg_duration [simp]: "frame (s\<lparr>bg_duration := c\<rparr>) = frame s"
  by (simp add: frame_def)

lemma frame_estimate_parameters [simp]:
  "frame (estimate_parameters X s) = frame s"
  by (simp add: estimate_parameters_def Let_def)

lemma frame_subsequence_step: "frame (snd (subsequence_step X ts i)) = frame (snd ts)"
  by (simp add: subsequence_step_def Let_def)

lemma frame_subsequences:
  "frame (snd (foldl (subsequence_step X) ts xs)) = frame (snd ts)"
  by (induction xs arbitrary: ts) (simp_all add: frame_subsequence_step)

lemma frame_PosteriorDecoding [simp]: "frame (snd (PosteriorDecoding X s)) = frame s"
  by (simp add: PosteriorDecoding_def frame_subsequences)

lemma frame_single_iteration [simp]: "frame (snd (single_iteration X s)) = frame s"
  by (simp add: single_iteration_def Let_def frame_subsequences)

lemma frame_BaumWelch_loop: "frame (snd (BaumWelch_loop X n prev s)) = frame s"
proof (induction n arbitrary: prev s)
  case 0
  show ?case by simp
next
  case (Suc n)
  show ?case
    by (simp add: Let_def Suc.IH)
qed

lemma frame_BaumWelchTraining [simp]: "frame (snd (BaumWelchTraining X s)) = frame s"
  by (simp add: BaumWelchTraining_def frame_BaumWelch_loop)

lemma lps_frame: "frame t = frame s \<Longrightarrow> start_term_lps t = start_term_lps s"
  by (simp add: frame_def start_term_lps_def)

text \<open>
  C9. \<^verbatim>\<open>set_parameters\<close> sets the two start log-probabilities to \<open>log 0.5\<close> and the
  two termination log-probabilities to \<open>log 1e-10\<close>, whatever its arguments, and
  no operation of the class changes any of the four afterwards.
\<close>

theorem start_and_termination_fixed:
  "start_term_lps (set_parameters X fg_em bg_em fg_dur bg_dur s) =
     (ln (1 / 2), ln (1 / 2), ln (1 / 10 ^ 10), ln (1 / 10 ^ 10)) \<and>
   start_term_lps (snd (single_iteration X s)) = start_term_lps s \<and>
   start_term_lps (estimate_parameters X s) = start_term_lps s \<and>
   start_term_lps (snd (BaumWelchTraining X s)) = start_term_lps s \<and>
   start_term_lps (snd (PosteriorDecoding X s)) = start_term_lps s \<and>
   start_term_lps (snd (forward_algorithm X s start end)) = start_term_lps s \<and>
   start_term_lps (snd (backward_algorithm X s start end)) = start_term_lps s \<and>
   start_term_lps (estimate_state_posterior X s start end) = start_term_lps s \<and>
   start_term_lps (update_observation_likelihood X s) = start_term_lps s"
proof (intro conjI)
  show "start_term_lps (set_parameters X fg_em bg_em fg_dur bg_dur s) =
     (ln (1 / 2), ln (1 / 2), ln (1 / 10 ^ 10), ln (1 / 10 ^ 10))"
    by (simp add: start_term_lps_def set_parameters_def)
qed (rule lps_frame, simp)+

subsection \<open>The training loop\<close>

lemma frame_em_state: "frame (em_state X s n) = frame s"
  by (induction n) simp_all

lemma frame_tolerance: "frame t = frame s \<Longrightarrow> tolerance t = tolerance s"
  by (simp add: frame_def)

lemma tolerance_em_state: "tolerance (em_state X s n) = tolerance s"
  by (rule frame_tolerance) (rule frame_em_state)

lemma tolerance_single_iteration:
  "tolerance (snd (single_iteration X (em_state X s n))) = tolerance s"
  using tolerance_em_state [of X s "Suc n"] by simp

lemma em_prev_total_Suc: "em_prev_total X s (Suc m) = em_score X s m"
  by (simp add: em_prev_total_def)

lemma BaumWelch_loop_step:
  "BaumWelch_loop X (Suc n) (em_prev_total X s m) (em_state X s m) =
     (if em_converged X s m then
        (em_prev_total X s m,
         (update_observation_likelihood X
            ((em_state X s (Suc m))\<lparr>fg_emission := fg_emission (em_state X s m),
                                     bg_emission := bg_emission (em_state X s m)\<rparr>))
         \<lparr>fg_duration := fg_duration (em_state X s m),
          bg_duration := bg_duration (em_state X s m)\<rparr>)
      else BaumWelch_loop X n (em_prev_total X s (Suc m)) (em_state X s (Suc m)))"
  by (simp add: Let_def em_converged_def em_score_def tolerance_single_iteration
      em_prev_total_Suc)

lemma BaumWelch_loop_exhausts:
  "(\<And>j. m \<le> j \<Longrightarrow> j < m + n \<Longrightarrow> \<not> em_converged X s j) \<Longrightarrow>
   BaumWelch_loop X n (em_prev_total X s m) (em_state X s m) =
     (em_prev_total X s (m + n), em_state X s (m + n))"
proof (induction n arbitrary: m)
  case 0
  show ?case by simp
next
  case (Suc n)
  have "\<not> em_converged X s m" using Suc.prems [of m] by simp
  moreover have "BaumWelch_loop X n (em_prev_total X s (Suc m)) (em_state X s (Suc m)) =
      (em_prev_total X s (Suc m + n), em_state X s (Suc m + n))"
    by (rule Suc.IH) (simp add: Suc.prems)
  ultimately show ?case
    by (simp only: BaumWelch_loop_step if_False) simp
qed

lemma BaumWelch_loop_converges:
  "m \<le> k \<Longrightarrow> k < m + n \<Longrightarrow> (\<And>j. m \<le> j \<Longrightarrow> j < k \<Longrightarrow> \<not> em_converged X s j) \<Longrightarrow>
   em_converged X s k \<Longrightarrow>
   fst (BaumWelch_loop X n (em_prev_total X s m) (em_state X s m)) = em_prev_total X s k \<and>
   duration_emission (snd (BaumWelch_loop X n (em_prev_total X s m) (em_state X s m))) =
     duration_emission (em_state X s k)"
proof (induction n arbitrary: m)
  case 0
  then show ?case by simp
next
  case (Suc n)
  show ?case
  proof (cases "m = k")
    case True
    with Suc.prems(4) show ?thesis
      by (simp only: BaumWelch_loop_step if_True)
         (simp add: duration_emission_def update_observation_likelihood_def)
  next
    case False
    with Suc.prems have lt: "m < k" by simp
    then have "\<not> em_converged X s m" using Suc.prems(3) [of m] by simp
    moreover have "fst (BaumWelch_loop X n (em_prev_total X s (Suc m)) (em_state X s (Suc m))) =
        em_prev_total X s k \<and>
      duration_emission (snd (BaumWelch_loop X n (em_prev_total X s (Suc m)) (em_state X s (Suc m)))) =
        duration_emission (em_state X s k)"
      using lt Suc.prems by (intro Suc.IH) simp_all
    ultimately show ?thesis
      by (simp only: BaumWelch_loop_step if_False)
  qed
qed

text \<open>
  C1. When the convergence test first holds at iteration \<open>k\<close>, within the budget,
  \<^verbatim>\<open>BaumWelchTraining\<close> returns the value \<^verbatim>\<open>prev_total\<close> had when iteration \<open>k\<close>
  started (the total of iteration \<open>k - 1\<close>, or the initial \<open>-DBL_MAX\<close> when \<open>k = 0\<close>),
  and the emission and duration parameters of the object are those from before
  iteration \<open>k\<close>: the refit of iteration \<open>k\<close> is discarded. When the test holds at no
  iteration of the budget, the object is the one the last iteration left, with
  its refit, and the total of the last iteration is returned.
\<close>

theorem BaumWelchTraining_rollback:
  "(k < max_iterations s \<and> (\<forall>j<k. \<not> em_converged X s j) \<and> em_converged X s k \<longrightarrow>
      fst (BaumWelchTraining X s) = em_prev_total X s k \<and>
      duration_emission (snd (BaumWelchTraining X s)) = duration_emission (em_state X s k)) \<and>
   ((\<forall>j<max_iterations s. \<not> em_converged X s j) \<longrightarrow>
      BaumWelchTraining X s =
        (em_prev_total X s (max_iterations s), em_state X s (max_iterations s)))"
proof (intro conjI impI)
  assume h: "k < max_iterations s \<and> (\<forall>j<k. \<not> em_converged X s j) \<and> em_converged X s k"
  have init: "BaumWelchTraining X s =
      BaumWelch_loop X (max_iterations s) (em_prev_total X s 0) (em_state X s 0)"
    by (simp add: BaumWelchTraining_def em_prev_total_def)
  have "fst (BaumWelch_loop X (max_iterations s) (em_prev_total X s 0) (em_state X s 0)) =
        em_prev_total X s k \<and>
      duration_emission (snd (BaumWelch_loop X (max_iterations s) (em_prev_total X s 0) (em_state X s 0))) =
        duration_emission (em_state X s k)"
    using h by (intro BaumWelch_loop_converges) simp_all
  then show "fst (BaumWelchTraining X s) = em_prev_total X s k"
    and "duration_emission (snd (BaumWelchTraining X s)) = duration_emission (em_state X s k)"
    by (simp_all only: init)
next
  assume h: "\<forall>j<max_iterations s. \<not> em_converged X s j"
  have init: "BaumWelchTraining X s =
      BaumWelch_loop X (max_iterations s) (em_prev_total X s 0) (em_state X s 0)"
    by (simp add: BaumWelchTraining_def em_prev_total_def)
  have "BaumWelch_loop X (max_iterations s) (em_prev_total X s 0) (em_state X s 0) =
      (em_prev_total X s (0 + max_iterations s), em_state X s (0 + max_iterations s))"
    using h by (intro BaumWelch_loop_exhausts) simp
  then show "BaumWelchTraining X s =
        (em_prev_total X s (max_iterations s), em_state X s (max_iterations s))"
    by (simp only: init) simp
qed

subsection \<open>The sizes of the tables and the parameters during a pass\<close>

lemma length_foldl_update:
  "length (foldl (\<lambda>l i. l[g l i := h l i]) xs is) = length xs"
  by (induction "is" arbitrary: xs) simp_all

lemma length_fill_range [simp]: "length (fill_range xs a b v) = length xs"
  unfolding fill_range_def by (rule length_foldl_update [where g = "\<lambda>l i. i"])

lemma length_prefix_ll [simp]: "length (prefix_ll em obs ll) = length ll"
  unfolding prefix_ll_def
  by (simp add: length_foldl_update [where g = "\<lambda>l i. i"])

lemma length_forward_step [simp]: "length (forward_step X s start fw i) = length fw"
  unfolding forward_step_def Let_def
  by (simp add: length_foldl_update [where g = "\<lambda>l j. i"])

lemma length_forward_steps: "length (foldl (forward_step X s start) fw is) = length fw"
  by (induction "is" arbitrary: fw) simp_all

lemma length_forward_table [simp]:
  "length (forward_table X s start end) = length (forward s)"
  by (simp add: forward_table_def Let_def length_forward_steps)

lemma length_backward_step [simp]: "length (backward_step X s end bw i) = length bw"
  unfolding backward_step_def Let_def
  by (simp add: length_foldl_update [where g = "\<lambda>l j. i"])

lemma length_backward_steps: "length (foldl (backward_step X s end) bw is) = length bw"
  by (induction "is" arbitrary: bw) simp_all

lemma length_backward_table [simp]:
  "length (backward_table X s start end) = length (backward s)"
  by (simp add: backward_table_def Let_def length_backward_steps)

lemma sizes_update_observation_likelihood [simp]:
  "sizes (update_observation_likelihood X s) = sizes s"
  by (simp add: sizes_def update_observation_likelihood_def)

lemma sizes_forward_algorithm [simp]: "sizes (snd (forward_algorithm X s a b)) = sizes s"
  by (simp add: sizes_def forward_algorithm_def Let_def)

lemma sizes_backward_algorithm [simp]: "sizes (snd (backward_algorithm X s a b)) = sizes s"
  by (simp add: sizes_def backward_algorithm_def Let_def)

lemma sizes_posterior_step: "sizes (posterior_step X a ev s i) = sizes s"
  by (simp add: sizes_def posterior_step_def Let_def)

lemma sizes_estimate_state_posterior [simp]:
  "sizes (estimate_state_posterior X s a b) = sizes s"
  unfolding estimate_state_posterior_def
  by (rule foldl_keeps) (rule sizes_posterior_step)

lemma sizes_set_emissions [simp]:
  "sizes (s\<lparr>fg_emission := a, bg_emission := b\<rparr>) = sizes s"
  by (simp add: sizes_def)

lemma sizes_set_fg_duration [simp]: "sizes (s\<lparr>fg_duration := c\<rparr>) = sizes s"
  by (simp add: sizes_def)

lemma sizes_set_bg_duration [simp]: "sizes (s\<lparr>bg_duration := c\<rparr>) = sizes s"
  by (simp add: sizes_def)

lemma sizes_estimate_parameters [simp]: "sizes (estimate_parameters X s) = sizes s"
  by (simp add: estimate_parameters_def Let_def)

lemma sizes_subsequence_step: "sizes (snd (subsequence_step X ts i)) = sizes (snd ts)"
  by (simp add: subsequence_step_def Let_def)

lemma sizes_subsequences:
  "sizes (snd (foldl (subsequence_step X) ts xs)) = sizes (snd ts)"
  by (induction xs arbitrary: ts) (simp_all add: sizes_subsequence_step)

lemma sizes_PosteriorDecoding [simp]: "sizes (snd (PosteriorDecoding X s)) = sizes s"
  by (simp add: PosteriorDecoding_def sizes_subsequences)

lemma sizes_single_iteration [simp]: "sizes (snd (single_iteration X s)) = sizes s"
  by (simp add: single_iteration_def Let_def sizes_subsequences)

lemma sizes_em_state: "sizes (em_state X s n) = sizes s"
  by (induction n) simp_all

lemma model_params_forward_algorithm [simp]:
  "model_params (snd (forward_algorithm X s a b)) = model_params s"
  by (simp add: model_params_def forward_algorithm_def Let_def)

lemma model_params_backward_algorithm [simp]:
  "model_params (snd (backward_algorithm X s a b)) = model_params s"
  by (simp add: model_params_def backward_algorithm_def Let_def)

lemma model_params_posterior_step: "model_params (posterior_step X a ev s i) = model_params s"
  by (simp add: model_params_def posterior_step_def Let_def)

lemma model_params_estimate_state_posterior [simp]:
  "model_params (estimate_state_posterior X s a b) = model_params s"
  unfolding estimate_state_posterior_def
  by (rule foldl_keeps) (rule model_params_posterior_step)

lemma model_params_subsequence_step:
  "model_params (snd (subsequence_step X ts i)) = model_params (snd ts)"
  by (simp add: subsequence_step_def Let_def)

lemma model_params_subsequences:
  "model_params (snd (foldl (subsequence_step X) ts xs)) = model_params (snd ts)"
  by (induction xs arbitrary: ts) (simp_all add: model_params_subsequence_step)

lemma model_params_PosteriorDecoding:
  "model_params (snd (PosteriorDecoding X s)) = model_params s"
  by (simp add: PosteriorDecoding_def model_params_subsequences)

subsection \<open>A training run that converges at its second iteration\<close>

lemma single_iteration_one_site:
  assumes "reset_points s = [0, 1]" and "0 < length (forward s)"
  shows "fst (single_iteration X s) =
     log_sum_log X
       (lp_sf s + fg_log_likelihood s ! 0 + duration_ll X (fg_duration s) 1 + lp_ft s)
       (lp_sb s + bg_log_likelihood s ! 0 + lp_bt s)"
  using assms
  by (simp add: single_iteration_def Let_def subsequence_step_def forward_algorithm_def
      forward_table_def fg_segment_log_likelihood_def bg_segment_log_likelihood_def)

lemma fg_log_likelihood_estimate_parameters:
  "fg_log_likelihood (estimate_parameters X s) =
     prefix_ll (emission_ll X (emission_fit X (fg_emission s) (meth_lp s) (unmeth_lp s) (fg_posteriors s)))
       (observations s) (fg_log_likelihood s)"
  by (simp add: estimate_parameters_def Let_def update_observation_likelihood_def)

lemma bg_log_likelihood_estimate_parameters:
  "bg_log_likelihood (estimate_parameters X s) =
     prefix_ll (emission_ll X (emission_fit X (bg_emission s) (meth_lp s) (unmeth_lp s) (bg_posteriors s)))
       (observations s) (bg_log_likelihood s)"
  by (simp add: estimate_parameters_def Let_def update_observation_likelihood_def)

lemma prefix_ll_one: "0 < length ll \<Longrightarrow> prefix_ll em [ob] ll ! 0 = em ob"
  by (simp add: prefix_ll_def)

lemma one_site_fields:
  "reset_points (one_site m) = [0, 1]" "observations (one_site m) = [(9, 1)]"
  "length (forward (one_site m)) = 1" "length (fg_log_likelihood (one_site m)) = 1"
  "length (bg_log_likelihood (one_site m)) = 1"
  "lp_sf (one_site m) = ln (1 / 2)" "lp_sb (one_site m) = ln (1 / 2)"
  "lp_ft (one_site m) = ln (1 / 10 ^ 10)" "lp_bt (one_site m) = ln (1 / 10 ^ 10)"
  "tolerance (one_site m) = 1 / 10 ^ 10" "max_iterations (one_site m) = m"
  "fg_log_likelihood (one_site m) ! 0 = 0" "bg_log_likelihood (one_site m) ! 0 = 0"
  by (simp_all add: one_site_def set_parameters_def TwoStateHDHMM_def
      update_observation_likelihood_def prefix_ll_def unit_model_def)

lemma one_site_state:
  "frame (em_state unit_model (one_site m) n) = frame (one_site m) \<and>
   sizes (em_state unit_model (one_site m) n) = sizes (one_site m) \<and>
   fg_log_likelihood (em_state unit_model (one_site m) n) ! 0 = 0 \<and>
   bg_log_likelihood (em_state unit_model (one_site m) n) ! 0 = 0"
proof (induction n)
  case 0
  show ?case by (simp add: one_site_fields)
next
  case (Suc n)
  let ?t = "em_state unit_model (one_site m) n"
  let ?u = "snd (foldl (subsequence_step unit_model) (0, ?t) [0..<length (reset_points ?t) - 1])"
  have step: "em_state unit_model (one_site m) (Suc n) = estimate_parameters unit_model ?u"
    by (simp add: single_iteration_def Let_def)
  have "frame ?u = frame (one_site m)"
    using Suc.IH by (simp add: frame_subsequences)
  then have obs: "observations ?u = [(9, 1)]"
    by (simp add: frame_def one_site_fields)
  have "sizes ?u = sizes (one_site m)"
    using Suc.IH by (simp add: sizes_subsequences)
  then have len: "0 < length (fg_log_likelihood ?u)" "0 < length (bg_log_likelihood ?u)"
    by (simp_all add: sizes_def one_site_fields)
  have "fg_log_likelihood (estimate_parameters unit_model ?u) ! 0 = 0"
    unfolding fg_log_likelihood_estimate_parameters obs
    using len by (simp add: prefix_ll_one) (simp add: unit_model_def)
  moreover have "bg_log_likelihood (estimate_parameters unit_model ?u) ! 0 = 0"
    unfolding bg_log_likelihood_estimate_parameters obs
    using len by (simp add: prefix_ll_one) (simp add: unit_model_def)
  ultimately show ?case
    unfolding step [symmetric]
    by (simp add: frame_em_state sizes_em_state)
qed

lemma lse_exact_halves: "lse_exact (ln (1 / 2) + ln (1 / 10 ^ 10)) (ln (1 / 2) + ln (1 / 10 ^ 10)) = ln (1 / 10 ^ 10)"
  by (simp add: lse_exact_def exp_add)

lemma one_site_score: "em_score unit_model (one_site m) n = ln (1 / 10 ^ 10)"
proof -
  let ?t = "em_state unit_model (one_site m) n"
  from one_site_state [of m n]
  have f: "frame ?t = frame (one_site m)" and z: "sizes ?t = sizes (one_site m)"
    and l: "fg_log_likelihood ?t ! 0 = 0" "bg_log_likelihood ?t ! 0 = 0"
    by simp_all
  from f have rp: "reset_points ?t = [0, 1]"
    and lps: "lp_sf ?t = ln (1 / 2)" "lp_sb ?t = ln (1 / 2)"
      "lp_ft ?t = ln (1 / 10 ^ 10)" "lp_bt ?t = ln (1 / 10 ^ 10)"
    by (simp_all add: frame_def one_site_fields)
  from z have len: "0 < length (forward ?t)"
    by (simp add: sizes_def one_site_fields)
  have "em_score unit_model (one_site m) n =
      lse_exact (ln (1 / 2) + ln (1 / 10 ^ 10)) (ln (1 / 2) + ln (1 / 10 ^ 10))"
    unfolding em_score_def single_iteration_one_site [OF rp len] l lps
    by (simp add: unit_model_def)
  then show ?thesis by (simp only: lse_exact_halves)
qed

lemma ln_tiny_bounds: "ln (1 / 10 ^ 10 :: real) < 0" "- (10 ^ 10) \<le> ln (1 / 10 ^ 10 :: real)"
proof -
  show "ln (1 / 10 ^ 10 :: real) < 0" by simp
  have "ln (1 + (10 ^ 10 - 1) :: real) \<le> 10 ^ 10 - 1"
    by (rule ln_add_one_self_le_self) simp
  then have "ln (10 ^ 10 :: real) \<le> 10 ^ 10" by simp
  moreover have "ln (1 / 10 ^ 10 :: real) = - ln (10 ^ 10)"
    by (simp add: ln_div)
  ultimately show "- (10 ^ 10) \<le> ln (1 / 10 ^ 10 :: real)" by simp
qed

lemma DBL_MAX_large: "10 ^ 11 \<le> DBL_MAX"
proof -
  have "(2 :: real) ^ 40 \<le> 2 ^ 1023" by (rule power_increasing) simp_all
  moreover have "(10 :: real) ^ 11 \<le> 2 ^ 40" by simp
  moreover have "(1 :: real) * 2 ^ 1023 \<le> (2 - 1 / 2 ^ 52) * 2 ^ 1023"
    by (rule mult_right_mono) simp_all
  ultimately show ?thesis unfolding DBL_MAX_def by linarith
qed

lemma one_site_not_converged_first: "\<not> em_converged unit_model (one_site m) 0"
proof -
  let ?c = "ln (1 / 10 ^ 10 :: real)"
  have neg: "?c < 0" and low: "- (10 ^ 10) \<le> ?c" by (rule ln_tiny_bounds)+
  have "1 / 10 ^ 10 * \<bar>?c\<bar> \<le> 1" using neg low by simp
  moreover have "1 \<le> ?c + DBL_MAX" using low DBL_MAX_large by simp
  ultimately have "1 / 10 ^ 10 * \<bar>?c\<bar> \<le> ?c + DBL_MAX" by linarith
  moreover have "0 < \<bar>?c\<bar>" using neg by simp
  ultimately have "1 / 10 ^ 10 \<le> (?c + DBL_MAX) / \<bar>?c\<bar>"
    by (simp only: pos_le_divide_eq)
  then have "\<not> (?c - - DBL_MAX) / \<bar>?c\<bar> < 1 / 10 ^ 10"
    by (simp only: diff_minus_eq_add not_less)
  moreover have "?c \<noteq> 0" using neg by simp
  ultimately have "\<not> converged ?c (- DBL_MAX) (1 / 10 ^ 10)"
    unfolding converged_def by (simp only: if_False not_False_eq_True)
  then show ?thesis
    unfolding em_converged_def em_prev_total_def one_site_score one_site_fields(10)
    by simp
qed

lemma one_site_converged_second: "em_converged unit_model (one_site m) (Suc 0)"
  by (simp add: em_converged_def em_prev_total_def one_site_score converged_def one_site_fields)

text \<open>
  On the one-site input every iteration returns the total \<open>log 1e-10\<close>. The test
  fails at the first iteration, against \<open>-DBL_MAX\<close>, and holds at the second. With
  a budget of two iterations the training returns the total of the first
  iteration and the parameters from before the second; with a budget of one
  iteration it returns that total and the object the iteration left.
\<close>

theorem BaumWelchTraining_rollback_witness:
  "(1 < max_iterations (one_site 2) \<and>
    \<not> em_converged unit_model (one_site 2) 0 \<and> em_converged unit_model (one_site 2) 1 \<and>
    fst (BaumWelchTraining unit_model (one_site 2)) = ln (1 / 10 ^ 10) \<and>
    duration_emission (snd (BaumWelchTraining unit_model (one_site 2))) =
      duration_emission (em_state unit_model (one_site 2) 1)) \<and>
   (\<not> em_converged unit_model (one_site 1) 0 \<and>
    BaumWelchTraining unit_model (one_site 1) =
      (ln (1 / 10 ^ 10), em_state unit_model (one_site 1) 1))"
proof -
  have a: "\<forall>j<1. \<not> em_converged unit_model (one_site 2) j"
    by (simp add: one_site_not_converged_first)
  have b: "\<forall>j<max_iterations (one_site 1). \<not> em_converged unit_model (one_site 1) j"
    by (simp add: one_site_fields one_site_not_converged_first)
  have p: "em_prev_total unit_model (one_site m) (Suc 0) = ln (1 / 10 ^ 10)" for m
    by (simp add: em_prev_total_def one_site_score)
  from BaumWelchTraining_rollback [of 1 "one_site 2" unit_model]
    BaumWelchTraining_rollback [of 0 "one_site 1" unit_model] a b
  show ?thesis
    by (simp add: one_site_fields one_site_not_converged_first one_site_converged_second p)
qed

subsection \<open>The bounds of the segment loops\<close>

text \<open>
  In each inner loop over a segment length, in the forward pass, in the
  backward pass (the loop at a position and the closing loop over the first
  segment) and in the posterior estimator, the length of the scored foreground
  span is between 1 and \<open>MAX_LEN\<close> and the span lies within \<open>[start, end)\<close>; these
  are the three assertions of the source at each loop. Outside the loops the
  forward pass scores one more span, \<open>[start, start + 1)\<close> of length 1, at its base
  case.
\<close>

lemma segment_loops_bounded:
  "(\<forall>i\<in>set [start + 1..<end]. \<forall>l\<in>set (forward_lengths s start i).
      1 \<le> l \<and> l \<le> MAX_LEN s \<and>
      start \<le> i + 1 - l \<and> i + 1 - l < end \<and> start < i + 1 \<and> i + 1 \<le> end \<and>
      (i + 1) - (i + 1 - l) = l) \<and>
   (\<forall>i\<in>set (rev [start..<end - 1]). \<forall>l\<in>set (backward_lengths s end i).
      1 \<le> l \<and> l \<le> MAX_LEN s \<and>
      start \<le> i + 1 \<and> i + 1 < end \<and> start < i + l + 1 \<and> i + l + 1 \<le> end \<and>
      (i + l + 1) - (i + 1) = l) \<and>
   (\<forall>l\<in>set (backward_first_lengths s start end).
      1 \<le> l \<and> l \<le> MAX_LEN s \<and>
      start < end \<and> start < start + l \<and> start + l \<le> end \<and> (start + l) - start = l) \<and>
   (\<forall>sidx\<in>set [start..<end]. \<forall>e\<in>set (posterior_ends s sidx end).
      1 \<le> e - sidx \<and> e - sidx \<le> MAX_LEN s \<and>
      start \<le> sidx \<and> sidx < end \<and> start < e \<and> e \<le> end)"
proof -
  have "(sidx + MAX_LEN s) mod 2 ^ 64 \<le> sidx + MAX_LEN s" for sidx
    by (rule mod_less_eq_dividend)
  then have "e \<le> sidx + MAX_LEN s" if "e \<in> set (posterior_ends s sidx end)" for sidx e
    using that by (fastforce simp add: posterior_ends_def)
  then show ?thesis
    by (auto simp add: forward_lengths_def backward_lengths_def backward_first_lengths_def)
       (auto simp add: posterior_ends_def)
qed

lemma upt_0_2: "[0..<2] = [0, 1]"
  by (simp add: upt_rec)

lemma upt_1_3: "[1..<3] = [1, 2]"
  by (simp add: upt_rec)

lemma sizes_posteriors:
  "sizes t = sizes s \<Longrightarrow>
   length (fg_posteriors t) = length (fg_posteriors s) \<and>
   length (bg_posteriors t) = length (bg_posteriors s)"
  by (simp add: sizes_def)

lemma two_sites_sizes:
  "length (fg_posteriors (two_sites lsl)) = 2" "length (bg_posteriors (two_sites lsl)) = 2"
proof -
  let ?s0 = "TwoStateHDHMM [(9, 1), (9, 1)] [0, 2] 2 (1 / 10 ^ 10) (1 / 10 ^ 10) 2 False
                () (1 / 2) (0 :: real) :: (unit, real) hmm"
  have "sizes (two_sites lsl) = sizes (set_parameters (two_sites_model lsl) () () (1 / 2) (1 / 2) ?s0)"
    by (simp add: two_sites_def)
  from sizes_posteriors [OF this]
  show "length (fg_posteriors (two_sites lsl)) = 2" "length (bg_posteriors (two_sites lsl)) = 2"
    by (simp_all add: set_parameters_def update_observation_likelihood_def TwoStateHDHMM_def)
qed

lemma two_sites_fields:
  "MAX_LEN (two_sites lsl) = 2" "lp_sf (two_sites lsl) = ln (1 / 2)"
  "fg_log_likelihood (two_sites lsl) = [0, 0]"
  "fg_duration (two_sites lsl) = 1 / 2"
  by (simp_all add: two_sites_def backward_algorithm_def forward_algorithm_def Let_def
      set_parameters_def update_observation_likelihood_def TwoStateHDHMM_def prefix_ll_def
      two_sites_model_def unit_model_def)

lemma segment_loops_bounded_two_sites:
  "1 \<in> set [0 + 1..<2] \<and> 2 \<in> set (forward_lengths (two_sites lse_exact) 0 1) \<and>
   (1 \<le> (2 :: nat) \<and> 2 \<le> MAX_LEN (two_sites lse_exact) \<and>
    (0 :: nat) \<le> 1 + 1 - 2 \<and> (1 :: nat) + 1 - 2 < 2 \<and> (0 :: nat) < 1 + 1 \<and> (1 :: nat) + 1 \<le> 2 \<and>
    ((1 :: nat) + 1) - (1 + 1 - 2) = 2) \<and>
   0 \<in> set (rev [0..<2 - 1]) \<and> 1 \<in> set (backward_lengths (two_sites lse_exact) 2 0) \<and>
   2 \<in> set (backward_first_lengths (two_sites lse_exact) 0 2) \<and>
   0 \<in> set [0..<2] \<and> 2 \<in> set (posterior_ends (two_sites lse_exact) 0 2) \<and>
   (1 \<le> (2 :: nat) - 0 \<and> (2 :: nat) - 0 \<le> MAX_LEN (two_sites lse_exact))"
  using segment_loops_bounded [of 0 2 "two_sites lse_exact"]
  by (simp add: forward_lengths_def backward_lengths_def backward_first_lengths_def
      posterior_ends_def two_sites_fields)

subsection \<open>The evidence of the posterior estimator\<close>

text \<open>
  The ends of the inner loop when the sum \<^verbatim>\<open>s + MAX_LEN\<close> stays within \<^verbatim>\<open>size_t\<close>, and
  when it wraps.
\<close>

lemma posterior_ends_in_range:
  assumes "sidx + MAX_LEN s < 2 ^ 64"
  shows "posterior_ends s sidx end = rev [sidx + 1..<min (sidx + MAX_LEN s) end + 1]"
  using assms by (simp add: posterior_ends_def)

lemma posterior_ends_wrapped:
  assumes "MAX_LEN s < 2 ^ 64" and "2 ^ 64 \<le> sidx + MAX_LEN s"
  shows "posterior_ends s sidx end = []"
proof -
  have "(sidx + MAX_LEN s) mod 2 ^ 64 = (sidx + MAX_LEN s - 2 ^ 64) mod 2 ^ 64"
    using assms(2) by (rule le_mod_geq)
  also have "\<dots> \<le> sidx + MAX_LEN s - 2 ^ 64"
    by (rule mod_less_eq_dividend)
  also have "\<dots> < sidx"
    using assms by linarith
  finally show ?thesis
    by (simp add: posterior_ends_def)
qed

lemma evidence_inner_fst:
  "fst (foldl (evidence_inner X s start b) st es) =
     foldl (log_sum_log X) (fst st) (map (segment_evidence X s start b) es)"
  by (induction es arbitrary: st) (simp_all add: evidence_inner_def Let_def)

lemma evidence_inner_length:
  "length (snd (foldl (evidence_inner X s start b) st es)) = length (snd st)"
  by (induction es arbitrary: st) (simp_all add: evidence_inner_def Let_def)

lemma evidence_inner_snd_nth:
  "k < length (snd st) \<Longrightarrow>
   snd (evidence_inner X s start b st e) ! k =
     (if k = e - 1 - start
      then log_sum_log X (snd st ! k)
             (log_sum_log X (fst st) (segment_evidence X s start b e))
      else snd st ! k)"
  by (simp add: evidence_inner_def Let_def)

lemma evidence_inner_nth:
  assumes "k < length fe" and "start < e0"
  shows "snd (foldl (evidence_inner X s start b) (0, fe) (rev [e0..<T])) ! k =
     (if e0 \<le> k + start + 1 \<and> k + start + 1 < T
      then log_sum_log X (fe ! k)
             (foldl (log_sum_log X) 0 (map (segment_evidence X s start b) (rev [k + start + 1..<T])))
      else fe ! k)"
  using assms(2)
proof (induction "T - e0" arbitrary: e0)
  case 0
  then show ?case by simp
next
  case (Suc n)
  then have lt: "e0 < T" by simp
  let ?st = "foldl (evidence_inner X s start b) (0, fe) (rev [Suc e0..<T])"
  have ih: "snd ?st ! k =
     (if Suc e0 \<le> k + start + 1 \<and> k + start + 1 < T
      then log_sum_log X (fe ! k)
             (foldl (log_sum_log X) 0 (map (segment_evidence X s start b) (rev [k + start + 1..<T])))
      else fe ! k)"
    using Suc.hyps(2) Suc.prems by (intro Suc.hyps(1)) simp_all
  have len: "length (snd ?st) = length fe"
    by (simp add: evidence_inner_length)
  have acc: "fst ?st = foldl (log_sum_log X) 0 (map (segment_evidence X s start b) (rev [Suc e0..<T]))"
    by (simp add: evidence_inner_fst)
  have unfold: "foldl (evidence_inner X s start b) (0, fe) (rev [e0..<T]) =
      evidence_inner X s start b ?st e0"
    using lt by (simp add: upt_conv_Cons)
  have accu: "log_sum_log X (fst ?st) (segment_evidence X s start b e0) =
      foldl (log_sum_log X) 0 (map (segment_evidence X s start b) (rev [e0..<T]))"
    using lt by (simp add: acc upt_conv_Cons)
  show ?case
  proof (cases "k = e0 - 1 - start")
    case True
    with Suc.prems have e0: "e0 = k + start + 1" by simp
    have old: "snd ?st ! k = fe ! k" using ih e0 by simp
    have "snd (evidence_inner X s start b ?st e0) ! k =
        log_sum_log X (snd ?st ! k)
          (log_sum_log X (fst ?st) (segment_evidence X s start b e0))"
      using True assms(1) len by (simp add: evidence_inner_snd_nth)
    then have "snd (evidence_inner X s start b ?st e0) ! k =
        log_sum_log X (fe ! k)
          (foldl (log_sum_log X) 0 (map (segment_evidence X s start b) (rev [e0..<T])))"
      by (simp only: old accu)
    then show ?thesis
      unfolding unfold using e0 lt by simp
  next
    case False
    with Suc.prems have ne: "e0 \<noteq> k + start + 1" by simp
    have "snd (evidence_inner X s start b ?st e0) ! k = snd ?st ! k"
      using False assms(1) len by (simp add: evidence_inner_snd_nth)
    then show ?thesis
      unfolding unfold using ih ne by auto
  qed
qed

lemma evidence_step_fst_nth:
  assumes "k < length (fst ev)" and "start \<le> m" and "k + start < end"
    and "m + MAX_LEN s < 2 ^ 64"
  shows "fst (evidence_step X s start end ev m) ! k =
     (if m \<le> k + start \<and> k + start < m + MAX_LEN s
      then log_sum_log X (fst ev ! k) (accumulated_evidence X s start end m (k + start))
      else fst ev ! k)"
proof -
  have "start < m + 1" using assms(2) by simp
  from evidence_inner_nth [OF assms(1) this, of X s m "min (m + MAX_LEN s) end + 1"]
  show ?thesis
    using assms(3,4)
    by (simp add: evidence_step_def posterior_ends_def accumulated_evidence_def)
qed

lemma evidence_step_snd_nth:
  "k < length (snd ev) \<Longrightarrow>
   snd (evidence_step X s start end ev m) ! k =
     (if k = m - start then snd (forward s ! m) + snd (backward s ! m) else snd ev ! k)"
  by (simp add: evidence_step_def)

lemma evidence_step_length:
  "length (fst (evidence_step X s start end ev m)) = length (fst ev)"
  "length (snd (evidence_step X s start end ev m)) = length (snd ev)"
  by (simp_all add: evidence_step_def evidence_inner_length)

lemma evidence_steps_length:
  "length (fst (foldl (evidence_step X s start end) ev ms)) = length (fst ev) \<and>
   length (snd (foldl (evidence_step X s start end) ev ms)) = length (snd ev)"
  by (induction ms arbitrary: ev) (simp_all add: evidence_step_length)

lemma evidence_steps_nth:
  assumes "k + start < end" and "end + MAX_LEN s < 2 ^ 64"
  shows "start \<le> m \<Longrightarrow> m \<le> end \<Longrightarrow>
     fst (foldl (evidence_step X s start end)
            (replicate (end - start) 0, replicate (end - start) 0) [start..<m]) ! k =
       foldl (log_sum_log X) 0
         (map (\<lambda>b. accumulated_evidence X s start end b (k + start))
            (filter (\<lambda>b. b \<le> k + start \<and> k + start < b + MAX_LEN s) [start..<m])) \<and>
     snd (foldl (evidence_step X s start end)
            (replicate (end - start) 0, replicate (end - start) 0) [start..<m]) ! k =
       (if k + start < m then snd (forward s ! (k + start)) + snd (backward s ! (k + start))
        else 0)"
proof (induction m)
  case 0
  then show ?case using assms by simp
next
  case (Suc m)
  let ?init = "(replicate (end - start) (0 :: real), replicate (end - start) (0 :: real))"
  show ?case
  proof (cases "start = Suc m")
    case True
    then show ?thesis using assms by simp
  next
    case False
    with Suc.prems have sm: "start \<le> m" and me: "m \<le> end" by simp_all
    from me assms(2) have nw: "m + MAX_LEN s < 2 ^ 64" by simp
    let ?ev = "foldl (evidence_step X s start end) ?init [start..<m]"
    note ih = Suc.IH [OF sm me]
    have k: "k < length (fst ?ev)" "k < length (snd ?ev)"
      using assms by (simp_all add: evidence_steps_length)
    have unfold: "foldl (evidence_step X s start end) ?init [start..<Suc m] =
        evidence_step X s start end ?ev m"
      using sm by simp
    have f: "fst (evidence_step X s start end ?ev m) ! k =
       foldl (log_sum_log X) 0
         (map (\<lambda>b. accumulated_evidence X s start end b (k + start))
            (filter (\<lambda>b. b \<le> k + start \<and> k + start < b + MAX_LEN s) [start..<Suc m]))"
      unfolding evidence_step_fst_nth [OF k(1) sm assms(1) nw]
      using sm ih by simp
    have b: "snd (evidence_step X s start end ?ev m) ! k =
       (if k + start < Suc m then snd (forward s ! (k + start)) + snd (backward s ! (k + start))
        else 0)"
    proof (cases "k = m - start")
      case True
      with sm have "k + start = m" by simp
      then show ?thesis using k(2) True by (simp add: evidence_step_snd_nth)
    next
      case False
      with sm have "k + start \<noteq> m" by auto
      then show ?thesis using ih False k(2) by (simp add: evidence_step_snd_nth)
    qed
    show ?thesis unfolding unfold using f b by simp
  qed
qed

lemma posterior_evidence_nth:
  assumes "start \<le> i" and "i < end" and "end + MAX_LEN s < 2 ^ 64"
  shows "fst (posterior_evidence X s start end) ! (i - start) =
           foldl (log_sum_log X) 0
             (map (\<lambda>b. accumulated_evidence X s start end b i) (covering_starts s start end i)) \<and>
         snd (posterior_evidence X s start end) ! (i - start) =
           snd (forward s ! i) + snd (backward s ! i)"
proof -
  have k: "(i - start) + start < end" using assms by simp
  have se: "start \<le> end" using assms by simp
  from evidence_steps_nth [OF k assms(3) se, of X] assms(1,2)
  show ?thesis
    by (simp add: posterior_evidence_def covering_starts_def)
qed

text \<open>
  C4, amended. For a position \<open>i\<close> of a subsequence whose end plus \<open>MAX_LEN\<close> is within
  the range of \<^verbatim>\<open>size_t\<close> (\<open>end + MAX_LEN < 2 ^ 64\<close>, so that no sum \<^verbatim>\<open>s + MAX_LEN\<close> of
  the inner loop wraps), the foreground evidence is the \<^verbatim>\<open>log_sum_log\<close> fold, from
  \<open>0.0\<close>, over the starts \<open>b\<close> with \<open>b \<le> i < b + MAX_LEN\<close> of the evidence accumulated
  for \<open>b\<close> over the ends \<open>e\<close> from \<open>min (b + MAX_LEN) end\<close> down to \<open>i + 1\<close>: the segments
  \<open>[b, e)\<close> of length at most \<open>MAX_LEN\<close> that contain \<open>i\<close>, not only those that end at
  \<open>i\<close>. Each segment contributes its entry term (the start prior, or the forward
  background value before \<open>b\<close> with the switch probability), its duration density,
  its likelihood and the backward foreground value at its last position. The
  background evidence is the sum of the forward and backward background values at
  \<open>i\<close>.
\<close>

theorem posterior_evidence_covering:
  assumes "start \<le> i" and "i < end" and "end + MAX_LEN s < 2 ^ 64"
  shows "fst (posterior_evidence X s start end) ! (i - start) =
           foldl (log_sum_log X) 0
             (map (\<lambda>b. accumulated_evidence X s start end b i) (covering_starts s start end i)) \<and>
         snd (posterior_evidence X s start end) ! (i - start) =
           snd (forward s ! i) + snd (backward s ! i)"
  using assms by (rule posterior_evidence_nth)

theorem posterior_evidence_covering_witness:
  "(0 :: nat) \<le> 0 \<and> (0 :: nat) < 2 \<and> 2 + MAX_LEN (two_sites lse_exact) < 2 ^ 64 \<and>
   fst (posterior_evidence (two_sites_model lse_exact) (two_sites lse_exact) 0 2) ! (0 - 0) =
     foldl (log_sum_log (two_sites_model lse_exact)) 0
       (map (\<lambda>b. accumulated_evidence (two_sites_model lse_exact) (two_sites lse_exact) 0 2 b 0)
          (covering_starts (two_sites lse_exact) 0 2 0)) \<and>
   snd (posterior_evidence (two_sites_model lse_exact) (two_sites lse_exact) 0 2) ! (0 - 0) =
     snd (forward (two_sites lse_exact) ! 0) + snd (backward (two_sites lse_exact) ! 0)"
  using posterior_evidence_covering [of 0 0 2 "two_sites lse_exact" "two_sites_model lse_exact"]
  by (simp add: two_sites_fields)

lemma two_sites_backward_0: "fst (backward (two_sites lsl) ! 0) = ln (1 / 10 ^ 10)"
  by (simp add: two_sites_def backward_algorithm_def forward_algorithm_def Let_def
      backward_table_def backward_step_def backward_lengths_def fill_range_def upt_0_2
      bg_segment_log_likelihood_def
      set_parameters_def update_observation_likelihood_def TwoStateHDHMM_def prefix_ll_def
      two_sites_model_def unit_model_def)

lemma two_sites_backward_1: "fst (backward (two_sites lsl) ! Suc 0) = ln (1 / 10 ^ 10)"
  by (simp add: two_sites_def backward_algorithm_def forward_algorithm_def Let_def
      backward_table_def backward_step_def backward_lengths_def fill_range_def upt_0_2
      bg_segment_log_likelihood_def
      set_parameters_def update_observation_likelihood_def TwoStateHDHMM_def prefix_ll_def
      two_sites_model_def unit_model_def)

lemma two_sites_segment_evidence_1:
  "segment_evidence (two_sites_model lsl) (two_sites lsl) 0 0 (Suc 0) =
     ln (1 / 2) + ln (1 / 10 ^ 10)"
  by (simp add: segment_evidence_def two_sites_fields two_sites_backward_0
      fg_segment_log_likelihood_def two_sites_model_def unit_model_def)

lemma two_sites_segment_evidence_2:
  "segment_evidence (two_sites_model lsl) (two_sites lsl) 0 0 (Suc (Suc 0)) =
     ln (1 / 2) + ln (1 / 10 ^ 10)"
  by (simp add: segment_evidence_def two_sites_fields two_sites_backward_1
      fg_segment_log_likelihood_def two_sites_model_def unit_model_def)

lemma two_sites_code_evidence:
  "fst (posterior_evidence (two_sites_model lsl) (two_sites lsl) 0 2) ! (0 - 0) =
     lsl 0 (lsl (lsl 0 (ln (1 / 2) + ln (1 / 10 ^ 10))) (ln (1 / 2) + ln (1 / 10 ^ 10)))"
proof -
  have c: "covering_starts (two_sites lsl) 0 2 0 = [0]"
    by (simp add: covering_starts_def two_sites_fields upt_0_2)
  have "fst (posterior_evidence (two_sites_model lsl) (two_sites lsl) 0 2) ! (0 - 0) =
      foldl (log_sum_log (two_sites_model lsl)) 0
        (map (\<lambda>b. accumulated_evidence (two_sites_model lsl) (two_sites lsl) 0 2 b 0)
           (covering_starts (two_sites lsl) 0 2 0))"
    using posterior_evidence_nth [of 0 0 2 "two_sites lsl" "two_sites_model lsl"]
    by (simp add: two_sites_fields)
  also have "\<dots> = lsl 0 (lsl (lsl 0 (ln (1 / 2) + ln (1 / 10 ^ 10))) (ln (1 / 2) + ln (1 / 10 ^ 10)))"
    unfolding c
    by (simp add: accumulated_evidence_def two_sites_fields upt_1_3
        two_sites_segment_evidence_1 two_sites_segment_evidence_2)
       (simp add: two_sites_model_def)
  finally show ?thesis .
qed

lemma two_sites_claimed_evidence:
  "last_position_evidence (two_sites_model lsl) (two_sites lsl) 0 2 0 =
     lsl 0 (ln (1 / 2) + ln (1 / 10 ^ 10))"
proof -
  have c: "covering_starts (two_sites lsl) 0 2 0 = [0]"
    by (simp add: covering_starts_def two_sites_fields upt_0_2)
  show ?thesis
    unfolding last_position_evidence_def c
    by (simp add: two_sites_segment_evidence_1) (simp add: two_sites_model_def)
qed

lemma exp_half_tiny: "exp (ln (1 / 2) + ln (1 / 10 ^ 10)) = (1 / (2 * 10 ^ 10) :: real)"
  by (simp add: exp_add)

lemma half_tiny_negative: "ln (1 / 2) + ln (1 / 10 ^ 10) < (0 :: real)"
proof -
  have "ln (1 / 2 :: real) < 0" by simp
  moreover have "ln (1 / 10 ^ 10 :: real) < 0" by simp
  ultimately show ?thesis by linarith
qed

text \<open>
  C4, as the claim states it, fails. On the two-site input the evidence of
  position 0 combines the segments \<open>[0, 2)\<close> and \<open>[0, 1)\<close>; the log-sum over the
  segments with last position 0 has \<open>[0, 1)\<close> alone. The two values differ, with
  the log-sum-exp and with the variant that reads \<open>0.0\<close> as the empty sum.
\<close>

theorem posterior_evidence_not_last_position:
  "fst (posterior_evidence (two_sites_model lse_exact) (two_sites lse_exact) 0 2) ! (0 - 0) \<noteq>
     last_position_evidence (two_sites_model lse_exact) (two_sites lse_exact) 0 2 0 \<and>
   fst (posterior_evidence (two_sites_model lse_sentinel) (two_sites lse_sentinel) 0 2) ! (0 - 0) \<noteq>
     last_position_evidence (two_sites_model lse_sentinel) (two_sites lse_sentinel) 0 2 0"
proof
  let ?c = "ln (1 / 2) + ln (1 / 10 ^ 10) :: real"
  have "lse_exact 0 (lse_exact (lse_exact 0 ?c) ?c) = ln (2 + 1 / 10 ^ 10)"
    unfolding lse_exact_def exp_half_tiny by simp
  moreover have "lse_exact 0 ?c = ln (1 + 1 / (2 * 10 ^ 10))"
    unfolding lse_exact_def exp_half_tiny by simp
  moreover have "ln (2 + 1 / 10 ^ 10 :: real) \<noteq> ln (1 + 1 / (2 * 10 ^ 10))"
    by simp
  ultimately show "fst (posterior_evidence (two_sites_model lse_exact) (two_sites lse_exact) 0 2) ! (0 - 0) \<noteq>
     last_position_evidence (two_sites_model lse_exact) (two_sites lse_exact) 0 2 0"
    unfolding two_sites_code_evidence two_sites_claimed_evidence by simp
next
  let ?c = "ln (1 / 2) + ln (1 / 10 ^ 10) :: real"
  have nz: "?c \<noteq> 0" using half_tiny_negative by simp
  have "lse_sentinel 0 (lse_sentinel (lse_sentinel 0 ?c) ?c) = ln (exp ?c + exp ?c)"
    using nz by (simp add: lse_sentinel_def)
  then have a: "lse_sentinel 0 (lse_sentinel (lse_sentinel 0 ?c) ?c) = ln (1 / 10 ^ 10)"
    unfolding exp_half_tiny by simp
  have b: "lse_sentinel 0 ?c = ?c"
    by (simp add: lse_sentinel_def)
  have code: "fst (posterior_evidence (two_sites_model lse_sentinel) (two_sites lse_sentinel) 0 2) ! (0 - 0) =
      ln (1 / 10 ^ 10)"
    unfolding two_sites_code_evidence by (rule a)
  have claimed: "last_position_evidence (two_sites_model lse_sentinel) (two_sites lse_sentinel) 0 2 0 = ?c"
    unfolding two_sites_claimed_evidence by (rule b)
  have "ln (1 / 10 ^ 10 :: real) \<noteq> ?c" by simp
  then show "fst (posterior_evidence (two_sites_model lse_sentinel) (two_sites lse_sentinel) 0 2) ! (0 - 0) \<noteq>
     last_position_evidence (two_sites_model lse_sentinel) (two_sites lse_sentinel) 0 2 0"
    unfolding code claimed .
qed

subsection \<open>The posteriors\<close>

lemma posterior_step_nth:
  "i < length (fg_posteriors s) \<Longrightarrow> i < length (bg_posteriors s) \<Longrightarrow>
   fg_posteriors (posterior_step X start ev s j) ! i =
     (if i = j
      then exp (fst ev ! (j - start)
                 - log_sum_log X (fst ev ! (j - start)) (snd ev ! (j - start)))
      else fg_posteriors s ! i) \<and>
   bg_posteriors (posterior_step X start ev s j) ! i =
     (if i = j
      then exp (snd ev ! (j - start)
                 - log_sum_log X (fst ev ! (j - start)) (snd ev ! (j - start)))
      else bg_posteriors s ! i)"
  by (simp add: posterior_step_def Let_def)

lemma posterior_steps_nth:
  assumes "i < length (fg_posteriors s)" and "i < length (bg_posteriors s)"
  shows "fg_posteriors (foldl (posterior_step X start ev) s [start..<m]) ! i =
     (if start \<le> i \<and> i < m
      then exp (fst ev ! (i - start)
                 - log_sum_log X (fst ev ! (i - start)) (snd ev ! (i - start)))
      else fg_posteriors s ! i) \<and>
   bg_posteriors (foldl (posterior_step X start ev) s [start..<m]) ! i =
     (if start \<le> i \<and> i < m
      then exp (snd ev ! (i - start)
                 - log_sum_log X (fst ev ! (i - start)) (snd ev ! (i - start)))
      else bg_posteriors s ! i)"
proof (induction m)
  case 0
  show ?case by simp
next
  case (Suc m)
  show ?case
  proof (cases "start \<le> m")
    case False
    then show ?thesis by simp
  next
    case True
    let ?t = "foldl (posterior_step X start ev) s [start..<m]"
    have "sizes ?t = sizes s"
      by (rule foldl_keeps) (rule sizes_posterior_step)
    with assms have len: "i < length (fg_posteriors ?t)" "i < length (bg_posteriors ?t)"
      by (simp_all add: sizes_def)
    have unfold: "foldl (posterior_step X start ev) s [start..<Suc m] =
        posterior_step X start ev ?t m"
      using True by simp
    show ?thesis
      unfolding unfold using posterior_step_nth [OF len, of X start ev m] Suc.IH True
      by auto
  qed
qed

text \<open>
  After \<^verbatim>\<open>estimate_state_posterior\<close> on a subsequence, at every position \<open>i\<close> of the
  subsequence where \<^verbatim>\<open>log_sum_log\<close> returns the log-sum-exp of the two evidences,
  the two posteriors lie between 0 and 1 and their sum is 1. A \<^verbatim>\<open>log_sum_log\<close> that
  is the log-sum-exp at every argument meets the condition at every position; one
  that reads \<open>0.0\<close> as the empty sum meets it wherever neither evidence is exactly
  \<open>0.0\<close>.
\<close>

lemma posteriors_normalised:
  assumes "start \<le> i" and "i < end"
    and "i < length (fg_posteriors s)" and "i < length (bg_posteriors s)"
    and "exp (log_sum_log X (fst (posterior_evidence X s start end) ! (i - start))
                            (snd (posterior_evidence X s start end) ! (i - start))) =
         exp (fst (posterior_evidence X s start end) ! (i - start)) +
         exp (snd (posterior_evidence X s start end) ! (i - start))"
  shows "0 \<le> fg_posteriors (estimate_state_posterior X s start end) ! i \<and>
         fg_posteriors (estimate_state_posterior X s start end) ! i \<le> 1 \<and>
         0 \<le> bg_posteriors (estimate_state_posterior X s start end) ! i \<and>
         bg_posteriors (estimate_state_posterior X s start end) ! i \<le> 1 \<and>
         \<bar>fg_posteriors (estimate_state_posterior X s start end) ! i +
          bg_posteriors (estimate_state_posterior X s start end) ! i - 1\<bar> < 1 / 10 ^ 6"
proof -
  let ?fe = "fst (posterior_evidence X s start end) ! (i - start)"
  let ?be = "snd (posterior_evidence X s start end) ! (i - start)"
  let ?d = "log_sum_log X ?fe ?be"
  let ?s = "estimate_state_posterior X s start end"
  from posterior_steps_nth [OF assms(3,4), of X start "posterior_evidence X s start end" "end"]
    assms(1,2)
  have fg: "fg_posteriors ?s ! i = exp (?fe - ?d)" and bg: "bg_posteriors ?s ! i = exp (?be - ?d)"
    by (simp_all add: estimate_state_posterior_def)
  have "exp (?fe - ?d) + exp (?be - ?d) = (exp ?fe + exp ?be) / exp ?d"
    by (simp add: exp_diff add_divide_distrib)
  also have "\<dots> = 1"
  proof -
    have "0 < exp ?fe + exp ?be" by (simp add: add_pos_pos)
    then show ?thesis using assms(5) by simp
  qed
  finally have one: "fg_posteriors ?s ! i + bg_posteriors ?s ! i = 1"
    by (simp only: fg bg)
  have pos: "0 < fg_posteriors ?s ! i" "0 < bg_posteriors ?s ! i"
    by (simp_all only: fg bg exp_gt_zero)
  from one pos show ?thesis by simp
qed

lemma posteriors_sum_to_one_lse_exact:
  assumes "log_sum_log X = lse_exact" and "start \<le> i" and "i < end"
    and "i < length (fg_posteriors s)" and "i < length (bg_posteriors s)"
  shows "\<bar>fg_posteriors (estimate_state_posterior X s start end) ! i +
          bg_posteriors (estimate_state_posterior X s start end) ! i - 1\<bar> < 1 / 10 ^ 6"
proof -
  have "exp (log_sum_log X p q) = exp p + exp q" for p q
    by (simp add: assms(1) lse_exact_def add_pos_pos)
  from posteriors_normalised [OF assms(2-5) this] show ?thesis
    by simp
qed


section \<open>The forward and the backward total\<close>

subsection \<open>The entries of the two tables\<close>

lemma fill_range_nth:
  "fill_range xs a b v ! j = (if a \<le> j \<and> j < b \<and> j < length xs then v else xs ! j)"
proof (induction b)
  case 0
  show ?case by (simp add: fill_range_def)
next
  case (Suc b)
  have len: "length (foldl (\<lambda>l i. l[i := v]) xs [a..<b]) = length xs"
    using length_fill_range [of xs a b v] by (simp add: fill_range_def)
  show ?case
  proof (cases "a \<le> b")
    case False
    then show ?thesis by (auto simp add: fill_range_def)
  next
    case True
    then have "fill_range xs a (Suc b) v = (fill_range xs a b v)[b := v]"
      by (simp add: fill_range_def)
    moreover have "(fill_range xs a b v)[b := v] ! j =
        (if j = b \<and> b < length xs then v else fill_range xs a b v ! j)"
      by (cases "b < length xs") (simp_all add: nth_list_update list_update_beyond)
    ultimately show ?thesis
      using Suc.IH True by auto
  qed
qed

lemma forward_fg_seg_llh_cong:
  assumes "\<And>j. j < i \<Longrightarrow> f ! j = g ! j" and "1 \<le> l" and "l \<le> i - start + 1" and "start \<le> i"
  shows "forward_fg_seg_llh X s start f i l = forward_fg_seg_llh X s start g i l"
proof (cases "i + 1 - l = start")
  case True
  then show ?thesis by (simp add: forward_fg_seg_llh_def)
next
  case False
  with assms(2-4) have "i + 1 - l - 1 < i" by linarith
  then have "f ! (i + 1 - l - 1) = g ! (i + 1 - l - 1)" by (rule assms(1))
  then show ?thesis by (simp add: forward_fg_seg_llh_def Let_def)
qed

lemma forward_lengths_range:
  "l \<in> set (forward_lengths s start i) \<Longrightarrow> 1 \<le> l \<and> l \<le> i - start + 1"
  by (auto simp add: forward_lengths_def)

lemma forward_inner:
  assumes "i < length f" and "start \<le> i" and "\<forall>l\<in>set ls. 1 \<le> l \<and> l \<le> i - start + 1"
  shows "foldl (\<lambda>f l. f[i := (log_sum_log X (fst (f ! i)) (forward_fg_seg_llh X s start f i l),
                              snd (f ! i))]) f ls =
         f[i := (foldl (log_sum_log X) (fst (f ! i)) (map (forward_fg_seg_llh X s start f i) ls),
                 snd (f ! i))]"
  using assms(1,3)
proof (induction ls arbitrary: f)
  case Nil
  show ?case by simp
next
  case (Cons l ls)
  let ?f = "f[i := (log_sum_log X (fst (f ! i)) (forward_fg_seg_llh X s start f i l), snd (f ! i))]"
  have len: "i < length ?f" using Cons.prems(1) by simp
  have at: "?f ! i = (log_sum_log X (fst (f ! i)) (forward_fg_seg_llh X s start f i l), snd (f ! i))"
    using Cons.prems(1) by simp
  have same: "map (forward_fg_seg_llh X s start ?f i) ls = map (forward_fg_seg_llh X s start f i) ls"
  proof (rule map_cong [OF refl])
    fix k assume "k \<in> set ls"
    with Cons.prems(2) have k: "1 \<le> k" "k \<le> i - start + 1" by simp_all
    show "forward_fg_seg_llh X s start ?f i k = forward_fg_seg_llh X s start f i k"
      by (rule forward_fg_seg_llh_cong [OF _ k assms(2)]) simp
  qed
  have "foldl (\<lambda>f l. f[i := (log_sum_log X (fst (f ! i)) (forward_fg_seg_llh X s start f i l),
                              snd (f ! i))]) ?f ls =
      ?f[i := (foldl (log_sum_log X) (fst (?f ! i)) (map (forward_fg_seg_llh X s start ?f i) ls),
                 snd (?f ! i))]"
    using len Cons.prems(2) by (intro Cons.IH) simp_all
  then show ?case
    by (simp add: at same)
qed

lemma forward_step_eq:
  assumes "i < length fw" and "start < i"
  shows "forward_step X s start fw i = fw[i := forward_entry X s start fw i (fst (fw ! i))]"
proof -
  have r: "\<forall>l\<in>set (forward_lengths s start i). 1 \<le> l \<and> l \<le> i - start + 1"
    using forward_lengths_range by blast
  have s: "start \<le> i" using assms(2) by simp
  have ne: "i - 1 \<noteq> i" using assms(2) by simp
  show ?thesis
    unfolding forward_step_def Let_def forward_inner [OF assms(1) s r] forward_entry_def
    using assms(1) ne by simp
qed

lemma forward_entry_cong:
  assumes "\<And>j. j < i \<Longrightarrow> f ! j = g ! j" and "start < i"
  shows "forward_entry X s start f i init = forward_entry X s start g i init"
proof -
  have eq1: "map (forward_fg_seg_llh X s start f i) (forward_lengths s start i) =
      map (forward_fg_seg_llh X s start g i) (forward_lengths s start i)"
  proof (rule map_cong [OF refl])
    fix l assume "l \<in> set (forward_lengths s start i)"
    then have l: "1 \<le> l" "l \<le> i - start + 1" using forward_lengths_range by blast+
    show "forward_fg_seg_llh X s start f i l = forward_fg_seg_llh X s start g i l"
      using assms(2) by (intro forward_fg_seg_llh_cong [OF assms(1) l]) simp_all
  qed
  have eq2: "f ! (i - 1) = g ! (i - 1)" using assms by simp
  show ?thesis unfolding forward_entry_def eq1 eq2 ..
qed

lemma forward_steps_invariant:
  assumes "m \<le> length fw1"
  shows "length (foldl (forward_step X s start) fw1 [start + 1..<m]) = length fw1 \<and>
     (\<forall>j. j \<le> start \<or> m \<le> j \<longrightarrow> foldl (forward_step X s start) fw1 [start + 1..<m] ! j = fw1 ! j) \<and>
     (\<forall>i. start < i \<and> i < m \<longrightarrow>
        foldl (forward_step X s start) fw1 [start + 1..<m] ! i =
          forward_entry X s start (foldl (forward_step X s start) fw1 [start + 1..<m]) i
            (fst (fw1 ! i)))"
  using assms
proof (induction m)
  case 0
  show ?case by simp
next
  case (Suc m)
  show ?case
  proof (cases "start + 1 \<le> m")
    case False
    then show ?thesis by auto
  next
    case True
    let ?T = "foldl (forward_step X s start) fw1 [start + 1..<m]"
    have "m \<le> length fw1" using Suc.prems by simp
    note IH = Suc.IH [OF this]
    have ih: "length ?T = length fw1"
      "\<And>j. j \<le> start \<or> m \<le> j \<Longrightarrow> ?T ! j = fw1 ! j"
      "\<And>i. start < i \<Longrightarrow> i < m \<Longrightarrow> ?T ! i = forward_entry X s start ?T i (fst (fw1 ! i))"
      using IH by blast+
    have m: "m < length ?T" "start < m" using Suc.prems True ih(1) by simp_all
    let ?T' = "?T[m := forward_entry X s start ?T m (fst (fw1 ! m))]"
    have e0: "fst (?T ! m) = fst (fw1 ! m)" using ih(2) [of m] by simp
    have "foldl (forward_step X s start) fw1 [start + 1..<Suc m] = forward_step X s start ?T m"
      using True by simp
    also have "\<dots> = ?T[m := forward_entry X s start ?T m (fst (?T ! m))]"
      by (rule forward_step_eq [OF m])
    also have "\<dots> = ?T'" by (simp only: e0)
    finally have unfold: "foldl (forward_step X s start) fw1 [start + 1..<Suc m] = ?T'" .
    have below: "?T' ! j = ?T ! j" if "j < m" for j using that by simp
    have "length ?T' = length fw1" using ih(1) by simp
    moreover have "?T' ! j = fw1 ! j" if "j \<le> start \<or> Suc m \<le> j" for j
      using that m(2) ih(2) [of j] by (cases "j = m") auto
    moreover have "?T' ! i = forward_entry X s start ?T' i (fst (fw1 ! i))"
      if i: "start < i" "i < Suc m" for i
    proof (cases "i = m")
      case True
      have "?T' ! m = forward_entry X s start ?T m (fst (fw1 ! m))"
        using m(1) by simp
      also have "\<dots> = forward_entry X s start ?T' m (fst (fw1 ! m))"
        by (rule forward_entry_cong [OF _ m(2)]) (simp add: below)
      finally show ?thesis using True by simp
    next
      case False
      with i have lt: "i < m" by simp
      have "?T' ! i = forward_entry X s start ?T i (fst (fw1 ! i))"
        using lt ih(3) [OF i(1) lt] by simp
      also have "\<dots> = forward_entry X s start ?T' i (fst (fw1 ! i))"
      proof (rule forward_entry_cong [OF _ i(1)])
        fix j assume "j < i"
        with lt show "?T ! j = ?T' ! j" by simp
      qed
      finally show ?thesis .
    qed
    ultimately show ?thesis unfolding unfold by blast
  qed
qed

lemma forward_table_nth:
  assumes "start < end" and "end \<le> length (forward s)"
  shows "forward_table X s start end ! start =
           (lp_sf s + fg_segment_log_likelihood s start (start + 1)
              + duration_ll X (fg_duration s) 1,
            lp_sb s + bg_segment_log_likelihood s start (start + 1))"
    and "\<And>i. start < i \<Longrightarrow> i < end \<Longrightarrow>
           forward_table X s start end ! i =
             forward_entry X s start (forward_table X s start end) i 0"
proof -
  let ?fw0 = "fill_range (forward s) start end (0, 0)"
  let ?fw1 = "?fw0[start :=
                  (lp_sf s + fg_segment_log_likelihood s start (start + 1)
                     + duration_ll X (fg_duration s) 1,
                   lp_sb s + bg_segment_log_likelihood s start (start + 1))]"
  have tab: "forward_table X s start end = foldl (forward_step X s start) ?fw1 [start + 1..<end]"
    by (simp add: forward_table_def Let_def)
  have len: "end \<le> length ?fw1" using assms(2) by simp
  note inv = forward_steps_invariant [OF len, of X s start, folded tab]
  have "forward_table X s start end ! start = ?fw1 ! start" using inv by simp
  then show "forward_table X s start end ! start =
           (lp_sf s + fg_segment_log_likelihood s start (start + 1)
              + duration_ll X (fg_duration s) 1,
            lp_sb s + bg_segment_log_likelihood s start (start + 1))"
    using assms by simp
  fix i assume i: "start < i" "i < end"
  have "?fw1 ! i = (0, 0)"
    using i assms(2) by (simp add: fill_range_nth)
  then show "forward_table X s start end ! i =
             forward_entry X s start (forward_table X s start end) i 0"
    using inv i by simp
qed

lemma backward_fg_seg_llh_cong:
  assumes "\<And>j. i < j \<Longrightarrow> f ! j = g ! j" and "1 \<le> l"
  shows "backward_fg_seg_llh X s f i l = backward_fg_seg_llh X s g i l"
proof -
  have "i < i + l + 1 - 1" using assms(2) by simp
  then have "f ! (i + l + 1 - 1) = g ! (i + l + 1 - 1)" by (rule assms(1))
  then show ?thesis by (simp add: backward_fg_seg_llh_def Let_def)
qed

lemma backward_lengths_range: "l \<in> set (backward_lengths s end i) \<Longrightarrow> 1 \<le> l"
  by (auto simp add: backward_lengths_def)

lemma backward_inner:
  assumes "i < length f" and "\<forall>l\<in>set ls. 1 \<le> l"
  shows "foldl (\<lambda>b l. b[i := (fst (b ! i),
                              log_sum_log X (snd (b ! i)) (backward_fg_seg_llh X s b i l))]) f ls =
         f[i := (fst (f ! i),
                 foldl (log_sum_log X) (snd (f ! i)) (map (backward_fg_seg_llh X s f i) ls))]"
  using assms
proof (induction ls arbitrary: f)
  case Nil
  show ?case by simp
next
  case (Cons l ls)
  let ?f = "f[i := (fst (f ! i), log_sum_log X (snd (f ! i)) (backward_fg_seg_llh X s f i l))]"
  have len: "i < length ?f" using Cons.prems(1) by simp
  have at: "?f ! i = (fst (f ! i), log_sum_log X (snd (f ! i)) (backward_fg_seg_llh X s f i l))"
    using Cons.prems(1) by simp
  have same: "map (backward_fg_seg_llh X s ?f i) ls = map (backward_fg_seg_llh X s f i) ls"
  proof (rule map_cong [OF refl])
    fix k assume "k \<in> set ls"
    with Cons.prems(2) have k: "1 \<le> k" by simp
    show "backward_fg_seg_llh X s ?f i k = backward_fg_seg_llh X s f i k"
      by (rule backward_fg_seg_llh_cong [OF _ k]) simp
  qed
  have "foldl (\<lambda>b l. b[i := (fst (b ! i),
                              log_sum_log X (snd (b ! i)) (backward_fg_seg_llh X s b i l))]) ?f ls =
      ?f[i := (fst (?f ! i),
               foldl (log_sum_log X) (snd (?f ! i)) (map (backward_fg_seg_llh X s ?f i) ls))]"
    using len Cons.prems(2) by (intro Cons.IH) simp_all
  then show ?case
    by (simp add: at same)
qed

lemma backward_step_eq:
  assumes "i < length bw"
  shows "backward_step X s end bw i = bw[i := backward_entry X s end bw i]"
proof -
  let ?A = "bg_segment_log_likelihood s (i + 1) (i + 2) + snd (bw ! (i + 1))"
  let ?B = "self_lp X s + bg_segment_log_likelihood s (i + 1) (i + 2) + snd (bw ! (i + 1))"
  let ?bw1 = "bw[i := (?A, ?B)]"
  have r: "\<forall>l\<in>set (backward_lengths s end i). 1 \<le> l"
    using backward_lengths_range by blast
  have len: "i < length ?bw1" using assms by simp
  have at: "?bw1 ! i = (?A, ?B)" using assms by simp
  have same: "map (backward_fg_seg_llh X s ?bw1 i) (backward_lengths s end i) =
      map (backward_fg_seg_llh X s bw i) (backward_lengths s end i)"
  proof (rule map_cong [OF refl])
    fix l assume "l \<in> set (backward_lengths s end i)"
    then have l: "1 \<le> l" by (rule backward_lengths_range)
    show "backward_fg_seg_llh X s ?bw1 i l = backward_fg_seg_llh X s bw i l"
      by (rule backward_fg_seg_llh_cong [OF _ l]) simp
  qed
  have "backward_step X s end bw i =
      ?bw1[i := (fst (?bw1 ! i),
                 foldl (log_sum_log X) (snd (?bw1 ! i))
                   (map (backward_fg_seg_llh X s ?bw1 i) (backward_lengths s end i)))]"
    unfolding backward_step_def Let_def by (rule backward_inner [OF len r])
  also have "\<dots> = bw[i := backward_entry X s end bw i]"
    unfolding at same backward_entry_def by simp
  finally show ?thesis .
qed

lemma backward_entry_cong:
  assumes "\<And>j. i < j \<Longrightarrow> f ! j = g ! j"
  shows "backward_entry X s end f i = backward_entry X s end g i"
proof -
  have eq1: "map (backward_fg_seg_llh X s f i) (backward_lengths s end i) =
      map (backward_fg_seg_llh X s g i) (backward_lengths s end i)"
  proof (rule map_cong [OF refl])
    fix l assume "l \<in> set (backward_lengths s end i)"
    then have l: "1 \<le> l" by (rule backward_lengths_range)
    show "backward_fg_seg_llh X s f i l = backward_fg_seg_llh X s g i l"
      by (rule backward_fg_seg_llh_cong [OF assms l])
  qed
  have eq2: "f ! (i + 1) = g ! (i + 1)" using assms by simp
  show ?thesis unfolding backward_entry_def eq1 eq2 ..
qed

lemma backward_steps_invariant:
  assumes "k \<le> n" and "n \<le> length bw1"
  shows "length (foldl (backward_step X s end) bw1 (rev [n - k..<n])) = length bw1 \<and>
     (\<forall>j. j < n - k \<or> n \<le> j \<longrightarrow>
        foldl (backward_step X s end) bw1 (rev [n - k..<n]) ! j = bw1 ! j) \<and>
     (\<forall>i. n - k \<le> i \<and> i < n \<longrightarrow>
        foldl (backward_step X s end) bw1 (rev [n - k..<n]) ! i =
          backward_entry X s end (foldl (backward_step X s end) bw1 (rev [n - k..<n])) i)"
  using assms(1)
proof (induction k)
  case 0
  show ?case by auto
next
  case (Suc k)
  let ?m = "n - Suc k"
  let ?T = "foldl (backward_step X s end) bw1 (rev [n - k..<n])"
  have k: "k \<le> n" using Suc.prems by simp
  note IH = Suc.IH [OF k]
  have ih: "length ?T = length bw1"
    "\<And>j. j < n - k \<or> n \<le> j \<Longrightarrow> ?T ! j = bw1 ! j"
    "\<And>i. n - k \<le> i \<Longrightarrow> i < n \<Longrightarrow> ?T ! i = backward_entry X s end ?T i"
    using IH by blast+
  have m: "Suc ?m = n - k" "?m < n" using Suc.prems by simp_all
  have "rev [?m..<n] = rev [n - k..<n] @ [?m]"
    using m by (simp add: upt_conv_Cons)
  then have step: "foldl (backward_step X s end) bw1 (rev [?m..<n]) = backward_step X s end ?T ?m"
    by simp
  have len: "?m < length ?T" using m ih(1) assms(2) by simp
  let ?T' = "?T[?m := backward_entry X s end ?T ?m]"
  have unfold: "foldl (backward_step X s end) bw1 (rev [?m..<n]) = ?T'"
    unfolding step by (rule backward_step_eq [OF len])
  have "length ?T' = length bw1" using ih(1) by simp
  moreover have "?T' ! j = bw1 ! j" if "j < ?m \<or> n \<le> j" for j
  proof -
    have "j \<noteq> ?m" using that m by auto
    moreover have "j < n - k \<or> n \<le> j" using that m by auto
    ultimately show ?thesis using ih(2) [of j] by simp
  qed
  moreover have "?T' ! i = backward_entry X s end ?T' i" if i: "?m \<le> i" "i < n" for i
  proof (cases "i = ?m")
    case True
    have "?T' ! ?m = backward_entry X s end ?T ?m" using len by simp
    also have "\<dots> = backward_entry X s end ?T' ?m"
      by (rule backward_entry_cong) simp
    finally show ?thesis using True by simp
  next
    case False
    with i m have gt: "n - k \<le> i" by simp
    have "?T' ! i = backward_entry X s end ?T i"
      using False ih(3) [OF gt i(2)] by simp
    also have "\<dots> = backward_entry X s end ?T' i"
    proof (rule backward_entry_cong)
      fix j assume "i < j"
      with i(1) show "?T ! j = ?T' ! j" by simp
    qed
    finally show ?thesis .
  qed
  ultimately show ?case unfolding unfold by blast
qed

lemma backward_table_nth:
  assumes "start < end" and "end \<le> length (backward s)"
  shows "backward_table X s start end ! (end - 1) = (lp_ft s, lp_bt s)"
    and "\<And>i. start \<le> i \<Longrightarrow> i + 1 < end \<Longrightarrow>
           backward_table X s start end ! i =
             backward_entry X s end (backward_table X s start end) i"
proof -
  let ?bw0 = "fill_range (backward s) start end (0, 0)"
  let ?bw1 = "?bw0[end - 1 := (lp_ft s, lp_bt s)]"
  have k: "end - 1 - start \<le> end - 1" by simp
  have m: "end - 1 - (end - 1 - start) = start" using assms(1) by simp
  have tab: "backward_table X s start end =
      foldl (backward_step X s end) ?bw1 (rev [start..<end - 1])"
    by (simp add: backward_table_def Let_def)
  have len: "end - 1 \<le> length ?bw1" "end - 1 < length ?bw1" using assms by simp_all
  note inv = backward_steps_invariant [OF k len(1), of X s "end", unfolded m, folded tab]
  have "backward_table X s start end ! (end - 1) = ?bw1 ! (end - 1)" using inv by simp
  then show "backward_table X s start end ! (end - 1) = (lp_ft s, lp_bt s)"
    using len by simp
  fix i assume i: "start \<le> i" "i + 1 < end"
  then show "backward_table X s start end ! i =
             backward_entry X s end (backward_table X s start end) i"
    using inv by simp
qed

text \<open>\<^verbatim>\<open>backward_algorithm\<close> does not read the forward table.\<close>

lemma backward_step_forward_update:
  "backward_step X (s\<lparr>forward := fw\<rparr>) end = backward_step X s end"
  by (intro ext)
     (simp add: backward_step_def backward_fg_seg_llh_def backward_lengths_def
        self_lp_def switch_lp_def bg_segment_log_likelihood_def fg_segment_log_likelihood_def)

lemma backward_table_forward_update:
  "backward_table X (s\<lparr>forward := fw\<rparr>) start end = backward_table X s start end"
  by (simp add: backward_table_def backward_step_forward_update)

lemma backward_first_llh_forward_update:
  "backward_first_llh X (s\<lparr>forward := fw\<rparr>) = backward_first_llh X s"
  by (intro ext) (simp add: backward_first_llh_def fg_segment_log_likelihood_def Let_def)

lemma backward_algorithm_forward_update:
  "fst (backward_algorithm X (s\<lparr>forward := fw\<rparr>) start end) =
   fst (backward_algorithm X s start end)"
proof -
  have "backward_first_lengths (s\<lparr>forward := fw\<rparr>) start end = backward_first_lengths s start end"
    by (simp add: backward_first_lengths_def)
  moreover have "bg_segment_log_likelihood (s\<lparr>forward := fw\<rparr>) start (start + 1) =
      bg_segment_log_likelihood s start (start + 1)"
    by (simp add: bg_segment_log_likelihood_def)
  ultimately show ?thesis
    unfolding backward_algorithm_def Let_def backward_table_forward_update
      backward_first_llh_forward_update
    by simp
qed

subsection \<open>The recurrences in the probability domain\<close>

lemma sum_list_lengths_reflect:
  fixes F :: "nat \<Rightarrow> real"
  assumes "start \<le> i"
  shows "sum_list (map (\<lambda>l. F (i + 1 - l)) [1..<min (i - start + 1) M + 1]) =
         (\<Sum>b = start..i. if i + 1 \<le> b + M then F b else 0)"
proof -
  let ?L = "min (i - start + 1) M"
  have "sum_list (map (\<lambda>l. F (i + 1 - l)) [1..<?L + 1]) = (\<Sum>l\<in>{1..<?L + 1}. F (i + 1 - l))"
    by (simp only: interv_sum_list_conv_sum_set_nat set_upt)
  also have "\<dots> = (\<Sum>b\<in>{b \<in> {start..i}. i + 1 \<le> b + M}. F b)"
    by (rule sum.reindex_bij_witness [where i = "\<lambda>b. i + 1 - b" and j = "\<lambda>l. i + 1 - l"])
       (use assms in auto)
  also have "\<dots> = (\<Sum>b = start..i. if i + 1 \<le> b + M then F b else 0)"
    by (rule sum.inter_filter) simp
  finally show ?thesis .
qed

lemma sum_list_lengths_shift:
  fixes F :: "nat \<Rightarrow> real"
  shows "sum_list (map (\<lambda>l. F (k + l)) [1..<L + 1]) = (\<Sum>e = k + 1..k + L. F e)"
proof -
  have "sum_list (map (\<lambda>l. F (k + l)) [1..<L + 1]) = (\<Sum>l\<in>{1..<L + 1}. F (k + l))"
    by (simp only: interv_sum_list_conv_sum_set_nat set_upt)
  also have "\<dots> = (\<Sum>e = k + 1..k + L. F e)"
    by (rule sum.reindex_bij_witness [where i = "\<lambda>e. e - k" and j = "\<lambda>l. k + l"]) auto
  finally show ?thesis .
qed

lemma exact_passes_parts:
  assumes "exact_passes X s start end"
  shows "\<And>i. start < i \<Longrightarrow> i < end \<Longrightarrow>
           exact_from_empty (log_sum_log X)
             (map (forward_fg_seg_llh X s start (forward_table X s start end) i)
                (forward_lengths s start i))"
    and "\<And>i. start < i \<Longrightarrow> i < end \<Longrightarrow>
           exact_from (log_sum_log X) (fst (forward_table X s start end ! (i - 1)))
             [snd (forward_table X s start end ! (i - 1)) + self_lp X s]"
    and "exact_from (log_sum_log X) (fst (forward_table X s start end ! (end - 1)) + lp_ft s)
           [snd (forward_table X s start end ! (end - 1)) + lp_bt s]"
    and "\<And>i. start \<le> i \<Longrightarrow> i + 1 < end \<Longrightarrow>
           exact_from (log_sum_log X)
             (self_lp X s + bg_segment_log_likelihood s (i + 1) (i + 2)
                + snd (backward_table X s start end ! (i + 1)))
             (map (backward_fg_seg_llh X s (backward_table X s start end) i)
                (backward_lengths s end i))"
    and "exact_from (log_sum_log X)
           (lp_sb s + bg_segment_log_likelihood s start (start + 1)
              + snd (backward_table X s start end ! start))
           (map (backward_first_llh X s (backward_table X s start end) start)
              (backward_first_lengths s start end))"
  using assms
  by (simp_all add: exact_passes_def Let_def list_all_iff)

lemma forward_exp_foreground:
  assumes se: "start < end" and lf: "end \<le> length (forward s)" and M: "1 \<le> MAX_LEN s"
    and ex: "exact_passes X s start end" and i: "start \<le> i" "i < end"
  shows "exp (fst (forward_table X s start end ! i)) =
     (\<Sum>b = start..i. if i + 1 \<le> b + MAX_LEN s
        then (if b = start then exp (lp_sf s)
              else exp (snd (forward_table X s start end ! (b - 1))) * exp (switch_lp X s))
             * exp (fg_segment_log_likelihood s b (i + 1)
                    + duration_ll X (fg_duration s) (i + 1 - b))
        else 0)"
proof (cases "i = start")
  case True
  have "start + 1 - start = (1 :: nat)" by simp
  then show ?thesis
    using M by (simp add: True forward_table_nth(1) [OF se lf] exp_add)
next
  case False
  with i have gt: "start < i" by simp
  let ?FW = "forward_table X s start end"
  let ?F = "\<lambda>b. (if b = start then exp (lp_sf s)
              else exp (snd (?FW ! (b - 1))) * exp (switch_lp X s))
             * exp (fg_segment_log_likelihood s b (i + 1)
                    + duration_ll X (fg_duration s) (i + 1 - b))"
  have tm: "exp (forward_fg_seg_llh X s start ?FW i l) = ?F (i + 1 - l)"
    if "l \<in> set (forward_lengths s start i)" for l
  proof -
    from that have "1 \<le> l" "l \<le> i - start + 1" using forward_lengths_range by blast+
    then have "i + 1 - (i + 1 - l) = l" by simp
    then show ?thesis
      by (simp add: forward_fg_seg_llh_def Let_def exp_add)
  qed
  have "fst (?FW ! i) = foldl (log_sum_log X) 0
      (map (forward_fg_seg_llh X s start ?FW i) (forward_lengths s start i))"
    by (simp add: forward_table_nth(2) [OF se lf gt i(2)] forward_entry_def)
  then have "exp (fst (?FW ! i)) =
      sum_list (map exp (map (forward_fg_seg_llh X s start ?FW i) (forward_lengths s start i)))"
    using exact_passes_parts(1) [OF ex gt i(2)] by (simp only: exact_from_empty_def)
  also have "\<dots> = sum_list (map (\<lambda>l. ?F (i + 1 - l)) (forward_lengths s start i))"
    unfolding map_map comp_def
    by (rule arg_cong [where f = sum_list], rule map_cong [OF refl]) (rule tm)
  also have "\<dots> = (\<Sum>b = start..i. if i + 1 \<le> b + MAX_LEN s then ?F b else 0)"
    unfolding forward_lengths_def by (rule sum_list_lengths_reflect [OF i(1)])
  finally show ?thesis .
qed

lemma forward_exp_background:
  assumes se: "start < end" and lf: "end \<le> length (forward s)"
    and ex: "exact_passes X s start end"
  shows "exp (snd (forward_table X s start end ! start)) =
           exp (lp_sb s) * exp (bg_segment_log_likelihood s start (start + 1))"
    and "\<And>i. start < i \<Longrightarrow> i < end \<Longrightarrow>
           exp (snd (forward_table X s start end ! i)) =
             (exp (fst (forward_table X s start end ! (i - 1)))
              + exp (snd (forward_table X s start end ! (i - 1))) * exp (self_lp X s))
             * exp (bg_segment_log_likelihood s i (i + 1))"
proof -
  show "exp (snd (forward_table X s start end ! start)) =
           exp (lp_sb s) * exp (bg_segment_log_likelihood s start (start + 1))"
    by (simp add: forward_table_nth(1) [OF se lf] exp_add)
  fix i assume i: "start < i" "i < end"
  let ?FW = "forward_table X s start end"
  have "exp (log_sum_log X (fst (?FW ! (i - 1))) (snd (?FW ! (i - 1)) + self_lp X s)) =
      exp (fst (?FW ! (i - 1))) + exp (snd (?FW ! (i - 1)) + self_lp X s)"
    using exact_passes_parts(2) [OF ex i] by (simp add: exact_from_def)
  then show "exp (snd (?FW ! i)) =
             (exp (fst (?FW ! (i - 1))) + exp (snd (?FW ! (i - 1))) * exp (self_lp X s))
             * exp (bg_segment_log_likelihood s i (i + 1))"
    by (simp add: forward_table_nth(2) [OF se lf i] forward_entry_def exp_add)
qed

lemma backward_exp:
  assumes se: "start < end" and lb: "end \<le> length (backward s)"
    and ex: "exact_passes X s start end"
  shows "exp (fst (backward_table X s start end ! (end - 1))) = exp (lp_ft s)"
    and "exp (snd (backward_table X s start end ! (end - 1))) = exp (lp_bt s)"
    and "\<And>i. start \<le> i \<Longrightarrow> i + 1 < end \<Longrightarrow>
           exp (fst (backward_table X s start end ! i)) =
             exp (bg_segment_log_likelihood s (i + 1) (i + 1 + 1))
             * exp (snd (backward_table X s start end ! (i + 1)))"
    and "\<And>i. start \<le> i \<Longrightarrow> i + 1 < end \<Longrightarrow>
           exp (snd (backward_table X s start end ! i)) =
             exp (self_lp X s) * exp (bg_segment_log_likelihood s (i + 1) (i + 1 + 1))
               * exp (snd (backward_table X s start end ! (i + 1)))
             + exp (switch_lp X s)
               * (\<Sum>e = i + 2..min (i + 1 + MAX_LEN s) end.
                    exp (fg_segment_log_likelihood s (i + 1) e
                         + duration_ll X (fg_duration s) (e - (i + 1)))
                    * exp (fst (backward_table X s start end ! (e - 1))))"
proof -
  let ?BW = "backward_table X s start end"
  show "exp (fst (?BW ! (end - 1))) = exp (lp_ft s)"
    and "exp (snd (?BW ! (end - 1))) = exp (lp_bt s)"
    using backward_table_nth(1) [OF se lb, of X] by simp_all
  fix i assume i: "start \<le> i" "i + 1 < end"
  note entry = backward_table_nth(2) [OF se lb i, of X]
  show "exp (fst (?BW ! i)) =
      exp (bg_segment_log_likelihood s (i + 1) (i + 1 + 1)) * exp (snd (?BW ! (i + 1)))"
    by (subst entry) (simp add: backward_entry_def exp_add)
  let ?G = "\<lambda>e. exp (switch_lp X s)
      * (exp (fg_segment_log_likelihood s (i + 1) e + duration_ll X (fg_duration s) (e - (i + 1)))
         * exp (fst (?BW ! (e - 1))))"
  let ?a0 = "self_lp X s + bg_segment_log_likelihood s (i + 1) (i + 2) + snd (?BW ! (i + 1))"
  have tm: "exp (backward_fg_seg_llh X s ?BW i l) = ?G (i + 1 + l)" for l
    by (simp add: backward_fg_seg_llh_def Let_def exp_add add.commute add.left_commute)
  have L: "i + 1 + min (end - i - 1) (MAX_LEN s) = min (i + 1 + MAX_LEN s) end"
    using i(2) by simp
  have "snd (?BW ! i) = foldl (log_sum_log X) ?a0
      (map (backward_fg_seg_llh X s ?BW i) (backward_lengths s end i))"
    by (subst entry) (simp add: backward_entry_def)
  then have "exp (snd (?BW ! i)) = exp ?a0 +
      sum_list (map exp (map (backward_fg_seg_llh X s ?BW i) (backward_lengths s end i)))"
    using exact_passes_parts(4) [OF ex i] by (simp only: exact_from_def)
  also have "sum_list (map exp (map (backward_fg_seg_llh X s ?BW i) (backward_lengths s end i))) =
      sum_list (map (\<lambda>l. ?G (i + 1 + l)) [1..<min (end - i - 1) (MAX_LEN s) + 1])"
    unfolding map_map comp_def backward_lengths_def tm ..
  also have "\<dots> = (\<Sum>e = i + 1 + 1..i + 1 + min (end - i - 1) (MAX_LEN s). ?G e)"
    by (rule sum_list_lengths_shift)
  also have "\<dots> = exp (switch_lp X s)
      * (\<Sum>e = i + 2..min (i + 1 + MAX_LEN s) end.
           exp (fg_segment_log_likelihood s (i + 1) e + duration_ll X (fg_duration s) (e - (i + 1)))
           * exp (fst (?BW ! (e - 1))))"
    unfolding L by (simp add: sum_distrib_left)
  finally show "exp (snd (?BW ! i)) =
      exp (self_lp X s) * exp (bg_segment_log_likelihood s (i + 1) (i + 1 + 1))
        * exp (snd (?BW ! (i + 1)))
      + exp (switch_lp X s)
        * (\<Sum>e = i + 2..min (i + 1 + MAX_LEN s) end.
             exp (fg_segment_log_likelihood s (i + 1) e
                  + duration_ll X (fg_duration s) (e - (i + 1)))
             * exp (fst (?BW ! (e - 1))))"
    by (simp add: exp_add)
qed

lemma forward_exp_total:
  assumes "exact_passes X s start end"
  shows "exp (fst (forward_algorithm X s start end)) =
     exp (fst (forward_table X s start end ! (end - 1))) * exp (lp_ft s)
     + exp (snd (forward_table X s start end ! (end - 1))) * exp (lp_bt s)"
  using exact_passes_parts(3) [OF assms]
  by (simp add: forward_algorithm_def Let_def exact_from_def exp_add)

lemma backward_exp_total:
  assumes se: "start < end" and ex: "exact_passes X s start end"
  shows "exp (fst (backward_algorithm X s start end)) =
     exp (lp_sb s) * exp (bg_segment_log_likelihood s start (start + 1))
       * exp (snd (backward_table X s start end ! start))
     + exp (lp_sf s)
       * (\<Sum>e = start + 1..min (start + MAX_LEN s) end.
            exp (fg_segment_log_likelihood s start e + duration_ll X (fg_duration s) (e - start))
            * exp (fst (backward_table X s start end ! (e - 1))))"
proof -
  let ?BW = "backward_table X s start end"
  let ?G = "\<lambda>e. exp (lp_sf s)
      * (exp (fg_segment_log_likelihood s start e + duration_ll X (fg_duration s) (e - start))
         * exp (fst (?BW ! (e - 1))))"
  let ?a0 = "lp_sb s + bg_segment_log_likelihood s start (start + 1) + snd (?BW ! start)"
  have tm: "exp (backward_first_llh X s ?BW start l) = ?G (start + l)" for l
    by (simp add: backward_first_llh_def Let_def exp_add)
  have L: "start + min (end - start) (MAX_LEN s) = min (start + MAX_LEN s) end"
    using se by simp
  have "fst (backward_algorithm X s start end) = foldl (log_sum_log X) ?a0
      (map (backward_first_llh X s ?BW start) (backward_first_lengths s start end))"
    by (simp add: backward_algorithm_def Let_def foldl_map)
  then have "exp (fst (backward_algorithm X s start end)) = exp ?a0 +
      sum_list (map exp (map (backward_first_llh X s ?BW start) (backward_first_lengths s start end)))"
    using exact_passes_parts(5) [OF ex] by (simp only: exact_from_def)
  also have "sum_list (map exp (map (backward_first_llh X s ?BW start)
        (backward_first_lengths s start end))) =
      sum_list (map (\<lambda>l. ?G (start + l)) [1..<min (end - start) (MAX_LEN s) + 1])"
    unfolding map_map comp_def backward_first_lengths_def tm ..
  also have "\<dots> = (\<Sum>e = start + 1..start + min (end - start) (MAX_LEN s). ?G e)"
    by (rule sum_list_lengths_shift)
  also have "\<dots> = exp (lp_sf s)
      * (\<Sum>e = start + 1..min (start + MAX_LEN s) end.
           exp (fg_segment_log_likelihood s start e + duration_ll X (fg_duration s) (e - start))
           * exp (fst (?BW ! (e - 1))))"
    unfolding L by (simp add: sum_distrib_left)
  finally show ?thesis
    by (simp add: exp_add)
qed

text \<open>
  With \<open>a\<close>, \<open>bb\<close> the exponentials of the forward table and \<open>c\<close>, \<open>d\<close> those of the
  backward table, the sum \<open>bb j * d j + \<Sum>b. E b * (\<Sum>e. g b e * c (e - 1))\<close> over the
  foreground segments \<open>[b, e)\<close> with \<open>b \<le> j < e\<close> does not depend on the position \<open>j\<close>:
  at \<open>j = end - 1\<close> it is the forward total and at \<open>j = start\<close> the backward total.
\<close>

lemma forward_backward_algebra:
  fixes a bb c d h :: "nat \<Rightarrow> real" and g :: "nat \<Rightarrow> nat \<Rightarrow> real"
    and sf sb sw sl ft bt :: real and M start en :: nat
  assumes se: "start < en" and M: "1 \<le> M"
    and a_eq: "\<And>i. start \<le> i \<Longrightarrow> i < en \<Longrightarrow>
        a i = (\<Sum>b = start..i. if i + 1 \<le> b + M
                 then (if b = start then sf else bb (b - 1) * sw) * g b (i + 1) else 0)"
    and b_first: "bb start = sb * h start"
    and b_eq: "\<And>i. start < i \<Longrightarrow> i < en \<Longrightarrow> bb i = (a (i - 1) + bb (i - 1) * sl) * h i"
    and c_last: "c (en - 1) = ft"
    and c_eq: "\<And>i. start \<le> i \<Longrightarrow> i + 1 < en \<Longrightarrow> c i = h (i + 1) * d (i + 1)"
    and d_last: "d (en - 1) = bt"
    and d_eq: "\<And>i. start \<le> i \<Longrightarrow> i + 1 < en \<Longrightarrow>
        d i = sl * h (i + 1) * d (i + 1)
              + sw * (\<Sum>e = i + 2..min (i + 1 + M) en. g (i + 1) e * c (e - 1))"
  shows "a (en - 1) * ft + bb (en - 1) * bt =
         bb start * d start + sf * (\<Sum>e = start + 1..min (start + M) en. g start e * c (e - 1))"
proof -
  define E where "E b = (if b = start then sf else bb (b - 1) * sw)" for b
  define V where "V b j = (\<Sum>e = j + 1..min (b + M) en. g b e * c (e - 1))" for b j
  define Z where "Z j = bb j * d j + (\<Sum>b = start..j. E b * V b j)" for j
  have V_step: "V b j = (if j + 1 \<le> b + M then g b (j + 1) * c j else 0) + V b (j + 1)"
    if "j + 1 \<le> en" for b j
  proof (cases "j + 1 \<le> b + M")
    case True
    with that have "j + 1 \<le> min (b + M) en" by simp
    then have "V b j = g b (j + 1) * c (j + 1 - 1) + (\<Sum>e = Suc (j + 1)..min (b + M) en. g b e * c (e - 1))"
      unfolding V_def by (rule sum.atLeast_Suc_atMost)
    with True show ?thesis by (simp add: V_def)
  next
    case False
    then show ?thesis by (simp add: V_def)
  qed
  have Z_step: "Z j = Z (j + 1)" if j: "start \<le> j" "j + 1 < en" for j
  proof -
    have jen: "j + 1 \<le> en" "j < en" using j by simp_all
    have "(\<Sum>b = start..j. E b * V b j) =
        (\<Sum>b = start..j. (if j + 1 \<le> b + M then E b * g b (j + 1) else 0) * c j + E b * V b (j + 1))"
      by (rule sum.cong) (simp_all add: V_step [OF jen(1)] algebra_simps)
    also have "\<dots> = (\<Sum>b = start..j. if j + 1 \<le> b + M then E b * g b (j + 1) else 0) * c j
        + (\<Sum>b = start..j. E b * V b (j + 1))"
      by (simp add: sum.distrib sum_distrib_right)
    also have "(\<Sum>b = start..j. if j + 1 \<le> b + M then E b * g b (j + 1) else 0) = a j"
      unfolding E_def using a_eq [OF j(1) jen(2)] by simp
    finally have U: "(\<Sum>b = start..j. E b * V b j) = a j * c j + (\<Sum>b = start..j. E b * V b (j + 1))" .
    have "(\<Sum>b = start..j + 1. E b * V b (j + 1)) =
        (\<Sum>b = start..j. E b * V b (j + 1)) + E (j + 1) * V (j + 1) (j + 1)"
      using j(1) by simp
    moreover have "E (j + 1) = bb j * sw"
      using j(1) by (simp add: E_def)
    moreover have "d j = sl * h (j + 1) * d (j + 1) + sw * V (j + 1) (j + 1)"
      using d_eq [OF j] by (simp add: V_def)
    moreover have "c j = h (j + 1) * d (j + 1)" by (rule c_eq [OF j])
    moreover have "bb (j + 1) = (a j + bb j * sl) * h (j + 1)"
      using b_eq [of "j + 1"] j by simp
    ultimately show ?thesis
      unfolding Z_def U by (simp add: algebra_simps)
  qed
  have Z_const: "Z (start + n) = Z start" if "start + n < en" for n
    using that
  proof (induction n)
    case 0
    show ?case by simp
  next
    case (Suc n)
    then have "Z (start + n) = Z start" by simp
    moreover have "Z (start + n) = Z (start + n + 1)"
      using Suc.prems by (intro Z_step) simp_all
    ultimately show ?case by simp
  qed
  have "Z (en - 1) = Z start"
    using Z_const [of "en - 1 - start"] se by simp
  moreover have "Z start = bb start * d start + sf * (\<Sum>e = start + 1..min (start + M) en. g start e * c (e - 1))"
    by (simp add: Z_def E_def V_def)
  moreover have "Z (en - 1) = a (en - 1) * ft + bb (en - 1) * bt"
  proof -
    have c_last': "c (en - Suc 0) = ft" using c_last by simp
    have V_last: "V b (en - Suc 0) = (if en \<le> b + M then g b en * ft else 0)" for b
      using se by (simp add: V_def c_last')
    have "(\<Sum>b = start..en - 1. E b * V b (en - 1)) =
        (\<Sum>b = start..en - 1. (if en - 1 + 1 \<le> b + M then E b * g b (en - 1 + 1) else 0) * ft)"
      using se by (intro sum.cong) (simp_all add: V_last)
    also have "\<dots> = (\<Sum>b = start..en - 1. if en - 1 + 1 \<le> b + M then E b * g b (en - 1 + 1) else 0) * ft"
      by (simp add: sum_distrib_right)
    also have "(\<Sum>b = start..en - 1. if en - 1 + 1 \<le> b + M then E b * g b (en - 1 + 1) else 0) = a (en - 1)"
      unfolding E_def using a_eq [of "en - 1"] se by simp
    finally show ?thesis
      using d_last by (simp add: Z_def)
  qed
  ultimately show ?thesis by simp
qed

subsection \<open>Agreement of the two totals\<close>

text \<open>
  On a non-empty subsequence within the tables, with \<open>MAX_LEN \<ge> 1\<close> and with every
  accumulation of the two passes a log-sum-exp, \<^verbatim>\<open>backward_algorithm\<close>, run after
  \<^verbatim>\<open>forward_algorithm\<close> on the same object as \<^verbatim>\<open>single_iteration\<close> does, returns the
  total that \<^verbatim>\<open>forward_algorithm\<close> returned; the assertion of \<^verbatim>\<open>single_iteration\<close> on
  their relative difference holds.
\<close>

theorem forward_backward_agree:
  assumes se: "start < end"
    and lf: "end \<le> length (forward s)" and lb: "end \<le> length (backward s)"
    and M: "1 \<le> MAX_LEN s"
    and ex: "exact_passes X s start end"
  shows "fst (forward_algorithm X s start end) =
           fst (backward_algorithm X (snd (forward_algorithm X s start end)) start end) \<and>
         \<bar>(fst (forward_algorithm X s start end)
            - fst (backward_algorithm X (snd (forward_algorithm X s start end)) start end))
           / max (fst (forward_algorithm X s start end))
                 (fst (backward_algorithm X (snd (forward_algorithm X s start end)) start end))\<bar>
           < 1 / 10 ^ 10"
proof -
  let ?FW = "forward_table X s start end"
  let ?BW = "backward_table X s start end"
  have "exp (fst (?FW ! (end - 1))) * exp (lp_ft s) + exp (snd (?FW ! (end - 1))) * exp (lp_bt s) =
      exp (snd (?FW ! start)) * exp (snd (?BW ! start))
      + exp (lp_sf s)
        * (\<Sum>e = start + 1..min (start + MAX_LEN s) end.
             exp (fg_segment_log_likelihood s start e + duration_ll X (fg_duration s) (e - start))
             * exp (fst (?BW ! (e - 1))))"
  proof (rule forward_backward_algebra
      [where a = "\<lambda>i. exp (fst (?FW ! i))" and bb = "\<lambda>i. exp (snd (?FW ! i))"
         and c = "\<lambda>i. exp (fst (?BW ! i))" and d = "\<lambda>i. exp (snd (?BW ! i))"
         and g = "\<lambda>b e. exp (fg_segment_log_likelihood s b e
                               + duration_ll X (fg_duration s) (e - b))"
         and h = "\<lambda>i. exp (bg_segment_log_likelihood s i (i + 1))"
         and sw = "exp (switch_lp X s)" and sl = "exp (self_lp X s)"
         and sb = "exp (lp_sb s)" and M = "MAX_LEN s"])
    show "start < end" by (rule se)
    show "1 \<le> MAX_LEN s" by (rule M)
    show "exp (fst (?FW ! i)) =
        (\<Sum>b = start..i. if i + 1 \<le> b + MAX_LEN s
           then (if b = start then exp (lp_sf s)
                 else exp (snd (?FW ! (b - 1))) * exp (switch_lp X s))
                * exp (fg_segment_log_likelihood s b (i + 1)
                       + duration_ll X (fg_duration s) (i + 1 - b))
           else 0)" if "start \<le> i" "i < end" for i
      by (rule forward_exp_foreground [OF se lf M ex that])
    show "exp (snd (?FW ! start)) =
        exp (lp_sb s) * exp (bg_segment_log_likelihood s start (start + 1))"
      by (rule forward_exp_background(1) [OF se lf ex])
    show "exp (snd (?FW ! i)) =
        (exp (fst (?FW ! (i - 1))) + exp (snd (?FW ! (i - 1))) * exp (self_lp X s))
        * exp (bg_segment_log_likelihood s i (i + 1))" if "start < i" "i < end" for i
      by (rule forward_exp_background(2) [OF se lf ex that])
    show "exp (fst (?BW ! (end - 1))) = exp (lp_ft s)"
      by (rule backward_exp(1) [OF se lb ex])
    show "exp (fst (?BW ! i)) =
        exp (bg_segment_log_likelihood s (i + 1) (i + 1 + 1)) * exp (snd (?BW ! (i + 1)))"
      if "start \<le> i" "i + 1 < end" for i
      by (rule backward_exp(3) [OF se lb ex that])
    show "exp (snd (?BW ! (end - 1))) = exp (lp_bt s)"
      by (rule backward_exp(2) [OF se lb ex])
    show "exp (snd (?BW ! i)) =
        exp (self_lp X s) * exp (bg_segment_log_likelihood s (i + 1) (i + 1 + 1))
          * exp (snd (?BW ! (i + 1)))
        + exp (switch_lp X s)
          * (\<Sum>e = i + 2..min (i + 1 + MAX_LEN s) end.
               exp (fg_segment_log_likelihood s (i + 1) e
                    + duration_ll X (fg_duration s) (e - (i + 1)))
               * exp (fst (?BW ! (e - 1))))"
      if "start \<le> i" "i + 1 < end" for i
      by (rule backward_exp(4) [OF se lb ex that])
  qed
  also have "exp (snd (?FW ! start)) =
      exp (lp_sb s) * exp (bg_segment_log_likelihood s start (start + 1))"
    by (rule forward_exp_background(1) [OF se lf ex])
  finally have "exp (fst (forward_algorithm X s start end)) =
      exp (fst (backward_algorithm X s start end))"
    by (simp only: forward_exp_total [OF ex] backward_exp_total [OF se ex])
  then have "fst (forward_algorithm X s start end) = fst (backward_algorithm X s start end)"
    by simp
  moreover have "fst (backward_algorithm X (snd (forward_algorithm X s start end)) start end) =
      fst (backward_algorithm X s start end)"
    by (simp add: forward_algorithm_def Let_def backward_algorithm_forward_update)
  ultimately show ?thesis by simp
qed

text \<open>
  The two-site input with the \<^verbatim>\<open>log_sum_log\<close> that reads \<open>0.0\<close> as the empty sum meets
  the conditions; its total is \<open>ln (3 / (2 * 10 ^ 10))\<close>.
\<close>

lemma lse_sentinel_exp:
  "p \<noteq> 0 \<Longrightarrow> q \<noteq> 0 \<Longrightarrow> exp (lse_sentinel p q) = exp p + exp q"
  by (simp add: lse_sentinel_def add_pos_pos)

lemma lse_sentinel_empty: "lse_sentinel 0 q = q"
  by (simp add: lse_sentinel_def)

lemma sizes_tables:
  "sizes t = sizes s \<Longrightarrow>
   length (forward t) = length (forward s) \<and> length (backward t) = length (backward s)"
  by (simp add: sizes_def)

lemma two_sites_tables:
  "length (forward (two_sites lsl)) = 2" "length (backward (two_sites lsl)) = 2"
proof -
  let ?s0 = "TwoStateHDHMM [(9, 1), (9, 1)] [0, 2] 2 (1 / 10 ^ 10) (1 / 10 ^ 10) 2 False
                () (1 / 2) (0 :: real) :: (unit, real) hmm"
  have "sizes (two_sites lsl) = sizes (set_parameters (two_sites_model lsl) () () (1 / 2) (1 / 2) ?s0)"
    by (simp add: two_sites_def)
  from sizes_tables [OF this]
  show "length (forward (two_sites lsl)) = 2" "length (backward (two_sites lsl)) = 2"
    by (simp_all add: set_parameters_def update_observation_likelihood_def TwoStateHDHMM_def)
qed

lemma two_sites_more_fields:
  "lp_sb (two_sites lsl) = ln (1 / 2)"
  "lp_ft (two_sites lsl) = ln (1 / 10 ^ 10)" "lp_bt (two_sites lsl) = ln (1 / 10 ^ 10)"
  "bg_log_likelihood (two_sites lsl) = [0, 0]"
  "bg_duration (two_sites lsl) = 1 / 2"
  by (simp_all add: two_sites_def backward_algorithm_def forward_algorithm_def Let_def
      set_parameters_def update_observation_likelihood_def TwoStateHDHMM_def prefix_ll_def
      two_sites_model_def unit_model_def)

lemma two_sites_model_fields:
  "log_sum_log (two_sites_model lsl) = lsl"
  "duration_ll (two_sites_model lsl) = (\<lambda>d l. 0)"
  "duration_params (two_sites_model lsl) = (\<lambda>d. [d])"
  by (simp_all add: two_sites_model_def unit_model_def)

lemma two_sites_lps:
  "self_lp (two_sites_model lsl) (two_sites lsl) = ln (1 / 2)"
  "switch_lp (two_sites_model lsl) (two_sites lsl) = ln (1 / 2)"
  by (simp_all add: self_lp_def switch_lp_def two_sites_more_fields two_sites_model_fields)

lemma two_sites_segments:
  "fg_segment_log_likelihood (two_sites lsl) 0 (Suc 0) = 0"
  "fg_segment_log_likelihood (two_sites lsl) 0 2 = 0"
  "fg_segment_log_likelihood (two_sites lsl) (Suc 0) 2 = 0"
  "bg_segment_log_likelihood (two_sites lsl) 0 (Suc 0) = 0"
  "bg_segment_log_likelihood (two_sites lsl) (Suc 0) 2 = 0"
  "fg_segment_log_likelihood (two_sites lsl) 0 (Suc (Suc 0)) = 0"
  "fg_segment_log_likelihood (two_sites lsl) (Suc 0) (Suc (Suc 0)) = 0"
  "bg_segment_log_likelihood (two_sites lsl) (Suc 0) (Suc (Suc 0)) = 0"
  by (simp_all add: fg_segment_log_likelihood_def bg_segment_log_likelihood_def
      two_sites_fields two_sites_more_fields)

lemma upt_Suc_0_2: "[Suc 0..<2] = [Suc 0]"
  by (simp add: upt_rec)

lemma upt_Suc_0_3: "[Suc 0..<3] = [Suc 0, 2]"
  by (simp add: upt_rec)

lemma two_sites_forward_0:
  "forward_table (two_sites_model lsl) (two_sites lsl) 0 2 ! 0 = (ln (1 / 2), ln (1 / 2))"
  using forward_table_nth(1) [of 0 2 "two_sites lsl" "two_sites_model lsl"]
  by (simp add: two_sites_tables two_sites_fields two_sites_more_fields two_sites_segments
      two_sites_model_fields)

lemma two_sites_forward_1:
  "forward_table (two_sites_model lsl) (two_sites lsl) 0 2 ! Suc 0 =
     (lsl (lsl 0 (ln (1 / 2) + ln (1 / 2))) (ln (1 / 2)),
      lsl (ln (1 / 2)) (ln (1 / 2) + ln (1 / 2)))"
proof -
  have "forward_table (two_sites_model lsl) (two_sites lsl) 0 2 ! Suc 0 =
      forward_entry (two_sites_model lsl) (two_sites lsl) 0
        (forward_table (two_sites_model lsl) (two_sites lsl) 0 2) (Suc 0) 0"
    using forward_table_nth(2) [of 0 2 "two_sites lsl" "Suc 0" "two_sites_model lsl"]
    by (simp add: two_sites_tables)
  then show ?thesis
    by (simp add: forward_entry_def forward_lengths_def forward_fg_seg_llh_def Let_def
        two_sites_fields two_sites_more_fields two_sites_segments two_sites_model_fields
        two_sites_lps two_sites_forward_0 upt_Suc_0_3)
qed

lemma two_sites_backward_table_1:
  "backward_table (two_sites_model lsl) (two_sites lsl) 0 2 ! Suc 0 =
     (ln (1 / 10 ^ 10), ln (1 / 10 ^ 10))"
  using backward_table_nth(1) [of 0 2 "two_sites lsl" "two_sites_model lsl"]
  by (simp add: two_sites_tables two_sites_more_fields)

lemma two_sites_backward_table_0:
  "backward_table (two_sites_model lsl) (two_sites lsl) 0 2 ! 0 =
     (ln (1 / 10 ^ 10),
      lsl (ln (1 / 2) + ln (1 / 10 ^ 10)) (ln (1 / 2) + ln (1 / 10 ^ 10)))"
proof -
  have "backward_table (two_sites_model lsl) (two_sites lsl) 0 2 ! 0 =
      backward_entry (two_sites_model lsl) (two_sites lsl) 2
        (backward_table (two_sites_model lsl) (two_sites lsl) 0 2) 0"
    using backward_table_nth(2) [of 0 2 "two_sites lsl" 0 "two_sites_model lsl"]
    by (simp add: two_sites_tables)
  then show ?thesis
    by (simp add: backward_entry_def backward_lengths_def backward_fg_seg_llh_def Let_def
        two_sites_fields two_sites_more_fields two_sites_segments two_sites_model_fields
        two_sites_lps two_sites_backward_table_1 upt_Suc_0_2)
qed

lemma lse_sentinel_ln:
  assumes "0 < a" "0 < b" "a \<noteq> 1" "b \<noteq> 1"
  shows "lse_sentinel (ln a) (ln b) = ln (a + b)"
  using assms by (simp add: lse_sentinel_def)

lemma ln_half_twice: "ln (1 / 2) + ln (1 / 2) = ln (1 / 4 :: real)"
  using ln_mult [of "1 / 2 :: real" "1 / 2"] by simp

lemma ln_half_tiny: "ln (1 / 2) + ln (1 / 10 ^ 10) = ln (1 / (2 * 10 ^ 10) :: real)"
  using ln_mult [of "1 / 2 :: real" "1 / 10 ^ 10"] by simp

lemma ln_three_quarters_tiny:
  "ln (3 / 4) + ln (1 / 10 ^ 10) = ln (3 / (4 * 10 ^ 10) :: real)"
  using ln_mult [of "3 / 4 :: real" "1 / 10 ^ 10"] by simp

lemma two_sites_forward_values:
  "forward_table (two_sites_model lse_sentinel) (two_sites lse_sentinel) 0 2 ! 0 =
     (ln (1 / 2), ln (1 / 2))"
  "forward_table (two_sites_model lse_sentinel) (two_sites lse_sentinel) 0 2 ! Suc 0 =
     (ln (3 / 4), ln (3 / 4))"
proof -
  show "forward_table (two_sites_model lse_sentinel) (two_sites lse_sentinel) 0 2 ! 0 =
     (ln (1 / 2), ln (1 / 2))"
    by (rule two_sites_forward_0)
  have a: "lse_sentinel 0 (ln (1 / 4)) = ln (1 / 4)"
    by (rule lse_sentinel_empty)
  have b: "lse_sentinel (ln (1 / 4)) (ln (1 / 2)) = ln (3 / 4)"
    using lse_sentinel_ln [of "1 / 4" "1 / 2"] by simp
  have c: "lse_sentinel (ln (1 / 2)) (ln (1 / 4)) = ln (3 / 4)"
    using lse_sentinel_ln [of "1 / 2" "1 / 4"] by simp
  show "forward_table (two_sites_model lse_sentinel) (two_sites lse_sentinel) 0 2 ! Suc 0 =
     (ln (3 / 4), ln (3 / 4))"
    unfolding two_sites_forward_1 ln_half_twice a b c ..
qed

lemma two_sites_backward_values:
  "backward_table (two_sites_model lse_sentinel) (two_sites lse_sentinel) 0 2 ! Suc 0 =
     (ln (1 / 10 ^ 10), ln (1 / 10 ^ 10))"
  "backward_table (two_sites_model lse_sentinel) (two_sites lse_sentinel) 0 2 ! 0 =
     (ln (1 / 10 ^ 10), ln (1 / 10 ^ 10))"
proof -
  show "backward_table (two_sites_model lse_sentinel) (two_sites lse_sentinel) 0 2 ! Suc 0 =
     (ln (1 / 10 ^ 10), ln (1 / 10 ^ 10))"
    by (rule two_sites_backward_table_1)
  have a: "lse_sentinel (ln (1 / (2 * 10 ^ 10))) (ln (1 / (2 * 10 ^ 10))) = ln (1 / 10 ^ 10)"
    using lse_sentinel_ln [of "1 / (2 * 10 ^ 10)" "1 / (2 * 10 ^ 10)"] by simp
  show "backward_table (two_sites_model lse_sentinel) (two_sites lse_sentinel) 0 2 ! 0 =
     (ln (1 / 10 ^ 10), ln (1 / 10 ^ 10))"
    unfolding two_sites_backward_table_0 ln_half_tiny a ..
qed

lemma exact_forward_foreground: "exact_from_empty lse_sentinel [ln (1 / 4), ln (1 / 2)]"
proof -
  have "lse_sentinel (ln (1 / 4)) (ln (1 / 2)) = ln (3 / 4)"
    using lse_sentinel_ln [of "1 / 4" "1 / 2"] by simp
  then show ?thesis
    by (simp add: exact_from_empty_def lse_sentinel_empty)
qed

lemma exact_forward_background: "exact_from lse_sentinel (ln (1 / 2)) [ln (1 / 4)]"
proof -
  have "lse_sentinel (ln (1 / 2)) (ln (1 / 4)) = ln (3 / 4)"
    using lse_sentinel_ln [of "1 / 2" "1 / 4"] by simp
  then show ?thesis
    by (simp add: exact_from_def)
qed

lemma exact_forward_total:
  "exact_from lse_sentinel (ln (3 / (4 * 10 ^ 10))) [ln (3 / (4 * 10 ^ 10))]"
proof -
  have "lse_sentinel (ln (3 / (4 * 10 ^ 10))) (ln (3 / (4 * 10 ^ 10))) =
      ln (3 / (4 * 10 ^ 10) + 3 / (4 * 10 ^ 10))"
    by (rule lse_sentinel_ln) simp_all
  then show ?thesis
    by (simp add: exact_from_def)
qed

lemma exact_backward_step:
  "exact_from lse_sentinel (ln (1 / (2 * 10 ^ 10))) [ln (1 / (2 * 10 ^ 10))]"
proof -
  have "lse_sentinel (ln (1 / (2 * 10 ^ 10))) (ln (1 / (2 * 10 ^ 10))) =
      ln (1 / (2 * 10 ^ 10) + 1 / (2 * 10 ^ 10))"
    by (rule lse_sentinel_ln) simp_all
  then show ?thesis
    by (simp add: exact_from_def)
qed

lemma exact_backward_total:
  "exact_from lse_sentinel (ln (1 / (2 * 10 ^ 10)))
     [ln (1 / (2 * 10 ^ 10)), ln (1 / (2 * 10 ^ 10))]"
proof -
  have a: "lse_sentinel (ln (1 / (2 * 10 ^ 10))) (ln (1 / (2 * 10 ^ 10))) = ln (1 / 10 ^ 10)"
    using lse_sentinel_ln [of "1 / (2 * 10 ^ 10)" "1 / (2 * 10 ^ 10)"] by simp
  have b: "lse_sentinel (ln (1 / 10 ^ 10)) (ln (1 / (2 * 10 ^ 10))) =
      ln (1 / 10 ^ 10 + 1 / (2 * 10 ^ 10))"
    by (rule lse_sentinel_ln) simp_all
  show ?thesis
    unfolding exact_from_def by (simp only: foldl.simps a b) simp
qed

lemma two_sites_forward_terms:
  "map (forward_fg_seg_llh (two_sites_model lse_sentinel) (two_sites lse_sentinel) 0
          (forward_table (two_sites_model lse_sentinel) (two_sites lse_sentinel) 0 2) (Suc 0))
       (forward_lengths (two_sites lse_sentinel) 0 (Suc 0)) = [ln (1 / 4), ln (1 / 2)]"
proof -
  have "map (forward_fg_seg_llh (two_sites_model lse_sentinel) (two_sites lse_sentinel) 0
          (forward_table (two_sites_model lse_sentinel) (two_sites lse_sentinel) 0 2) (Suc 0))
       (forward_lengths (two_sites lse_sentinel) 0 (Suc 0)) =
      [ln (1 / 2) + ln (1 / 2), ln (1 / 2)]"
    by (simp add: forward_lengths_def forward_fg_seg_llh_def Let_def two_sites_fields
        two_sites_more_fields two_sites_segments two_sites_model_fields two_sites_lps
        two_sites_forward_values upt_Suc_0_3)
  then show ?thesis
    by (simp only: ln_half_twice)
qed

lemma two_sites_backward_terms:
  "map (backward_fg_seg_llh (two_sites_model lse_sentinel) (two_sites lse_sentinel)
          (backward_table (two_sites_model lse_sentinel) (two_sites lse_sentinel) 0 2) 0)
       (backward_lengths (two_sites lse_sentinel) 2 0) = [ln (1 / (2 * 10 ^ 10))]"
proof -
  have "map (backward_fg_seg_llh (two_sites_model lse_sentinel) (two_sites lse_sentinel)
          (backward_table (two_sites_model lse_sentinel) (two_sites lse_sentinel) 0 2) 0)
       (backward_lengths (two_sites lse_sentinel) 2 0) = [ln (1 / 2) + ln (1 / 10 ^ 10)]"
    by (simp add: backward_lengths_def backward_fg_seg_llh_def Let_def two_sites_fields
        two_sites_more_fields two_sites_segments two_sites_model_fields two_sites_lps
        two_sites_backward_values upt_Suc_0_2)
  then show ?thesis
    by (simp only: ln_half_tiny)
qed

lemma two_sites_backward_first_terms:
  "map (backward_first_llh (two_sites_model lse_sentinel) (two_sites lse_sentinel)
          (backward_table (two_sites_model lse_sentinel) (two_sites lse_sentinel) 0 2) 0)
       (backward_first_lengths (two_sites lse_sentinel) 0 2) =
     [ln (1 / (2 * 10 ^ 10)), ln (1 / (2 * 10 ^ 10))]"
proof -
  have "map (backward_first_llh (two_sites_model lse_sentinel) (two_sites lse_sentinel)
          (backward_table (two_sites_model lse_sentinel) (two_sites lse_sentinel) 0 2) 0)
       (backward_first_lengths (two_sites lse_sentinel) 0 2) =
      [ln (1 / 2) + ln (1 / 10 ^ 10), ln (1 / 2) + ln (1 / 10 ^ 10)]"
    by (simp add: backward_first_lengths_def backward_first_llh_def Let_def two_sites_fields
        two_sites_more_fields two_sites_segments two_sites_model_fields two_sites_lps
        two_sites_backward_values upt_Suc_0_3)
  then show ?thesis
    by (simp only: ln_half_tiny)
qed

lemma two_sites_exact_passes:
  "exact_passes (two_sites_model lse_sentinel) (two_sites lse_sentinel) 0 2"
proof -
  let ?X = "two_sites_model lse_sentinel"
  let ?s = "two_sites lse_sentinel"
  let ?fw = "forward_table ?X ?s 0 2"
  let ?bw = "backward_table ?X ?s 0 2"
  have lsl: "log_sum_log ?X = lse_sentinel"
    by (rule two_sites_model_fields)
  have p1: "exact_from_empty (log_sum_log ?X)
      (map (forward_fg_seg_llh ?X ?s 0 ?fw (Suc 0)) (forward_lengths ?s 0 (Suc 0)))"
    unfolding lsl two_sites_forward_terms by (rule exact_forward_foreground)
  have "[snd (?fw ! 0) + self_lp ?X ?s] = [ln (1 / 4)]"
    by (simp only: two_sites_forward_values two_sites_lps snd_conv ln_half_twice)
  then have p2: "exact_from (log_sum_log ?X) (fst (?fw ! 0)) [snd (?fw ! 0) + self_lp ?X ?s]"
    using exact_forward_background
    by (simp only: lsl two_sites_forward_values fst_conv)
  have "fst (?fw ! Suc 0) + lp_ft ?s = ln (3 / (4 * 10 ^ 10))"
    "snd (?fw ! Suc 0) + lp_bt ?s = ln (3 / (4 * 10 ^ 10))"
    by (simp_all only: two_sites_forward_values two_sites_more_fields fst_conv snd_conv
        ln_three_quarters_tiny)
  then have p3: "exact_from (log_sum_log ?X) (fst (?fw ! Suc 0) + lp_ft ?s)
      [snd (?fw ! Suc 0) + lp_bt ?s]"
    using exact_forward_total by (simp only: lsl)
  have "self_lp ?X ?s + bg_segment_log_likelihood ?s (Suc 0) (Suc (Suc 0)) + snd (?bw ! Suc 0) =
      ln (1 / (2 * 10 ^ 10))"
    using ln_half_tiny
    by (simp add: two_sites_lps two_sites_segments two_sites_backward_values)
  then have p4: "exact_from (log_sum_log ?X)
      (self_lp ?X ?s + bg_segment_log_likelihood ?s (Suc 0) (Suc (Suc 0)) + snd (?bw ! Suc 0))
      (map (backward_fg_seg_llh ?X ?s ?bw 0) (backward_lengths ?s 2 0))"
    using exact_backward_step by (simp only: lsl two_sites_backward_terms)
  have "lp_sb ?s + bg_segment_log_likelihood ?s 0 (Suc 0) + snd (?bw ! 0) =
      ln (1 / (2 * 10 ^ 10))"
    using ln_half_tiny
    by (simp add: two_sites_more_fields two_sites_segments two_sites_backward_values)
  then have p5: "exact_from (log_sum_log ?X)
      (lp_sb ?s + bg_segment_log_likelihood ?s 0 (Suc 0) + snd (?bw ! 0))
      (map (backward_first_llh ?X ?s ?bw 0) (backward_first_lengths ?s 0 2))"
    using exact_backward_total by (simp only: lsl two_sites_backward_first_terms)
  have r: "[0 + 1..<2] = [Suc 0]" "[0..<2 - 1] = [0]"
    by (simp_all add: upt_rec)
  show ?thesis
    unfolding exact_passes_def Let_def r
    using p1 p2 p3 p4 p5 by simp
qed

lemma forward_backward_agree_two_sites:
  "(0 :: nat) < 2 \<and>
   2 \<le> length (forward (two_sites lse_sentinel)) \<and>
   2 \<le> length (backward (two_sites lse_sentinel)) \<and>
   1 \<le> MAX_LEN (two_sites lse_sentinel) \<and>
   exact_passes (two_sites_model lse_sentinel) (two_sites lse_sentinel) 0 2 \<and>
   fst (forward_algorithm (two_sites_model lse_sentinel) (two_sites lse_sentinel) 0 2) =
     fst (backward_algorithm (two_sites_model lse_sentinel)
            (snd (forward_algorithm (two_sites_model lse_sentinel) (two_sites lse_sentinel) 0 2))
            0 2)"
  using forward_backward_agree [of 0 2 "two_sites lse_sentinel" "two_sites_model lse_sentinel"]
    two_sites_exact_passes
  by (simp add: two_sites_tables two_sites_fields)

lemma two_sites_forward_total:
  "fst (forward_algorithm (two_sites_model lse_sentinel) (two_sites lse_sentinel) 0 2) =
     ln (3 / (2 * 10 ^ 10))"
proof -
  have "lse_sentinel (ln (3 / (4 * 10 ^ 10))) (ln (3 / (4 * 10 ^ 10))) =
      ln (3 / (4 * 10 ^ 10) + 3 / (4 * 10 ^ 10))"
    by (rule lse_sentinel_ln) simp_all
  then have a: "lse_sentinel (ln (3 / (4 * 10 ^ 10))) (ln (3 / (4 * 10 ^ 10))) =
      ln (3 / (2 * 10 ^ 10))"
    by simp
  have "fst (forward_algorithm (two_sites_model lse_sentinel) (two_sites lse_sentinel) 0 2) =
      lse_sentinel (ln (3 / 4) + ln (1 / 10 ^ 10)) (ln (3 / 4) + ln (1 / 10 ^ 10))"
    using two_sites_forward_values(2)
    by (simp add: forward_algorithm_def Let_def two_sites_model_fields two_sites_more_fields)
  then show ?thesis
    by (simp only: ln_three_quarters_tiny a)
qed

subsection \<open>\<open>MAX_LEN = 0\<close>\<close>

text \<open>
  The base case of \<^verbatim>\<open>forward_algorithm\<close> scores the foreground segment
  \<open>[start, start + 1)\<close> whatever \<open>MAX_LEN\<close> is; the closing loop of
  \<^verbatim>\<open>backward_algorithm\<close> runs over the lengths \<open>1 \<le> l \<le> min (end - start) MAX_LEN\<close>.
\<close>

lemma site_without_foreground_forward:
  "fst (forward_algorithm (two_sites_model lsl) (site_without_foreground lsl) 0 1) =
     lsl (ln (1 / 2) + ln (1 / 10 ^ 10)) (ln (1 / 2) + ln (1 / 10 ^ 10))"
  by (simp add: forward_algorithm_def forward_table_def fill_range_def Let_def
      site_without_foreground_def set_parameters_def update_observation_likelihood_def
      TwoStateHDHMM_def prefix_ll_def two_sites_model_def unit_model_def
      fg_segment_log_likelihood_def bg_segment_log_likelihood_def)

lemma site_without_foreground_backward:
  "fst (backward_algorithm (two_sites_model lsl)
          (snd (forward_algorithm (two_sites_model lsl) (site_without_foreground lsl) 0 1)) 0 1) =
     ln (1 / 2) + ln (1 / 10 ^ 10)"
  by (simp add: backward_algorithm_forward_update forward_algorithm_def
      backward_algorithm_def backward_table_def backward_first_lengths_def fill_range_def Let_def
      site_without_foreground_def set_parameters_def update_observation_likelihood_def
      TwoStateHDHMM_def prefix_ll_def two_sites_model_def unit_model_def
      bg_segment_log_likelihood_def)

lemma lse_exact_twice:
  "lse_exact (ln (1 / 2) + ln (1 / 10 ^ 10)) (ln (1 / 2) + ln (1 / 10 ^ 10)) = ln (1 / 10 ^ 10)"
  by (simp add: lse_exact_def exp_add)

lemma lse_sentinel_twice:
  "lse_sentinel (ln (1 / 2) + ln (1 / 10 ^ 10)) (ln (1 / 2) + ln (1 / 10 ^ 10)) =
     ln (1 / 10 ^ 10)"
proof -
  have "lse_sentinel (ln (1 / (2 * 10 ^ 10))) (ln (1 / (2 * 10 ^ 10))) = ln (1 / 10 ^ 10)"
    using lse_sentinel_ln [of "1 / (2 * 10 ^ 10)" "1 / (2 * 10 ^ 10)"] by simp
  then show ?thesis
    by (simp only: ln_half_tiny)
qed

lemma totals_apart:
  "1 / 10 ^ 10 \<le>
     \<bar>(ln (1 / 10 ^ 10) - (ln (1 / 2) + ln (1 / 10 ^ 10)))
        / max (ln (1 / 10 ^ 10)) (ln (1 / 2) + ln (1 / 10 ^ 10 :: real))\<bar>"
proof -
  define c1 where "c1 = ln (1 / 2 :: real)"
  define c2 where "c2 = ln (1 / 10 ^ 10 :: real)"
  have c1: "c1 \<le> - (1 / 2)"
    unfolding c1_def using ln_le_minus_one [of "1 / 2 :: real"] by simp
  have "ln (10 :: real) \<le> 9"
    using ln_le_minus_one [of "10 :: real"] by simp
  moreover have "c2 = - (10 * ln 10)"
    unfolding c2_def using ln_realpow [of "10 :: real" 10] by (simp add: ln_div)
  moreover have "0 < ln (10 :: real)"
    by simp
  ultimately have c2: "- 90 \<le> c2" "c2 < 0"
    by linarith+
  have m: "max c2 (c1 + c2) = c2"
    using c1 by simp
  have eq: "(c2 - (c1 + c2)) / c2 = - ((- c1) / (- c2))"
    by simp
  have pos: "0 \<le> (- c1) / (- c2)"
    using c1 c2 by (intro divide_nonneg_pos) simp_all
  have "1 / 10 ^ 10 * (- c2) \<le> 1 / 10 ^ 10 * 90"
    using c2 by simp
  also have "\<dots> \<le> - c1"
    using c1 by simp
  finally have "1 / 10 ^ 10 \<le> (- c1) / (- c2)"
    using c2 by (simp add: pos_le_divide_eq)
  then have "1 / 10 ^ 10 \<le> \<bar>(c2 - (c1 + c2)) / max c2 (c1 + c2)\<bar>"
    unfolding m eq using pos by linarith
  then show ?thesis
    unfolding c1_def c2_def .
qed

text \<open>
  C2. The forward and the backward total of a subsequence are claimed to agree
  within relative tolerance \<open>1e-10\<close>, which \<^verbatim>\<open>single_iteration\<close> asserts. On one
  observation with \<open>MAX_LEN = 0\<close> the forward total combines the foreground and
  the background path, \<open>ln (1 / 10 ^ 10)\<close>, and the backward total is the background
  path alone, \<open>ln (1 / 2) + ln (1 / 10 ^ 10)\<close>: their relative difference is at least
  \<open>1e-10\<close> and the assertion fails.
\<close>

theorem forward_backward_disagree:
  "MAX_LEN (site_without_foreground lse_sentinel) = 0 \<and>
   fst (forward_algorithm (two_sites_model lse_sentinel) (site_without_foreground lse_sentinel) 0 1) =
     ln (1 / 10 ^ 10) \<and>
   fst (backward_algorithm (two_sites_model lse_sentinel)
          (snd (forward_algorithm (two_sites_model lse_sentinel)
                  (site_without_foreground lse_sentinel) 0 1)) 0 1) =
     ln (1 / 2) + ln (1 / 10 ^ 10) \<and>
   1 / 10 ^ 10 \<le>
     \<bar>(fst (forward_algorithm (two_sites_model lse_sentinel)
               (site_without_foreground lse_sentinel) 0 1)
        - fst (backward_algorithm (two_sites_model lse_sentinel)
                 (snd (forward_algorithm (two_sites_model lse_sentinel)
                         (site_without_foreground lse_sentinel) 0 1)) 0 1))
       / max (fst (forward_algorithm (two_sites_model lse_sentinel)
                     (site_without_foreground lse_sentinel) 0 1))
             (fst (backward_algorithm (two_sites_model lse_sentinel)
                     (snd (forward_algorithm (two_sites_model lse_sentinel)
                             (site_without_foreground lse_sentinel) 0 1)) 0 1))\<bar>"
proof -
  have "MAX_LEN (site_without_foreground lse_sentinel) = 0"
    by (simp add: site_without_foreground_def set_parameters_def
        update_observation_likelihood_def TwoStateHDHMM_def)
  then show ?thesis
    unfolding site_without_foreground_forward site_without_foreground_backward
      lse_sentinel_twice
    using totals_apart by (intro conjI refl)
qed

text \<open>The same holds when \<^verbatim>\<open>log_sum_log\<close> is the log-sum-exp at every argument.\<close>

lemma forward_backward_disagree_exact:
  "1 / 10 ^ 10 \<le>
     \<bar>(fst (forward_algorithm (two_sites_model lse_exact)
               (site_without_foreground lse_exact) 0 1)
        - fst (backward_algorithm (two_sites_model lse_exact)
                 (snd (forward_algorithm (two_sites_model lse_exact)
                         (site_without_foreground lse_exact) 0 1)) 0 1))
       / max (fst (forward_algorithm (two_sites_model lse_exact)
                     (site_without_foreground lse_exact) 0 1))
             (fst (backward_algorithm (two_sites_model lse_exact)
                     (snd (forward_algorithm (two_sites_model lse_exact)
                             (site_without_foreground lse_exact) 0 1)) 0 1))\<bar>"
  unfolding site_without_foreground_forward site_without_foreground_backward lse_exact_twice
  by (rule totals_apart)

text \<open>
  The foreground slot of the forward table at \<open>start\<close> is written by the base case
  alone.
\<close>

lemma forward_algorithm_table:
  "forward (snd (forward_algorithm X s start end)) = forward_table X s start end"
  by (simp add: forward_algorithm_def Let_def)

lemma site_without_foreground_fields:
  "MAX_LEN (site_without_foreground lsl) = 0"
  "length (forward (site_without_foreground lsl)) = 1"
  "length (backward (site_without_foreground lsl)) = 1"
  "length (fg_posteriors (site_without_foreground lsl)) = 1"
  "length (bg_posteriors (site_without_foreground lsl)) = 1"
  "lp_sf (site_without_foreground lsl) = ln (1 / 2)"
  "lp_sb (site_without_foreground lsl) = ln (1 / 2)"
  "lp_ft (site_without_foreground lsl) = ln (1 / 10 ^ 10)"
  "lp_bt (site_without_foreground lsl) = ln (1 / 10 ^ 10)"
  "fg_log_likelihood (site_without_foreground lsl) = [0]"
  "bg_log_likelihood (site_without_foreground lsl) = [0]"
  by (simp_all add: site_without_foreground_def set_parameters_def
      update_observation_likelihood_def TwoStateHDHMM_def prefix_ll_def
      two_sites_model_def unit_model_def)

text \<open>
  C8. No span longer than \<open>MAX_LEN\<close> is claimed to be scored as a single foreground
  segment. The base case of \<^verbatim>\<open>forward_algorithm\<close> scores the span \<open>[start, start + 1)\<close>
  without consulting \<open>MAX_LEN\<close>: on every object with \<open>MAX_LEN = 0\<close> and every
  non-empty subsequence within the table, the foreground slot of the forward table
  at \<open>start\<close> holds the start prior plus the likelihood and the duration density of
  that span, whose length 1 exceeds \<open>MAX_LEN\<close>.
\<close>

theorem forward_base_case_exceeds_MAX_LEN:
  assumes "start < end" and "end \<le> length (forward s)" and "MAX_LEN s = 0"
  shows "fst (forward (snd (forward_algorithm X s start end)) ! start) =
           lp_sf s + fg_segment_log_likelihood s start (start + 1)
             + duration_ll X (fg_duration s) (start + 1 - start) \<and>
         MAX_LEN s < start + 1 - start"
  using forward_table_nth(1) [OF assms(1,2), of X] assms(3)
  by (simp add: forward_algorithm_table)

theorem forward_base_case_exceeds_MAX_LEN_witness:
  "(0 :: nat) < 1 \<and> 1 \<le> length (forward (site_without_foreground lse_sentinel)) \<and>
   MAX_LEN (site_without_foreground lse_sentinel) = 0 \<and>
   fst (forward (snd (forward_algorithm (two_sites_model lse_sentinel)
                        (site_without_foreground lse_sentinel) 0 1)) ! 0) =
     lp_sf (site_without_foreground lse_sentinel)
       + fg_segment_log_likelihood (site_without_foreground lse_sentinel) 0 (0 + 1)
       + duration_ll (two_sites_model lse_sentinel)
           (fg_duration (site_without_foreground lse_sentinel)) (0 + 1 - 0) \<and>
   fst (forward (snd (forward_algorithm (two_sites_model lse_sentinel)
                        (site_without_foreground lse_sentinel) 0 1)) ! 0) = ln (1 / 2) \<and>
   MAX_LEN (site_without_foreground lse_sentinel) < 0 + 1 - 0"
  using forward_base_case_exceeds_MAX_LEN [of 0 1 "site_without_foreground lse_sentinel"
      "two_sites_model lse_sentinel"]
  by (simp add: site_without_foreground_fields fg_segment_log_likelihood_def
      two_sites_model_fields)

lemma site_without_foreground_evidence:
  "posterior_evidence (two_sites_model lsl)
     (snd (backward_algorithm (two_sites_model lsl)
        (snd (forward_algorithm (two_sites_model lsl) (site_without_foreground lsl) 0 1))
        0 1)) 0 1 =
   ([0], [ln (1 / 2) + ln (1 / 10 ^ 10)])"
  by (simp add: posterior_evidence_def evidence_step_def posterior_ends_def
      backward_algorithm_def forward_algorithm_def Let_def
      forward_table_def backward_table_def fill_range_def
      bg_segment_log_likelihood_def site_without_foreground_fields)

lemma exp_minus_half_tiny: "exp (- (ln (1 / 2) + ln (1 / 10 ^ 10))) = (2 * 10 ^ 10 :: real)"
proof -
  have "exp (- (ln (1 / 2) + ln (1 / 10 ^ 10))) = 1 / exp (ln (1 / 2) + ln (1 / 10 ^ 10) :: real)"
    by (simp only: exp_minus inverse_eq_divide)
  then show ?thesis
    by (simp only: exp_half_tiny) simp
qed

lemma site_without_foreground_posteriors:
  "fg_posteriors (site_without_foreground_posterior lsl) ! 0 =
     exp (0 - lsl 0 (ln (1 / 2) + ln (1 / 10 ^ 10)))"
  "bg_posteriors (site_without_foreground_posterior lsl) ! 0 =
     exp (ln (1 / 2) + ln (1 / 10 ^ 10) - lsl 0 (ln (1 / 2) + ln (1 / 10 ^ 10)))"
  unfolding site_without_foreground_posterior_def estimate_state_posterior_def
    site_without_foreground_evidence
  by (simp_all add: posterior_step_def Let_def site_without_foreground_fields
      two_sites_model_fields sizes_def
      backward_algorithm_def forward_algorithm_def)

text \<open>
  C3. The two posteriors of a position are claimed to sum to 1 within \<open>1e-6\<close>, which
  \<^verbatim>\<open>estimate_state_posterior\<close> asserts. On one observation with \<open>MAX_LEN = 0\<close> no
  segment covers the position and its foreground evidence keeps the initial
  \<open>0.0\<close>; with the \<^verbatim>\<open>log_sum_log\<close> that reads \<open>0.0\<close> as the empty sum the denominator
  is the background evidence, and the posteriors are \<open>2 * 10 ^ 10\<close> and 1: the
  assertion fails.
\<close>

theorem posteriors_without_foreground:
  "MAX_LEN (site_without_foreground lse_sentinel) = 0 \<and>
   fg_posteriors (site_without_foreground_posterior lse_sentinel) ! 0 = 2 * 10 ^ 10 \<and>
   bg_posteriors (site_without_foreground_posterior lse_sentinel) ! 0 = 1 \<and>
   1 / 10 ^ 6 \<le>
     \<bar>fg_posteriors (site_without_foreground_posterior lse_sentinel) ! 0
      + bg_posteriors (site_without_foreground_posterior lse_sentinel) ! 0 - 1\<bar>"
proof -
  have fg: "fg_posteriors (site_without_foreground_posterior lse_sentinel) ! 0 = 2 * 10 ^ 10"
    unfolding site_without_foreground_posteriors lse_sentinel_empty
    using exp_minus_half_tiny by simp
  have bg: "bg_posteriors (site_without_foreground_posterior lse_sentinel) ! 0 = 1"
    unfolding site_without_foreground_posteriors lse_sentinel_empty by simp
  show ?thesis
    unfolding fg bg by (simp add: site_without_foreground_fields)
qed

end
